theory Spec2Isabelle
  imports Main "HOL-Library.Word"
begin

unbundle bit_operations_syntax

section \<open>Machine types and the missing header\<close>

type_synonym u8 = "8 word"
type_synonym u16 = "16 word"
type_synonym u32 = "32 word"

text \<open>
  The driver includes \<^verbatim>\<open>dw-hdmi-qp.h\<close> (register offsets and bit fields) and a few
  kernel headers; none of them is among the sources.  Every macro the driver takes from
  them is a name of the type below, and every function of the model takes the table
  \<open>k\<close> that gives each name its value.  Theorems hold for every table unless they say
  otherwise.
\<close>

datatype macro =
    I2CM_CONTROL0 | I2CM_FM_SCL_CONFIG0 | I2CM_INTERFACE_CONTROL0 | I2CM_INTERFACE_CONTROL1
  | I2CM_INTERFACE_WRDATA_0_3 | I2CM_INTERFACE_RDDATA_0_3
  | I2CM_FM_EN | I2CM_FM_READ | I2CM_FM_WRITE | I2CM_WR_MASK | I2CM_ADDR | I2CM_SLVADDR
  | I2CM_SEG_ADDR | I2CM_SEG_PTR
  | MAINUNIT_0_INT_MASK_N | MAINUNIT_1_INT_MASK_N | MAINUNIT_1_INT_STATUS | MAINUNIT_1_INT_CLEAR
  | I2CM_OP_DONE_IRQ | I2CM_READ_REQUEST_IRQ | I2CM_NACK_RCVD_IRQ
  | I2CM_OP_DONE_MASK_N | I2CM_NACK_RCVD_MASK_N
  | I2CM_OP_DONE_CLEAR | I2CM_NACK_RCVD_CLEAR
  | TIMER_BASE_CONFIG0
  | PKT_AVI_CONTENTS0 | PKT_AVI_CONTENTS1 | PKT_DRMI_CONTENTS0 | PKT_DRMI_CONTENTS1
  | PKTSCHED_PKT_CONFIG1 | PKTSCHED_PKT_EN
  | PKTSCHED_AVI_FIELDRATE | PKTSCHED_DRMI_FIELDRATE
  | PKTSCHED_AVI_TX_EN | PKTSCHED_GCP_TX_EN | PKTSCHED_DRMI_TX_EN
  | LINK_CONFIG0 | OPMODE_DVI | HDCP2LOGIC_CONFIG0 | HDCP2_BYPASS | SCRAMB_CONFIG0
  | DDC_ADDR | I2C_M_RD | DRM_MODE_FLAG_DBLCLK

type_synonym header = "macro \<Rightarrow> u32"

text \<open>The macros of \<^verbatim>\<open>dw-hdmi-common.h\<close>, which is among the sources.\<close>

definition DDC_CI_ADDR :: u32 where "DDC_CI_ADDR = 0x37"
definition DDC_SEGMENT_ADDR :: u32 where "DDC_SEGMENT_ADDR = 0x30"
definition SCDC_MIN_SOURCE_VERSION :: u8 where "SCDC_MIN_SOURCE_VERSION = 0x1"
definition HDMI14_MAX_TMDSCLK :: u32 where "HDMI14_MAX_TMDSCLK = 340000000"

section \<open>Data model\<close>

text \<open>
  The negative return values of the driver.  \<open>OUT_OF_BOUNDS\<close> is not an errno: it marks
  an access outside a message array or buffer, which C leaves undefined (the I2C core
  never passes an empty array, and the transfer function rejects empty buffers first).
\<close>

datatype error = EOPNOTSUPP | EAGAIN | EIO | OUT_OF_BOUNDS

datatype irqreturn = IRQ_NONE | IRQ_HANDLED

text \<open>
  What the controller and the other collaborators see of a run, in order: register
  writes (offset, value), reads (offset) and read-modify-writes (offset, mask, data), a
  wait that ended without a completion, and the calls to the PHY and to the SCDC helpers.
\<close>

datatype event =
    Wr u32 u32
  | Rd u32
  | Mod u32 u32 u32
  | TimedOut
  | PhyInit
  | PhyDisable
  | PhySetupHpd
  | ScdcReadSinkVersion
  | ScdcWriteSourceVersion u8
  | ScdcSetHighTmdsClockRatio bool
  | ScdcSetScrambling bool

record i2c_msg =
  addr :: u16
  flags :: u16
  buf :: "u8 list"

text \<open>The buffer of a message holds exactly \<open>len\<close> bytes.\<close>

definition len :: "i2c_msg \<Rightarrow> nat" where
  "len m = length (buf m)"

record dw_hdmi_i2c =
  lock :: bool
  cmp_done :: nat
  stat :: u8
  slave_reg :: u8
  is_regaddr :: bool
  is_segment :: bool

record hdmi_vmode =
  mdataenablepolarity :: bool
  mpixelclock :: u32
  mpixelrepetitioninput :: u32
  mpixelrepetitionoutput :: u32
  mtmdsclock :: u32

record hdmi_data_info =
  enc_in_bus_format :: u32
  enc_out_bus_format :: u32
  enc_in_encoding :: u32
  enc_out_encoding :: u32
  pix_repet_factor :: u32
  hdcp_enable :: u32
  video_mode :: hdmi_vmode
  rgb_limited_range :: bool

datatype drm_connector_force =
  DRM_FORCE_UNSPECIFIED | DRM_FORCE_OFF | DRM_FORCE_ON | DRM_FORCE_ON_DIGITAL

record drm_display_mode =
  mode_flags :: u32

text \<open>
  Of a connector the driver reads \<open>state->hdr_output_metadata\<close> (absent, or a blob
  whose \<open>hdmi_metadata_type1.eotf\<close> it tests); \<open>display_info\<close> only travels to the
  collaborators.
\<close>

record drm_connector =
  display_info :: nat
  hdr_output_metadata :: "u8 option"

text \<open>
  The controller instance.  \<open>regm\<close> is the register space behind the regmap, \<open>sink\<close> the
  state of whatever sits on the bus behind the controller, \<open>trace\<close> the events so far.
\<close>

record 'd dw_hdmi =
  regm :: "u32 \<Rightarrow> u32"
  i2c :: dw_hdmi_i2c
  hdmi_data :: hdmi_data_info
  vic :: int
  phy_enabled :: bool
  previous_mode :: drm_display_mode
  sink_is_hdmi :: bool
  hdr_sink_eotf :: u8
  use_drm_infoframe :: bool
  force :: drm_connector_force
  curr_conn :: "drm_connector option"
  disabled :: bool
  bridge_is_on :: bool
  rxsense :: bool
  sink :: 'd
  trace :: "event list"

section \<open>Register access layer\<close>

definition dw_hdmi_qp_write :: "'d dw_hdmi \<Rightarrow> u32 \<Rightarrow> u32 \<Rightarrow> 'd dw_hdmi" where
  "dw_hdmi_qp_write hdmi val offset =
     hdmi\<lparr>regm := (regm hdmi)(offset := val), trace := trace hdmi @ [Wr offset val]\<rparr>"

definition dw_hdmi_qp_read :: "'d dw_hdmi \<Rightarrow> u32 \<Rightarrow> u32 \<times> 'd dw_hdmi" where
  "dw_hdmi_qp_read hdmi offset =
     (regm hdmi offset, hdmi\<lparr>trace := trace hdmi @ [Rd offset]\<rparr>)"

text \<open>
  Modelled from the spec: \<^verbatim>\<open>regmap_update_bits\<close> is not among the sources; the spec's
  \<open>modify(offset, mask, value)\<close> is a read-modify-write restricted to the bits of the mask.
\<close>

definition dw_hdmi_qp_mod :: "'d dw_hdmi \<Rightarrow> u32 \<Rightarrow> u32 \<Rightarrow> u32 \<Rightarrow> 'd dw_hdmi" where
  "dw_hdmi_qp_mod hdmi data msk reg =
     hdmi\<lparr>regm := (regm hdmi)(reg := (regm hdmi reg AND NOT msk) OR (data AND msk)),
          trace := trace hdmi @ [Mod reg msk data]\<rparr>"

definition dw_hdmi_qp_i2c_init :: "header \<Rightarrow> 'd dw_hdmi \<Rightarrow> 'd dw_hdmi" where
  "dw_hdmi_qp_i2c_init k hdmi =
     (let h1 = dw_hdmi_qp_write hdmi 0x01 (k I2CM_CONTROL0);
          h2 = dw_hdmi_qp_write h1 0x085c085c (k I2CM_FM_SCL_CONFIG0);
          h3 = dw_hdmi_qp_mod h2 0 (k I2CM_FM_EN) (k I2CM_INTERFACE_CONTROL0)
      in dw_hdmi_qp_write h3 (k I2CM_OP_DONE_CLEAR OR k I2CM_NACK_RCVD_CLEAR)
           (k MAINUNIT_1_INT_CLEAR))"

section \<open>Interrupt handler and completion\<close>

definition dw_hdmi_qp_main_hardirq :: "header \<Rightarrow> 'd dw_hdmi \<Rightarrow> irqreturn \<times> 'd dw_hdmi" where
  "dw_hdmi_qp_main_hardirq k hdmi =
     (let (status, h1) = dw_hdmi_qp_read hdmi (k MAINUNIT_1_INT_STATUS);
          st = (ucast (status AND (k I2CM_OP_DONE_IRQ OR k I2CM_READ_REQUEST_IRQ OR
                                   k I2CM_NACK_RCVD_IRQ)) :: u8);
          h2 = h1\<lparr>i2c := (i2c h1)\<lparr>stat := st\<rparr>\<rparr>;
          h3 = (if st \<noteq> 0
                then (let h = dw_hdmi_qp_write h2 (ucast st) (k MAINUNIT_1_INT_CLEAR)
                      in h\<lparr>i2c := (i2c h)\<lparr>cmp_done := Suc (cmp_done (i2c h))\<rparr>\<rparr>)
                else h2)
      in (if status \<noteq> 0 then IRQ_HANDLED else IRQ_NONE, h3))"

definition reinit_completion :: "'d dw_hdmi \<Rightarrow> 'd dw_hdmi" where
  "reinit_completion hdmi = hdmi\<lparr>i2c := (i2c hdmi)\<lparr>cmp_done := 0\<rparr>\<rparr>"

text \<open>
  The bus behind the controller: asked once per wait, with its own state and the
  registers as the driver programmed them, it either stays silent for the 100 ms
  (\<open>None\<close>) or changes registers and raises the interrupt line.
\<close>

type_synonym 'd device = "'d \<Rightarrow> (u32 \<Rightarrow> u32) \<Rightarrow> 'd \<times> (u32 \<Rightarrow> u32) option"

text \<open>
  \<^verbatim>\<open>wait_for_completion_timeout(&i2c->cmp, HZ / 10)\<close>: the device reacts, the interrupt
  handler runs if the line was raised, and the wait succeeds iff the handler completed.
\<close>

definition wait_for_completion_timeout ::
    "header \<Rightarrow> 'd device \<Rightarrow> 'd dw_hdmi \<Rightarrow> bool \<times> 'd dw_hdmi" where
  "wait_for_completion_timeout k dev hdmi =
     (case dev (sink hdmi) (regm hdmi) of
        (d, None) \<Rightarrow> (False, hdmi\<lparr>sink := d, trace := trace hdmi @ [TimedOut]\<rparr>)
      | (d, Some r) \<Rightarrow>
          (let h = snd (dw_hdmi_qp_main_hardirq k (hdmi\<lparr>regm := r, sink := d\<rparr>))
           in if cmp_done (i2c h) = 0
              then (False, h\<lparr>trace := trace h @ [TimedOut]\<rparr>)
              else (True, h\<lparr>i2c := (i2c h)\<lparr>cmp_done := cmp_done (i2c h) - 1\<rparr>\<rparr>)))"

section \<open>Side-channel transaction engine\<close>

text \<open>The body of \<^verbatim>\<open>while (length--)\<close> in the read path, \<open>p\<close> the position of \<open>buf\<close>.\<close>

fun i2c_read_bytes ::
    "header \<Rightarrow> 'd device \<Rightarrow> 'd dw_hdmi \<Rightarrow> u8 list \<Rightarrow> nat \<Rightarrow> nat \<Rightarrow>
     error option \<times> 'd dw_hdmi \<times> u8 list" where
  "i2c_read_bytes k dev hdmi bf p 0 = (None, hdmi, bf)"
| "i2c_read_bytes k dev hdmi bf p (Suc n) =
     (let h1 = reinit_completion hdmi;
          sr = slave_reg (i2c h1);
          h2 = h1\<lparr>i2c := (i2c h1)\<lparr>slave_reg := sr + 1\<rparr>\<rparr>;
          h3 = dw_hdmi_qp_mod h2 (push_bit 12 (ucast sr)) (k I2CM_ADDR)
                 (k I2CM_INTERFACE_CONTROL0);
          h4 = dw_hdmi_qp_mod h3 (k I2CM_FM_READ) (k I2CM_WR_MASK)
                 (k I2CM_INTERFACE_CONTROL0);
          (ok, h5) = wait_for_completion_timeout k dev h4
      in if \<not> ok then (Some EAGAIN, dw_hdmi_qp_write h5 0x01 (k I2CM_CONTROL0), bf)
         else if ucast (stat (i2c h5)) AND k I2CM_NACK_RCVD_IRQ \<noteq> 0
         then (Some EIO, dw_hdmi_qp_write h5 0x01 (k I2CM_CONTROL0), bf)
         else (let (v, h6) = dw_hdmi_qp_read h5 (k I2CM_INTERFACE_RDDATA_0_3);
                   h7 = dw_hdmi_qp_mod h6 0 (k I2CM_WR_MASK) (k I2CM_INTERFACE_CONTROL0)
               in i2c_read_bytes k dev h7 (bf[p := ucast (v AND 0xff)]) (Suc p) n))"

definition dw_hdmi_qp_i2c_read ::
    "header \<Rightarrow> 'd device \<Rightarrow> 'd dw_hdmi \<Rightarrow> u8 list \<Rightarrow> nat \<Rightarrow>
     error option \<times> 'd dw_hdmi \<times> u8 list" where
  "dw_hdmi_qp_i2c_read k dev hdmi bf length0 =
     (let h1 = (if \<not> is_regaddr (i2c hdmi)
                then hdmi\<lparr>i2c := (i2c hdmi)\<lparr>slave_reg := 0x00, is_regaddr := True\<rparr>\<rparr>
                else hdmi)
      in case i2c_read_bytes k dev h1 bf 0 length0 of
           (None, h2, bf') \<Rightarrow> (None, h2\<lparr>i2c := (i2c h2)\<lparr>is_segment := False\<rparr>\<rparr>, bf')
         | (Some e, h2, bf') \<Rightarrow> (Some e, h2, bf'))"

text \<open>The body of \<^verbatim>\<open>while (length--)\<close> in the write path, over the bytes left.\<close>

fun i2c_write_bytes ::
    "header \<Rightarrow> 'd device \<Rightarrow> 'd dw_hdmi \<Rightarrow> u8 list \<Rightarrow> error option \<times> 'd dw_hdmi" where
  "i2c_write_bytes k dev hdmi [] = (None, hdmi)"
| "i2c_write_bytes k dev hdmi (b # bs) =
     (let h1 = reinit_completion hdmi;
          h2 = dw_hdmi_qp_write h1 (ucast b) (k I2CM_INTERFACE_WRDATA_0_3);
          sr = slave_reg (i2c h2);
          h3 = h2\<lparr>i2c := (i2c h2)\<lparr>slave_reg := sr + 1\<rparr>\<rparr>;
          h4 = dw_hdmi_qp_mod h3 (push_bit 12 (ucast sr)) (k I2CM_ADDR)
                 (k I2CM_INTERFACE_CONTROL0);
          h5 = dw_hdmi_qp_mod h4 (k I2CM_FM_WRITE) (k I2CM_WR_MASK)
                 (k I2CM_INTERFACE_CONTROL0);
          (ok, h6) = wait_for_completion_timeout k dev h5
      in if \<not> ok then (Some EAGAIN, dw_hdmi_qp_write h6 0x01 (k I2CM_CONTROL0))
         else if ucast (stat (i2c h6)) AND k I2CM_NACK_RCVD_IRQ \<noteq> 0
         then (Some EIO, dw_hdmi_qp_write h6 0x01 (k I2CM_CONTROL0))
         else i2c_write_bytes k dev
                (dw_hdmi_qp_mod h6 0 (k I2CM_WR_MASK) (k I2CM_INTERFACE_CONTROL0)) bs)"

text \<open>
  \<open>bf\<close> holds the \<open>length\<close> bytes of the message.  With no register address set the
  first byte is the address; C would read \<open>buf[0]\<close> of an empty buffer out of bounds.
\<close>

definition dw_hdmi_qp_i2c_write ::
    "header \<Rightarrow> 'd device \<Rightarrow> 'd dw_hdmi \<Rightarrow> u8 list \<Rightarrow> error option \<times> 'd dw_hdmi" where
  "dw_hdmi_qp_i2c_write k dev hdmi bf =
     (if \<not> is_regaddr (i2c hdmi)
      then (case bf of
              [] \<Rightarrow> (Some OUT_OF_BOUNDS, hdmi)
            | b # bs \<Rightarrow>
                i2c_write_bytes k dev
                  (hdmi\<lparr>i2c := (i2c hdmi)\<lparr>slave_reg := b, is_regaddr := True\<rparr>\<rparr>) bs)
      else i2c_write_bytes k dev hdmi bf)"

text \<open>The second \<^verbatim>\<open>for\<close> loop of the transfer, over the messages left.\<close>

fun xfer_msgs ::
    "header \<Rightarrow> 'd device \<Rightarrow> 'd dw_hdmi \<Rightarrow> i2c_msg list \<Rightarrow>
     error option \<times> 'd dw_hdmi \<times> i2c_msg list" where
  "xfer_msgs k dev hdmi [] = (None, hdmi, [])"
| "xfer_msgs k dev hdmi (m # ms) =
     (if ucast (addr m) = DDC_SEGMENT_ADDR \<and> len m = 1
      then (let h1 = hdmi\<lparr>i2c := (i2c hdmi)\<lparr>is_segment := True\<rparr>\<rparr>;
                h2 = dw_hdmi_qp_mod h1 DDC_SEGMENT_ADDR (k I2CM_SEG_ADDR)
                       (k I2CM_INTERFACE_CONTROL1);
                h3 = dw_hdmi_qp_mod h2 (ucast (hd (buf m))) (k I2CM_SEG_PTR)
                       (k I2CM_INTERFACE_CONTROL1)
            in case xfer_msgs k dev h3 ms of (r, h', ms') \<Rightarrow> (r, h', m # ms'))
      else if ucast (flags m) AND k I2C_M_RD \<noteq> 0
      then (case dw_hdmi_qp_i2c_read k dev hdmi (buf m) (len m) of
              (Some e, h', bf') \<Rightarrow> (Some e, h', m\<lparr>buf := bf'\<rparr> # ms)
            | (None, h', bf') \<Rightarrow>
                (case xfer_msgs k dev h' ms of
                   (r, h'', ms') \<Rightarrow> (r, h'', m\<lparr>buf := bf'\<rparr> # ms')))
      else (case dw_hdmi_qp_i2c_write k dev hdmi (buf m) of
              (Some e, h') \<Rightarrow> (Some e, h', m # ms)
            | (None, h') \<Rightarrow>
                (case xfer_msgs k dev h' ms of (r, h'', ms') \<Rightarrow> (r, h'', m # ms'))))"

text \<open>
  \<^verbatim>\<open>dw_hdmi_qp_i2c_xfer\<close>: the result is the number of messages or an error, with the
  controller and the messages (their read buffers filled) as the call leaves them.
\<close>

definition dw_hdmi_qp_i2c_xfer ::
    "header \<Rightarrow> 'd device \<Rightarrow> 'd dw_hdmi \<Rightarrow> i2c_msg list \<Rightarrow>
     (error + nat) \<times> 'd dw_hdmi \<times> i2c_msg list" where
  "dw_hdmi_qp_i2c_xfer k dev hdmi msgs =
     (case msgs of
        [] \<Rightarrow> (Inl OUT_OF_BOUNDS, hdmi, msgs)
      | m0 # _ \<Rightarrow>
          (let addr0 = (ucast (addr m0) :: u8) in
           if ucast addr0 = DDC_CI_ADDR then (Inl EOPNOTSUPP, hdmi, msgs)
           else if \<exists>m \<in> set msgs. len m = 0 then (Inl EOPNOTSUPP, hdmi, msgs)
           else
             (let h1 = hdmi\<lparr>i2c := (i2c hdmi)\<lparr>lock := True\<rparr>\<rparr>;
                  h2 = dw_hdmi_qp_mod h1 (k I2CM_NACK_RCVD_MASK_N OR k I2CM_OP_DONE_MASK_N)
                         (k I2CM_NACK_RCVD_MASK_N OR k I2CM_OP_DONE_MASK_N)
                         (k MAINUNIT_1_INT_MASK_N);
                  addr1 = (if ucast addr0 = DDC_SEGMENT_ADDR \<and> len m0 = 1
                           then ucast (k DDC_ADDR) else addr0);
                  h3 = dw_hdmi_qp_mod h2 (push_bit 5 (ucast addr1)) (k I2CM_SLVADDR)
                         (k I2CM_INTERFACE_CONTROL0);
                  h4 = h3\<lparr>i2c := (i2c h3)\<lparr>is_regaddr := False, is_segment := False\<rparr>\<rparr>
              in case xfer_msgs k dev h4 msgs of
                   (r, h5, msgs') \<Rightarrow>
                     (let h6 = dw_hdmi_qp_mod h5 0
                                 (k I2CM_OP_DONE_MASK_N OR k I2CM_NACK_RCVD_MASK_N)
                                 (k MAINUNIT_1_INT_MASK_N);
                          h7 = h6\<lparr>i2c := (i2c h6)\<lparr>lock := False\<rparr>\<rparr>
                      in (case r of None \<Rightarrow> Inr (length msgs) | Some e \<Rightarrow> Inl e,
                          h7, msgs')))))"

text \<open>
  What the message loop does with a one-byte message to \<^verbatim>\<open>DDC_SEGMENT_ADDR\<close>: it notes
  the segment and programs the segment address and pointer; the register address is not
  touched.
\<close>

definition program_segment :: "header \<Rightarrow> 'd dw_hdmi \<Rightarrow> i2c_msg \<Rightarrow> 'd dw_hdmi" where
  "program_segment k hdmi m =
     dw_hdmi_qp_mod
       (dw_hdmi_qp_mod (hdmi\<lparr>i2c := (i2c hdmi)\<lparr>is_segment := True\<rparr>\<rparr>)
          DDC_SEGMENT_ADDR (k I2CM_SEG_ADDR) (k I2CM_INTERFACE_CONTROL1))
       (ucast (hd (buf m))) (k I2CM_SEG_PTR) (k I2CM_INTERFACE_CONTROL1)"

text \<open>
  The bodies of the two \<^verbatim>\<open>while (length--)\<close> loops once more, as functions of the register
  address \<open>a\<close> they program (in the source \<^verbatim>\<open>i2c->slave_reg++\<close>): the register traffic
  of one byte, with the register pointer left alone.
\<close>

definition read_byte_at ::
    "header \<Rightarrow> 'd device \<Rightarrow> 'd dw_hdmi \<Rightarrow> u8 \<Rightarrow> error option \<times> 'd dw_hdmi \<times> u8" where
  "read_byte_at k dev hdmi a =
     (let h1 = reinit_completion hdmi;
          h2 = dw_hdmi_qp_mod h1 (push_bit 12 (ucast a)) (k I2CM_ADDR)
                 (k I2CM_INTERFACE_CONTROL0);
          h3 = dw_hdmi_qp_mod h2 (k I2CM_FM_READ) (k I2CM_WR_MASK)
                 (k I2CM_INTERFACE_CONTROL0);
          (ok, h4) = wait_for_completion_timeout k dev h3
      in if \<not> ok then (Some EAGAIN, dw_hdmi_qp_write h4 0x01 (k I2CM_CONTROL0), 0)
         else if ucast (stat (i2c h4)) AND k I2CM_NACK_RCVD_IRQ \<noteq> 0
         then (Some EIO, dw_hdmi_qp_write h4 0x01 (k I2CM_CONTROL0), 0)
         else (let (v, h5) = dw_hdmi_qp_read h4 (k I2CM_INTERFACE_RDDATA_0_3)
               in (None, dw_hdmi_qp_mod h5 0 (k I2CM_WR_MASK) (k I2CM_INTERFACE_CONTROL0),
                   ucast (v AND 0xff))))"

definition write_byte_at ::
    "header \<Rightarrow> 'd device \<Rightarrow> 'd dw_hdmi \<Rightarrow> u8 \<Rightarrow> u8 \<Rightarrow> error option \<times> 'd dw_hdmi" where
  "write_byte_at k dev hdmi a b =
     (let h1 = reinit_completion hdmi;
          h2 = dw_hdmi_qp_write h1 (ucast b) (k I2CM_INTERFACE_WRDATA_0_3);
          h3 = dw_hdmi_qp_mod h2 (push_bit 12 (ucast a)) (k I2CM_ADDR)
                 (k I2CM_INTERFACE_CONTROL0);
          h4 = dw_hdmi_qp_mod h3 (k I2CM_FM_WRITE) (k I2CM_WR_MASK)
                 (k I2CM_INTERFACE_CONTROL0);
          (ok, h5) = wait_for_completion_timeout k dev h4
      in if \<not> ok then (Some EAGAIN, dw_hdmi_qp_write h5 0x01 (k I2CM_CONTROL0))
         else if ucast (stat (i2c h5)) AND k I2CM_NACK_RCVD_IRQ \<noteq> 0
         then (Some EIO, dw_hdmi_qp_write h5 0x01 (k I2CM_CONTROL0))
         else (None, dw_hdmi_qp_mod h5 0 (k I2CM_WR_MASK) (k I2CM_INTERFACE_CONTROL0)))"


section \<open>Infoframes\<close>

datatype hdmi_scan_mode = HDMI_SCAN_MODE_NONE | HDMI_SCAN_MODE_OVERSCAN | HDMI_SCAN_MODE_UNDERSCAN

text \<open>
  The fields of the infoframe structures that the driver touches (\<open>length_f\<close> is the
  field \<open>length\<close>).  \<open>struct hdmi_drm_infoframe\<close> is the header alone here.
\<close>

record hdmi_infoframe_hdr =
  version :: u8
  length_f :: u8

record hdmi_avi_infoframe = hdmi_infoframe_hdr +
  colorspace :: u32
  scan_mode :: hdmi_scan_mode
  video_code :: u8

text \<open>
  The collaborators of the setup path, none of them among the sources: what
  \<^verbatim>\<open>dw_hdmi_prep_data\<close> and \<^verbatim>\<open>dw_hdmi_prep_vmode\<close> derive from the mode (the VIC and
  the video descriptor), the status of the PHY's \<open>init\<close>, \<^verbatim>\<open>dw_hdmi_support_scdc\<close>, the
  byte \<^verbatim>\<open>drm_scdc_readb\<close> fetched (none when it failed), the frame
  \<^verbatim>\<open>dw_hdmi_prep_avi_infoframe\<close> filled, the byte \<^verbatim>\<open>hdmi_avi_infoframe_pack_only\<close> left
  at each offset of the buffer, and the two helpers of the dynamic-range infoframe
  (\<open>None\<close> is their negative return; the packed bytes again by offset).
\<close>

record 'd externs =
  prep_data :: "'d dw_hdmi \<Rightarrow> drm_display_mode \<Rightarrow> int \<times> hdmi_data_info"
  prep_vmode :: "'d dw_hdmi \<Rightarrow> drm_display_mode \<Rightarrow> hdmi_vmode"
  phy_init :: "'d dw_hdmi \<Rightarrow> nat \<Rightarrow> drm_display_mode \<Rightarrow> int"
  support_scdc :: "'d dw_hdmi \<Rightarrow> nat \<Rightarrow> bool"
  scdc_sink_version :: "u8 option"
  prep_avi_infoframe ::
    "'d dw_hdmi \<Rightarrow> drm_connector \<Rightarrow> drm_display_mode \<Rightarrow> hdmi_avi_infoframe"
  avi_infoframe_pack_only :: "hdmi_avi_infoframe \<Rightarrow> nat \<Rightarrow> u8"
  set_hdr_metadata :: "drm_connector \<Rightarrow> hdmi_infoframe_hdr option"
  drm_infoframe_pack :: "hdmi_infoframe_hdr \<Rightarrow> (nat \<Rightarrow> u8) option"

text \<open>
  \<^verbatim>\<open>hdmi_infoframe_set_checksum(ptr, size)\<close>.  \<open>None\<close> where C would write \<open>ptr[3]\<close> or
  read \<open>ptr[i]\<close> outside the buffer.
\<close>

definition hdmi_infoframe_set_checksum :: "u8 list \<Rightarrow> int \<Rightarrow> u8 list option" where
  "hdmi_infoframe_set_checksum ptr sz =
     (if length ptr \<le> 3 \<or> int (length ptr) < sz then None
      else (let p1 = ptr[3 := 0];
                csum = fold (\<lambda>i c. c + p1 ! i) [0..<nat sz] (0 :: u8)
            in Some (p1[3 := word_of_int (256 - uint csum)])))"

text \<open>
  The buffer and the frame of \<^verbatim>\<open>hdmi_config_AVI\<close> when it starts to write registers.
  The checksum call is on 17 bytes of a 17-byte buffer, so its \<open>None\<close> cannot occur.
\<close>

definition hdmi_config_AVI_buf ::
    "'d externs \<Rightarrow> 'd dw_hdmi \<Rightarrow> drm_connector \<Rightarrow> drm_display_mode \<Rightarrow>
     hdmi_avi_infoframe \<times> u8 list" where
  "hdmi_config_AVI_buf ext hdmi connector mode =
     (let frame0 = prep_avi_infoframe ext hdmi connector mode;
          frame1 = frame0\<lparr>scan_mode := HDMI_SCAN_MODE_NONE,
                          video_code := word_of_int (vic hdmi)\<rparr>;
          buf0 = map (avi_infoframe_pack_only ext frame1) [0..<17]
      in if vic hdmi \<ge> 128
         then (let frame2 = frame1\<lparr>version := 3\<rparr>;
                   buf1 = buf0[1 := version frame2];
                   buf2 = buf1[4 := buf1 ! 4 AND 0x1f];
                   buf3 = buf2[4 := buf2 ! 4 OR ucast (push_bit 5 (colorspace frame2 AND 0x7))];
                   buf4 = buf3[7 := video_code frame2]
               in (frame2, case hdmi_infoframe_set_checksum buf4 17 of
                             Some b \<Rightarrow> b | None \<Rightarrow> buf4))
         else (frame1, buf0))"

text \<open>The inner and the outer \<^verbatim>\<open>for\<close> loop of the AVI packing, \<open>val\<close> carried along.\<close>

function avi_inner :: "u8 list \<Rightarrow> nat \<Rightarrow> nat \<Rightarrow> u32 \<Rightarrow> u32" where
  "avi_inner bf i j val =
     (if j < 4
      then (if i * 4 + j \<ge> 14 then val
            else (let v1 = (if j = 0 then ucast (bf ! (i * 4 + j + 3)) else val);
                      v2 = v1 OR push_bit (8 * j) (ucast (bf ! (i * 4 + j + 3)))
                  in avi_inner bf i (j + 1) v2))
      else val)"
  by pat_completeness auto
termination
  by (relation "measure (\<lambda>(bf, i, j, val). 4 - j)") auto

function avi_outer :: "header \<Rightarrow> 'd dw_hdmi \<Rightarrow> u8 list \<Rightarrow> nat \<Rightarrow> u32 \<Rightarrow> 'd dw_hdmi" where
  "avi_outer k hdmi bf i val =
     (if i < 4
      then (let v = avi_inner bf i 0 val
            in avi_outer k (dw_hdmi_qp_write hdmi v (k PKT_AVI_CONTENTS1 + of_nat i * 4))
                 bf (i + 1) v)
      else hdmi)"
  by pat_completeness auto
termination
  by (relation "measure (\<lambda>(k, hdmi, bf, i, val). 4 - i)") auto

declare avi_inner.simps [simp del] avi_outer.simps [simp del]

definition hdmi_config_AVI ::
    "header \<Rightarrow> 'd externs \<Rightarrow> 'd dw_hdmi \<Rightarrow> drm_connector \<Rightarrow> drm_display_mode \<Rightarrow> 'd dw_hdmi" where
  "hdmi_config_AVI k ext hdmi connector mode =
     (let (frame, bf) = hdmi_config_AVI_buf ext hdmi connector mode;
          val = push_bit 8 (ucast (version frame)) OR push_bit 16 (ucast (length_f frame));
          h1 = dw_hdmi_qp_write hdmi val (k PKT_AVI_CONTENTS0);
          h2 = avi_outer k h1 bf 0 val;
          h3 = dw_hdmi_qp_mod h2 0 (k PKTSCHED_AVI_FIELDRATE) (k PKTSCHED_PKT_CONFIG1)
      in dw_hdmi_qp_mod h3 (k PKTSCHED_AVI_TX_EN OR k PKTSCHED_GCP_TX_EN)
           (k PKTSCHED_AVI_TX_EN OR k PKTSCHED_GCP_TX_EN) (k PKTSCHED_PKT_EN))"

text \<open>One round of the packing loop of the dynamic-range infoframe.\<close>

definition drmi_step ::
    "header \<Rightarrow> hdmi_infoframe_hdr \<Rightarrow> (nat \<Rightarrow> u8) \<Rightarrow> nat \<Rightarrow> u32 \<times> 'd dw_hdmi \<Rightarrow>
     u32 \<times> 'd dw_hdmi" where
  "drmi_step k frame buffer i s =
     (let v1 = (if i mod 4 = 0 then ucast (buffer (3 + i)) else fst s);
          v2 = v1 OR push_bit ((i mod 4) * 8) (ucast (buffer (3 + i)))
      in (v2, if i mod 4 = 3 \<or> i = unat (length_f frame)
              then dw_hdmi_qp_write (snd s) v2 (k PKT_DRMI_CONTENTS1 + of_nat ((i div 4) * 4))
              else snd s))"

text \<open>
  \<^verbatim>\<open>BIT(n)\<close> is \<open>1UL << n\<close> on 64 bits.  C leaves the shift undefined for \<open>n\<close> of 64 or
  more; the 64-bit targets of this driver take the shift count modulo 64, and so does the
  model.  The buffer has 30 bytes; a frame longer than 26 bytes would make the loop read
  past it, where \<open>buffer\<close> stands for the stack.
\<close>

definition hdmi_config_drm_infoframe ::
    "header \<Rightarrow> 'd externs \<Rightarrow> 'd dw_hdmi \<Rightarrow> drm_connector \<Rightarrow> 'd dw_hdmi" where
  "hdmi_config_drm_infoframe k ext hdmi connector =
     (if \<not> use_drm_infoframe hdmi then hdmi
      else (let h1 = dw_hdmi_qp_mod hdmi 0 (k PKTSCHED_DRMI_TX_EN) (k PKTSCHED_PKT_EN) in
        if hdr_sink_eotf h1 = 0 then h1
        else (case hdr_output_metadata connector of
            None \<Rightarrow> h1
          | Some eotf \<Rightarrow>
              if ucast (hdr_sink_eotf h1) AND (push_bit (unat eotf mod 64) 1 :: 64 word) = 0
              then h1
              else (case set_hdr_metadata ext connector of
                  None \<Rightarrow> h1
                | Some frame \<Rightarrow>
                    (case drm_infoframe_pack ext frame of
                       None \<Rightarrow> h1
                     | Some buffer \<Rightarrow>
                         (let val = push_bit 8 (ucast (version frame)) OR
                                    push_bit 16 (ucast (length_f frame));
                              h2 = dw_hdmi_qp_write h1 val (k PKT_DRMI_CONTENTS0);
                              h3 = snd (fold (drmi_step k frame buffer)
                                     [0..<Suc (unat (length_f frame))] (val, h2));
                              h4 = dw_hdmi_qp_mod h3 0 (k PKTSCHED_DRMI_FIELDRATE)
                                     (k PKTSCHED_PKT_CONFIG1)
                          in dw_hdmi_qp_mod h4 (k PKTSCHED_DRMI_TX_EN) (k PKTSCHED_DRMI_TX_EN)
                               (k PKTSCHED_PKT_EN)))))))"

section \<open>Transmitter state machine\<close>

text \<open>
  The SCDC helpers talk to the sink over the DDC adapter, a collaborator: the model
  records the calls.
\<close>

definition scdc_negotiate :: "'d externs \<Rightarrow> 'd dw_hdmi \<Rightarrow> 'd dw_hdmi" where
  "scdc_negotiate ext hdmi =
     (let bytes = (case scdc_sink_version ext of None \<Rightarrow> 0 | Some v \<Rightarrow> v)
      in hdmi\<lparr>trace := trace hdmi @
           [ScdcReadSinkVersion, ScdcWriteSourceVersion (min bytes SCDC_MIN_SOURCE_VERSION),
            ScdcSetHighTmdsClockRatio True, ScdcSetScrambling True]\<rparr>)"

definition scdc_reverse :: "'d dw_hdmi \<Rightarrow> 'd dw_hdmi" where
  "scdc_reverse hdmi =
     hdmi\<lparr>trace := trace hdmi @ [ScdcSetHighTmdsClockRatio False, ScdcSetScrambling False]\<rparr>"

text \<open>The events that ask something of the sink over SCDC.\<close>

fun scdc_event :: "event \<Rightarrow> bool" where
  "scdc_event ScdcReadSinkVersion = True"
| "scdc_event (ScdcWriteSourceVersion v) = True"
| "scdc_event (ScdcSetHighTmdsClockRatio b) = True"
| "scdc_event (ScdcSetScrambling b) = True"
| "scdc_event e = False"

text \<open>The controller as \<^verbatim>\<open>dw_hdmi_qp_setup\<close> hands it to the PHY's \<open>init\<close>.\<close>

definition setup_prep ::
    "header \<Rightarrow> 'd externs \<Rightarrow> 'd dw_hdmi \<Rightarrow> drm_display_mode \<Rightarrow> 'd dw_hdmi" where
  "setup_prep k ext hdmi mode =
     (let (v, d) = prep_data ext hdmi mode;
          h0 = hdmi\<lparr>hdmi_data := d, vic := v\<rparr>;
          dbl = (mode_flags mode AND k DRM_MODE_FLAG_DBLCLK \<noteq> 0);
          h1 = (if dbl
                then h0\<lparr>hdmi_data := (hdmi_data h0)\<lparr>video_mode := (video_mode (hdmi_data h0))
                         \<lparr>mpixelrepetitioninput := 1, mpixelrepetitionoutput := 1\<rparr>\<rparr>\<rparr>
                else h0);
          h2 = (if dbl then h1\<lparr>hdmi_data := (hdmi_data h1)\<lparr>pix_repet_factor := 1\<rparr>\<rparr> else h1)
      in h2\<lparr>hdmi_data := (hdmi_data h2)\<lparr>video_mode := prep_vmode ext h2 mode\<rparr>\<rparr>)"

definition dw_hdmi_qp_setup ::
    "header \<Rightarrow> 'd externs \<Rightarrow> 'd dw_hdmi \<Rightarrow> drm_connector \<Rightarrow> drm_display_mode \<Rightarrow>
     int \<times> 'd dw_hdmi" where
  "dw_hdmi_qp_setup k ext hdmi connector mode =
     (let h3 = setup_prep k ext hdmi mode;
          ret = phy_init ext h3 (display_info connector) (previous_mode h3);
          h4 = h3\<lparr>trace := trace h3 @ [PhyInit]\<rparr>
      in if ret \<noteq> 0 then (ret, h4)
         else (let h5 = h4\<lparr>phy_enabled := True\<rparr> in
           if sink_is_hdmi h5
           then (let h6 = dw_hdmi_qp_mod h5 0 (k OPMODE_DVI) (k LINK_CONFIG0);
                     h7 = dw_hdmi_qp_mod h6 (k HDCP2_BYPASS) (k HDCP2_BYPASS)
                            (k HDCP2LOGIC_CONFIG0);
                     scdc = support_scdc ext h7 (display_info connector);
                     h8 = (if mtmdsclock (video_mode (hdmi_data h7)) > HDMI14_MAX_TMDSCLK
                           then dw_hdmi_qp_write (if scdc then scdc_negotiate ext h7 else h7)
                                  1 (k SCRAMB_CONFIG0)
                           else dw_hdmi_qp_write (if scdc then scdc_reverse h7 else h7)
                                  0 (k SCRAMB_CONFIG0));
                     h9 = hdmi_config_AVI k ext h8 connector mode
                 in (0, hdmi_config_drm_infoframe k ext h9 connector))
           else (let h6 = dw_hdmi_qp_mod h5 (k HDCP2_BYPASS) (k HDCP2_BYPASS)
                            (k HDCP2LOGIC_CONFIG0)
                 in (0, dw_hdmi_qp_mod h6 (k OPMODE_DVI) (k OPMODE_DVI) (k LINK_CONFIG0)))))"

text \<open>
  \<^verbatim>\<open>dw_hdmi_qp_update_power\<close>.  \<open>None\<close> where C would hand a NULL \<open>curr_conn\<close> to the
  setup (the source's comment rules it out).  The result of the setup is dropped, as in
  the source.
\<close>

definition dw_hdmi_qp_update_power ::
    "header \<Rightarrow> 'd externs \<Rightarrow> 'd dw_hdmi \<Rightarrow> 'd dw_hdmi option" where
  "dw_hdmi_qp_update_power k ext hdmi =
     (let force0 = force hdmi;
          force1 = (if disabled hdmi then DRM_FORCE_OFF
                    else if force0 = DRM_FORCE_UNSPECIFIED
                    then (if rxsense hdmi then DRM_FORCE_ON else DRM_FORCE_OFF)
                    else force0)
      in if force1 = DRM_FORCE_OFF
         then (if bridge_is_on hdmi
               then (let h1 = (if phy_enabled hdmi
                               then hdmi\<lparr>phy_enabled := False,
                                         trace := trace hdmi @ [PhyDisable]\<rparr>
                               else hdmi)
                     in Some (h1\<lparr>bridge_is_on := False\<rparr>))
               else Some hdmi)
         else (if \<not> bridge_is_on hdmi
               then (let h1 = hdmi\<lparr>bridge_is_on := True\<rparr>
                     in case curr_conn h1 of
                          None \<Rightarrow> None
                        | Some c \<Rightarrow> Some (snd (dw_hdmi_qp_setup k ext h1 c (previous_mode h1))))
               else Some hdmi))"


text \<open>
  \<^verbatim>\<open>dw_hdmi_qp_init_hw\<close>, run at probe and at resume; \<open>setup_hpd\<close> says whether the PHY
  has the optional operation of that name.
\<close>

definition dw_hdmi_qp_init_hw :: "header \<Rightarrow> bool \<Rightarrow> 'd dw_hdmi \<Rightarrow> 'd dw_hdmi" where
  "dw_hdmi_qp_init_hw k setup_hpd hdmi =
     (let h1 = dw_hdmi_qp_write hdmi 0 (k MAINUNIT_0_INT_MASK_N);
          h2 = dw_hdmi_qp_write h1 0 (k MAINUNIT_1_INT_MASK_N);
          h3 = dw_hdmi_qp_write h2 428571429 (k TIMER_BASE_CONFIG0);
          h4 = dw_hdmi_qp_i2c_init k h3
      in if setup_hpd then h4\<lparr>trace := trace h4 @ [PhySetupHpd]\<rparr> else h4)"

text \<open>
  The controller at the point where the setup, the PHY initialised and the sink HDMI,
  compares the TMDS clock: after the two writes to the link configuration.
\<close>

definition setup_at_scdc ::
    "header \<Rightarrow> 'd externs \<Rightarrow> 'd dw_hdmi \<Rightarrow> drm_display_mode \<Rightarrow> 'd dw_hdmi" where
  "setup_at_scdc k ext hdmi mode =
     dw_hdmi_qp_mod
       (dw_hdmi_qp_mod
          ((setup_prep k ext hdmi mode)
             \<lparr>trace := trace (setup_prep k ext hdmi mode) @ [PhyInit], phy_enabled := True\<rparr>)
          0 (k OPMODE_DVI) (k LINK_CONFIG0))
       (k HDCP2_BYPASS) (k HDCP2_BYPASS) (k HDCP2LOGIC_CONFIG0)"

section \<open>The claimed handling of the register address\<close>

text \<open>
  Modelled from the claim's words, with the register addresses written out.  A run of
  bytes from register \<open>a\<close> on accesses the registers \<open>a\<close>, \<open>a + 1\<close>, \<open>a + 2\<close>, \<dots> (modulo
  256), one per byte, and keeps the register pointer one past the register it is
  accessing; the first failure ends it.  How one byte travels once its register is known
  (\<open>read_byte_at\<close>, \<open>write_byte_at\<close>) is not the claim's matter.
\<close>

fun claimed_read_from ::
    "header \<Rightarrow> 'd device \<Rightarrow> 'd dw_hdmi \<Rightarrow> u8 \<Rightarrow> u8 list \<Rightarrow> nat \<Rightarrow> nat \<Rightarrow>
     error option \<times> 'd dw_hdmi \<times> u8 list" where
  "claimed_read_from k dev hdmi a bf p 0 = (None, hdmi, bf)"
| "claimed_read_from k dev hdmi a bf p (Suc n) =
     (case read_byte_at k dev (hdmi\<lparr>i2c := (i2c hdmi)\<lparr>slave_reg := a + 1\<rparr>\<rparr>) a of
        (Some e, h', v) \<Rightarrow> (Some e, h', bf)
      | (None, h', v) \<Rightarrow> claimed_read_from k dev h' (a + 1) (bf[p := v]) (Suc p) n)"

fun claimed_write_from ::
    "header \<Rightarrow> 'd device \<Rightarrow> 'd dw_hdmi \<Rightarrow> u8 \<Rightarrow> u8 list \<Rightarrow> error option \<times> 'd dw_hdmi" where
  "claimed_write_from k dev hdmi a [] = (None, hdmi)"
| "claimed_write_from k dev hdmi a (b # bs) =
     (case write_byte_at k dev (hdmi\<lparr>i2c := (i2c hdmi)\<lparr>slave_reg := a + 1\<rparr>\<rparr>) a b of
        (Some e, h') \<Rightarrow> (Some e, h')
      | (None, h') \<Rightarrow> claimed_write_from k dev h' (a + 1) bs)"

text \<open>
  The message loop in the two phases of the claim.  Once the register address has been
  consumed, \<open>ptr\<close> is the register the next byte goes to: every message is data only, all
  its bytes are transferred from \<open>ptr\<close> on, and the next message continues at \<open>ptr\<close> plus
  the number of bytes of this one.  The one-byte message to the segment address, which
  the claim does not mention, programs the segment pointer and leaves \<open>ptr\<close> alone.
\<close>

fun claimed_later_msgs ::
    "header \<Rightarrow> 'd device \<Rightarrow> 'd dw_hdmi \<Rightarrow> u8 \<Rightarrow> i2c_msg list \<Rightarrow>
     error option \<times> 'd dw_hdmi \<times> i2c_msg list" where
  "claimed_later_msgs k dev hdmi ptr [] = (None, hdmi, [])"
| "claimed_later_msgs k dev hdmi ptr (m # ms) =
     (if ucast (addr m) = DDC_SEGMENT_ADDR \<and> len m = 1
      then (case claimed_later_msgs k dev (program_segment k hdmi m) ptr ms of
              (r, h', ms') \<Rightarrow> (r, h', m # ms'))
      else if ucast (flags m) AND k I2C_M_RD \<noteq> 0
      then (case claimed_read_from k dev hdmi ptr (buf m) 0 (len m) of
              (Some e, h', bf') \<Rightarrow> (Some e, h', m\<lparr>buf := bf'\<rparr> # ms)
            | (None, h', bf') \<Rightarrow>
                (case claimed_later_msgs k dev (h'\<lparr>i2c := (i2c h')\<lparr>is_segment := False\<rparr>\<rparr>)
                        (ptr + of_nat (len m)) ms of
                   (r, h'', ms') \<Rightarrow> (r, h'', m\<lparr>buf := bf'\<rparr> # ms')))
      else (case claimed_write_from k dev hdmi ptr (buf m) of
              (Some e, h') \<Rightarrow> (Some e, h', m # ms)
            | (None, h') \<Rightarrow>
                (case claimed_later_msgs k dev h' (ptr + of_nat (len m)) ms of
                   (r, h'', ms') \<Rightarrow> (r, h'', m # ms'))))"

text \<open>
  While the register address is pending: a write takes its first payload byte \<open>a\<close> as the
  register address and sends the bytes after it to the registers from \<open>a\<close> on; a read
  starts at register 0; either sets the flag, and the rest of the transfer is in the
  second phase.  The one-byte message to the segment address programs the segment pointer
  and leaves the address pending: this is the amendment to the claim.
\<close>

fun claimed_first_msgs ::
    "header \<Rightarrow> 'd device \<Rightarrow> 'd dw_hdmi \<Rightarrow> i2c_msg list \<Rightarrow>
     error option \<times> 'd dw_hdmi \<times> i2c_msg list" where
  "claimed_first_msgs k dev hdmi [] = (None, hdmi, [])"
| "claimed_first_msgs k dev hdmi (m # ms) =
     (if ucast (addr m) = DDC_SEGMENT_ADDR \<and> len m = 1
      then (case claimed_first_msgs k dev (program_segment k hdmi m) ms of
              (r, h', ms') \<Rightarrow> (r, h', m # ms'))
      else if ucast (flags m) AND k I2C_M_RD \<noteq> 0
      then (case claimed_read_from k dev
                   (hdmi\<lparr>i2c := (i2c hdmi)\<lparr>slave_reg := 0, is_regaddr := True\<rparr>\<rparr>)
                   0 (buf m) 0 (len m) of
              (Some e, h', bf') \<Rightarrow> (Some e, h', m\<lparr>buf := bf'\<rparr> # ms)
            | (None, h', bf') \<Rightarrow>
                (case claimed_later_msgs k dev (h'\<lparr>i2c := (i2c h')\<lparr>is_segment := False\<rparr>\<rparr>)
                        (of_nat (len m)) ms of
                   (r, h'', ms') \<Rightarrow> (r, h'', m\<lparr>buf := bf'\<rparr> # ms')))
      else (case claimed_write_from k dev
                   (hdmi\<lparr>i2c := (i2c hdmi)\<lparr>slave_reg := hd (buf m), is_regaddr := True\<rparr>\<rparr>)
                   (hd (buf m)) (tl (buf m)) of
              (Some e, h') \<Rightarrow> (Some e, h', m # ms)
            | (None, h') \<Rightarrow>
                (case claimed_later_msgs k dev h' (hd (buf m) + of_nat (len m - 1)) ms of
                   (r, h'', ms') \<Rightarrow> (r, h'', m # ms'))))"

section \<open>Shape of a run\<close>

text \<open>
  How a piece of the transfer relates the controller before and after it: the result
  is success, a timeout or a nack; the trace only grows; a wait without completion
  happened iff the result is the timeout, and then the run ended with that wait and
  the software reset of the command register; the lock is as before.
\<close>

definition run_shape :: "header \<Rightarrow> 'd dw_hdmi \<Rightarrow> error option \<Rightarrow> 'd dw_hdmi \<Rightarrow> bool" where
  "run_shape k h r h' \<longleftrightarrow>
     (r = None \<or> r = Some EAGAIN \<or> r = Some EIO) \<and>
     (\<exists>ev. trace h' = trace h @ ev \<and> ((TimedOut \<in> set ev) = (r = Some EAGAIN)) \<and>
           (if r = Some EAGAIN then \<exists>pre. ev = pre @ [TimedOut, Wr (k I2CM_CONTROL0) 0x01]
            else True)) \<and>
     (if r = Some EAGAIN then regm h' (k I2CM_CONTROL0) = 0x01 else True) \<and>
     lock (i2c h') = lock (i2c h)"

section \<open>Simulated hardware and closed examples\<close>

text \<open>
  A table for the closed examples and for the simulated sink: the bit fields and the
  offsets of the Designware QP register map as far as they matter here, with pairwise
  distinct registers.
\<close>

fun k0 :: header where
  "k0 I2CM_CONTROL0 = 0xec"
| "k0 I2CM_FM_SCL_CONFIG0 = 0xe4"
| "k0 I2CM_INTERFACE_CONTROL0 = 0xf4"
| "k0 I2CM_INTERFACE_CONTROL1 = 0xf8"
| "k0 I2CM_INTERFACE_WRDATA_0_3 = 0xfc"
| "k0 I2CM_INTERFACE_RDDATA_0_3 = 0x10c"
| "k0 I2CM_FM_EN = 0x1"
| "k0 I2CM_FM_READ = 0x4"
| "k0 I2CM_FM_WRITE = 0x2"
| "k0 I2CM_WR_MASK = 0x1e"
| "k0 I2CM_ADDR = 0xff000"
| "k0 I2CM_SLVADDR = 0xfe0"
| "k0 I2CM_SEG_ADDR = 0x7f"
| "k0 I2CM_SEG_PTR = 0x7f80"
| "k0 MAINUNIT_0_INT_MASK_N = 0x3014"
| "k0 MAINUNIT_1_INT_MASK_N = 0x3024"
| "k0 MAINUNIT_1_INT_STATUS = 0x3020"
| "k0 MAINUNIT_1_INT_CLEAR = 0x3028"
| "k0 I2CM_OP_DONE_IRQ = 0x1"
| "k0 I2CM_READ_REQUEST_IRQ = 0x2"
| "k0 I2CM_NACK_RCVD_IRQ = 0x4"
| "k0 I2CM_OP_DONE_MASK_N = 0x1"
| "k0 I2CM_NACK_RCVD_MASK_N = 0x4"
| "k0 I2CM_OP_DONE_CLEAR = 0x1"
| "k0 I2CM_NACK_RCVD_CLEAR = 0x4"
| "k0 TIMER_BASE_CONFIG0 = 0x80"
| "k0 PKT_AVI_CONTENTS0 = 0xa50"
| "k0 PKT_AVI_CONTENTS1 = 0xa54"
| "k0 PKT_DRMI_CONTENTS0 = 0xba0"
| "k0 PKT_DRMI_CONTENTS1 = 0xba4"
| "k0 PKTSCHED_PKT_CONFIG1 = 0xa84"
| "k0 PKTSCHED_PKT_EN = 0xaa8"
| "k0 PKTSCHED_AVI_FIELDRATE = 0x2000"
| "k0 PKTSCHED_DRMI_FIELDRATE = 0x4000"
| "k0 PKTSCHED_AVI_TX_EN = 0x2000"
| "k0 PKTSCHED_GCP_TX_EN = 0x8"
| "k0 PKTSCHED_DRMI_TX_EN = 0x10000"
| "k0 LINK_CONFIG0 = 0x968"
| "k0 OPMODE_DVI = 0x10000"
| "k0 HDCP2LOGIC_CONFIG0 = 0x804"
| "k0 HDCP2_BYPASS = 0x1"
| "k0 SCRAMB_CONFIG0 = 0x960"
| "k0 DDC_ADDR = 0x50"
| "k0 I2C_M_RD = 0x1"
| "k0 DRM_MODE_FLAG_DBLCLK = 0x1000"

text \<open>A bus on which nothing ever answers: every wait runs into its timeout.\<close>

definition silent :: "unit device" where
  "silent d regs = (d, None)"

text \<open>
  A sink that always acknowledges: it decodes the register address from the
  interface-control register, puts the byte \<open>mem a\<close> of its register \<open>a\<close> into the read
  data register when the command is a read, and raises operation-done.
\<close>

definition ack_sink :: "header \<Rightarrow> (u8 \<Rightarrow> u8) \<Rightarrow> unit device" where
  "ack_sink k mem d regs =
     (let ctrl = regs (k I2CM_INTERFACE_CONTROL0);
          a = (ucast (drop_bit 12 (ctrl AND k I2CM_ADDR)) :: u8);
          regs1 = (if ctrl AND k I2CM_WR_MASK = k I2CM_FM_READ
                   then regs(k I2CM_INTERFACE_RDDATA_0_3 := ucast (mem a)) else regs)
      in (d, Some (regs1(k MAINUNIT_1_INT_STATUS := k I2CM_OP_DONE_IRQ))))"

text \<open>What the simulated sink needs of a table to be driven by this driver.\<close>

definition header_ok :: "header \<Rightarrow> bool" where
  "header_ok k \<longleftrightarrow>
     k I2CM_ADDR = 0xff000 \<and> k I2CM_WR_MASK = 0x1e \<and> k I2CM_FM_READ = 0x4 \<and>
     k I2CM_OP_DONE_IRQ = 0x1 \<and> k I2CM_READ_REQUEST_IRQ = 0x2 \<and> k I2CM_NACK_RCVD_IRQ = 0x4 \<and>
     k I2C_M_RD = 0x1 \<and>
     distinct [k I2CM_INTERFACE_CONTROL0, k I2CM_INTERFACE_RDDATA_0_3,
               k MAINUNIT_1_INT_STATUS, k MAINUNIT_1_INT_CLEAR]"

text \<open>
  The messages as a transfer against the acknowledging sink returns them, \<open>p\<close> the
  register pointer (\<open>None\<close> while the register address is pending): a read of \<open>n\<close> bytes
  holds the sink's registers \<open>a\<close>, \<dots>, \<open>a + n - 1\<close> from the pointer \<open>a\<close> on (0 if
  pending); a write leaves its buffer alone and moves the pointer by the number of its
  data bytes; a one-byte message to the segment address does neither.
\<close>

fun ack_bufs :: "header \<Rightarrow> (u8 \<Rightarrow> u8) \<Rightarrow> u8 option \<Rightarrow> i2c_msg list \<Rightarrow> i2c_msg list" where
  "ack_bufs k mem p [] = []"
| "ack_bufs k mem p (m # ms) =
     (if ucast (addr m) = DDC_SEGMENT_ADDR \<and> len m = 1 then m # ack_bufs k mem p ms
      else if ucast (flags m) AND k I2C_M_RD \<noteq> 0
      then (let a = (case p of None \<Rightarrow> 0 | Some a \<Rightarrow> a)
            in m\<lparr>buf := map (\<lambda>i. mem (a + of_nat i)) [0..<len m]\<rparr> #
               ack_bufs k mem (Some (a + of_nat (len m))) ms)
      else m # ack_bufs k mem
                 (Some (case p of None \<Rightarrow> hd (buf m) + of_nat (len m - 1)
                                | Some a \<Rightarrow> a + of_nat (len m))) ms)"

definition vmode0 :: hdmi_vmode where
  "vmode0 = \<lparr>mdataenablepolarity = True, mpixelclock = 148500000,
             mpixelrepetitioninput = 0, mpixelrepetitionoutput = 0, mtmdsclock = 148500000\<rparr>"

definition data0 :: hdmi_data_info where
  "data0 = \<lparr>enc_in_bus_format = 0, enc_out_bus_format = 0, enc_in_encoding = 0,
            enc_out_encoding = 0, pix_repet_factor = 0, hdcp_enable = 0,
            video_mode = vmode0, rgb_limited_range = False\<rparr>"

definition conn0 :: drm_connector where
  "conn0 = \<lparr>display_info = 0, hdr_output_metadata = None\<rparr>"

text \<open>An idle controller: bridge off, enabled by the pipeline, forced on, HDMI sink.\<close>

definition hdmi0 :: "unit dw_hdmi" where
  "hdmi0 = \<lparr>regm = (\<lambda>_. 0),
            i2c = \<lparr>lock = False, cmp_done = 0, stat = 0, slave_reg = 0,
                   is_regaddr = False, is_segment = False\<rparr>,
            hdmi_data = data0, vic = 16, phy_enabled = False,
            previous_mode = \<lparr>mode_flags = 0\<rparr>, sink_is_hdmi = True, hdr_sink_eotf = 0,
            use_drm_infoframe = False, force = DRM_FORCE_ON, curr_conn = Some conn0,
            disabled = False, bridge_is_on = False, rxsense = True,
            sink = (), trace = []\<rparr>"

definition frame0 :: hdmi_avi_infoframe where
  "frame0 = \<lparr>version = 2, length_f = 13, colorspace = 0,
             scan_mode = HDMI_SCAN_MODE_UNDERSCAN, video_code = 0\<rparr>"

text \<open>
  Collaborators for the closed examples: the PHY returns \<open>ret\<close>, the mode has VIC \<open>v\<close>
  and TMDS clock \<open>tmds\<close>, the sink supports SCDC iff \<open>scdc\<close>; the packed AVI buffer
  holds type, version and length in its header and the video code in byte 7.
\<close>

definition ext0 :: "int \<Rightarrow> int \<Rightarrow> u32 \<Rightarrow> bool \<Rightarrow> unit externs" where
  "ext0 ret v tmds scdc =
     \<lparr>prep_data = (\<lambda>h m. (v, data0)),
      prep_vmode = (\<lambda>h m. vmode0\<lparr>mtmdsclock := tmds\<rparr>),
      phy_init = (\<lambda>h i m. ret),
      support_scdc = (\<lambda>h i. scdc),
      scdc_sink_version = Some 1,
      prep_avi_infoframe = (\<lambda>h c m. frame0),
      avi_infoframe_pack_only =
        (\<lambda>f i. if i = 0 then 0x82 else if i = 1 then version f
                else if i = 2 then length_f f else if i = 7 then video_code f else 0),
      set_hdr_metadata = (\<lambda>c. None),
      drm_infoframe_pack = (\<lambda>f. None)\<rparr>"


section \<open>Rejected transfers\<close>

lemma ci_addr_iff: "(ucast (a :: u8) = DDC_CI_ADDR) = (a = 0x37)"
proof
  assume "ucast a = DDC_CI_ADDR"
  then have "(ucast (ucast a :: u32) :: u8) = ucast (0x37 :: u32)"
    by (simp add: DDC_CI_ADDR_def)
  then show "a = 0x37"
    by (simp add: ucast_up_ucast_id is_up)
next
  assume "a = 0x37"
  then show "ucast a = DDC_CI_ADDR"
    by (simp add: DDC_CI_ADDR_def)
qed

text \<open>
  Claim C4, as amended.  The transfer function looks at the address of the first
  message only (its low eight bits): when that is the DDC/CI address 0x37, the transfer
  fails with \<open>EOPNOTSUPP\<close> whatever the other messages are, and the controller is left
  exactly as it was: no register access, no wait, no lock taken.
\<close>

theorem xfer_ci_first_rejected:
  assumes "(ucast (addr m0) :: u8) = 0x37"
  shows "dw_hdmi_qp_i2c_xfer k dev hdmi (m0 # ms) = (Inl EOPNOTSUPP, hdmi, m0 # ms)"
  using assms by (simp add: dw_hdmi_qp_i2c_xfer_def ci_addr_iff)

theorem xfer_ci_first_rejected_witness:
  "(ucast (addr \<lparr>addr = 0x37, flags = 0, buf = [0x00]\<rparr>) :: u8) = 0x37 \<and>
   dw_hdmi_qp_i2c_xfer k0 silent hdmi0
     (\<lparr>addr = 0x37, flags = 0, buf = [0x00]\<rparr> # [\<lparr>addr = 0x50, flags = 1, buf = [0x00, 0x00]\<rparr>]) =
   (Inl EOPNOTSUPP, hdmi0,
    \<lparr>addr = 0x37, flags = 0, buf = [0x00]\<rparr> # [\<lparr>addr = 0x50, flags = 1, buf = [0x00, 0x00]\<rparr>])"
  using xfer_ci_first_rejected [of "\<lparr>addr = 0x37, flags = 0, buf = [0x00]\<rparr>" k0 silent hdmi0
      "[\<lparr>addr = 0x50, flags = 1, buf = [0x00, 0x00]\<rparr>]"]
  by simp

text \<open>
  Claim C4 as stated fails: with the DDC/CI address on the second message the transfer
  is carried out; against the acknowledging sink it completes both messages.
\<close>

theorem xfer_ci_later_counterexample:
  "addr (\<lparr>addr = 0x37, flags = 1, buf = [0x00]\<rparr> :: i2c_msg) = 0x37 \<and>
   fst (dw_hdmi_qp_i2c_xfer k0 (ack_sink k0 (\<lambda>a. a)) hdmi0
     [\<lparr>addr = 0x50, flags = 0, buf = [0x00]\<rparr>, \<lparr>addr = 0x37, flags = 1, buf = [0x00]\<rparr>]) = Inr 2 \<and>
   Inr 2 \<noteq> (Inl EOPNOTSUPP :: error + nat)"
  by code_simp

text \<open>
  Claim C1 as stated fails: both messages of the scenario go to 0x37, the address the
  transfer function rejects, so the result is \<open>EOPNOTSUPP\<close> and not two messages.
\<close>

theorem xfer_ci_scenario_counterexample:
  "fst (dw_hdmi_qp_i2c_xfer k0 (ack_sink k0 (\<lambda>a. 0x10 + a)) hdmi0
     [\<lparr>addr = 0x37, flags = 0, buf = [0x00]\<rparr>,
      \<lparr>addr = 0x37, flags = 1, buf = [0, 0, 0, 0, 0, 0, 0, 0]\<rparr>]) = Inl EOPNOTSUPP \<and>
   Inl EOPNOTSUPP \<noteq> (Inr 2 :: error + nat)"
  by code_simp

section \<open>The infoframe checksum\<close>

lemma fold_csum:
  "n \<le> length p \<Longrightarrow> fold (\<lambda>i c. c + p ! i) [0..<n] (c0 :: u8) = c0 + sum_list (take n p)"
proof (induction n)
  case 0
  then show ?case by simp
next
  case (Suc n)
  then have "take (Suc n) p = take n p @ [p ! n]"
    by (simp add: take_Suc_conv_app_nth)
  with Suc show ?case by (simp add: add.assoc)
qed

lemma sum_list_upd:
  "i < length xs \<Longrightarrow> sum_list (xs[i := v]) = sum_list xs - xs ! i + (v :: u8)"
proof (induction xs arbitrary: i)
  case Nil
  then show ?case by simp
next
  case (Cons x xs)
  then show ?case by (cases i) simp_all
qed

lemma unat_sum_list: "unat (sum_list xs :: u8) = sum_list (map unat xs) mod 256"
proof (induction xs)
  case Nil
  then show ?case by simp
next
  case (Cons x xs)
  have "unat (x + sum_list xs) = (unat x + unat (sum_list xs)) mod 256"
    by (simp add: unat_word_ariths)
  also have "\<dots> = (unat x + sum_list (map unat xs) mod 256) mod 256"
    by (simp add: Cons.IH)
  also have "\<dots> = (unat x + sum_list (map unat xs)) mod 256"
    by (rule mod_add_right_eq)
  finally show ?case by simp
qed

lemma neg_csum: "(word_of_int (256 - uint c) :: u8) = - c"
proof -
  have "(word_of_int (256 - uint c) :: u8) = word_of_int 256 - word_of_int (uint c)"
    by (simp only: of_int_diff)
  also have "\<dots> = - c" by simp
  finally show ?thesis .
qed

lemma checksum_word:
  assumes "hdmi_infoframe_set_checksum ptr sz = Some ptr'" and "4 \<le> sz"
  shows "sum_list (take (nat sz) ptr') = 0" and "length ptr' = length ptr"
    and "ptr' = ptr[3 := - sum_list (take (nat sz) (ptr[3 := 0]))]"
proof -
  let ?n = "nat sz"
  let ?p1 = "ptr[3 := 0]"
  from assms have len: "3 < length ptr" "?n \<le> length ptr" "3 < ?n"
    and ok: "\<not> (length ptr \<le> 3 \<or> int (length ptr) < sz)"
    by (auto simp: hdmi_infoframe_set_checksum_def split: if_splits)
  have c: "fold (\<lambda>i c. c + ?p1 ! i) [0..<?n] (0 :: u8) = sum_list (take ?n ?p1)"
    using fold_csum [of ?n ?p1 0] len by simp
  from assms(1) show p: "ptr' = ptr[3 := - sum_list (take ?n ?p1)]"
    unfolding hdmi_infoframe_set_checksum_def Let_def c neg_csum if_not_P [OF ok]
    by simp
  then show "length ptr' = length ptr" by simp
  have "take ?n ptr' = (take ?n ?p1)[3 := - sum_list (take ?n ?p1)]"
    using p by (simp add: take_update_swap)
  moreover have "3 < length (take ?n ?p1)" "take ?n ?p1 ! 3 = 0"
    using len by simp_all
  ultimately show "sum_list (take ?n ptr') = 0"
    by (simp add: sum_list_upd)
qed

text \<open>
  Claim C6, as amended.  When the size covers the checksum byte (at least 4) and the
  call stays inside the buffer, the first \<open>size\<close> bytes of the buffer sum to 0 modulo
  256 after the call; that is the whole buffer when the size is its length, as at the
  only call in the driver (17 bytes of 17).
\<close>

theorem checksum_sum_zero:
  assumes "hdmi_infoframe_set_checksum ptr sz = Some ptr'" and "4 \<le> sz"
  shows "sum_list (map unat (take (nat sz) ptr')) mod 256 = 0"
proof -
  have "unat (sum_list (take (nat sz) ptr')) = 0"
    using checksum_word(1) [OF assms] by simp
  then show ?thesis by (simp add: unat_sum_list)
qed

theorem checksum_sum_zero_witness:
  "hdmi_infoframe_set_checksum [0x82, 2, 13, 0x55, 1, 2, 3] 7 = Some [0x82, 2, 13, 0x69, 1, 2, 3] \<and>
   (4 :: int) \<le> 7 \<and>
   sum_list (map unat (take (nat 7) [0x82, 2, 13, 0x69, 1, 2, 3 :: u8])) mod 256 = 0"
proof -
  have e: "hdmi_infoframe_set_checksum [0x82, 2, 13, 0x55, 1, 2, 3] 7 =
      Some [0x82, 2, 13, 0x69, 1, 2, 3]"
    by code_simp
  from checksum_sum_zero [OF e] e show ?thesis by simp
qed

text \<open>
  Claim C6 as stated fails for a size below 4: the checksum byte is outside the bytes
  summed, and the buffer \<open>[1, 1, 0, 0]\<close> with size 1 ends as \<open>[1, 1, 0, 255]\<close>, whose
  bytes sum to 257.
\<close>

theorem checksum_small_size_counterexample:
  "hdmi_infoframe_set_checksum [1, 1, 0, 0] 1 = Some [1, 1, 0, 255] \<and>
   sum_list (map unat [1, 1, 0, 255 :: u8]) mod 256 = 1"
  by code_simp



section \<open>Traces of the register layer\<close>

lemma trace_write [simp]: "trace (dw_hdmi_qp_write h v off) = trace h @ [Wr off v]"
  by (simp add: dw_hdmi_qp_write_def)

lemma trace_mod [simp]: "trace (dw_hdmi_qp_mod h d m r) = trace h @ [Mod r m d]"
  by (simp add: dw_hdmi_qp_mod_def)

lemma trace_read [simp]: "trace (snd (dw_hdmi_qp_read h off)) = trace h @ [Rd off]"
  by (simp add: dw_hdmi_qp_read_def)

lemma trace_reinit [simp]: "trace (reinit_completion h) = trace h"
  by (simp add: reinit_completion_def)

lemma i2c_write [simp]: "i2c (dw_hdmi_qp_write h v off) = i2c h"
  by (simp add: dw_hdmi_qp_write_def)

lemma i2c_mod [simp]: "i2c (dw_hdmi_qp_mod h d m r) = i2c h"
  by (simp add: dw_hdmi_qp_mod_def)

lemma i2c_read [simp]: "i2c (snd (dw_hdmi_qp_read h off)) = i2c h"
  by (simp add: dw_hdmi_qp_read_def)

lemma regm_write_same [simp]: "regm (dw_hdmi_qp_write h v off) off = v"
  by (simp add: dw_hdmi_qp_write_def)

lemma hardirq_trace:
  "\<exists>ev. trace (snd (dw_hdmi_qp_main_hardirq k h)) = trace h @ ev \<and> TimedOut \<notin> set ev"
  by (simp add: dw_hdmi_qp_main_hardirq_def dw_hdmi_qp_read_def Let_def)

lemma wait_trace:
  assumes "wait_for_completion_timeout k dev h = (ok, h')"
  shows "\<exists>ev. trace h' = trace h @ ev \<and>
           (if ok then TimedOut \<notin> set ev
            else \<exists>pre. ev = pre @ [TimedOut] \<and> TimedOut \<notin> set pre)"
proof (cases "dev (sink h) (regm h)")
  case (Pair d ro)
  show ?thesis
  proof (cases ro)
    case None
    with Pair assms show ?thesis
      by (auto simp: wait_for_completion_timeout_def)
  next
    case (Some r)
    let ?h0 = "h\<lparr>regm := r, sink := d\<rparr>"
    obtain ev where ev: "trace (snd (dw_hdmi_qp_main_hardirq k ?h0)) = trace ?h0 @ ev"
      "TimedOut \<notin> set ev"
      using hardirq_trace by blast
    with Pair Some assms show ?thesis
      by (auto simp: wait_for_completion_timeout_def Let_def split: if_splits)
  qed
qed

lemma wait_i2c_flags:
  assumes "wait_for_completion_timeout k dev h = (ok, h')"
  shows "is_regaddr (i2c h') = is_regaddr (i2c h)" "slave_reg (i2c h') = slave_reg (i2c h)"
    "lock (i2c h') = lock (i2c h)" "is_segment (i2c h') = is_segment (i2c h)"
  using assms
  by (auto simp: wait_for_completion_timeout_def dw_hdmi_qp_main_hardirq_def Let_def
      dw_hdmi_qp_read_def dw_hdmi_qp_write_def split: prod.splits option.splits if_splits)

section \<open>Shape of the byte loops\<close>

lemma run_shape_quiet:
  assumes "trace h' = trace h @ ev" "TimedOut \<notin> set ev" "lock (i2c h') = lock (i2c h)"
  shows "run_shape k h None h'"
  using assms by (simp add: run_shape_def)

lemma run_shape_trans:
  assumes "run_shape k h None h1" "run_shape k h1 r h2"
  shows "run_shape k h r h2"
proof -
  from assms(1) obtain e1 where e1: "trace h1 = trace h @ e1" "TimedOut \<notin> set e1"
    "lock (i2c h1) = lock (i2c h)"
    by (auto simp: run_shape_def)
  from assms(2) obtain e2 where e2: "trace h2 = trace h1 @ e2"
    "(TimedOut \<in> set e2) = (r = Some EAGAIN)"
    "r = Some EAGAIN \<Longrightarrow> \<exists>pre. e2 = pre @ [TimedOut, Wr (k I2CM_CONTROL0) 0x01]"
    by (auto simp: run_shape_def split: if_splits)
  have t: "trace h2 = trace h @ (e1 @ e2)" using e1 e2 by simp
  have m: "(TimedOut \<in> set (e1 @ e2)) = (r = Some EAGAIN)" using e1 e2 by simp
  have s: "r = Some EAGAIN \<Longrightarrow> \<exists>pre. e1 @ e2 = pre @ [TimedOut, Wr (k I2CM_CONTROL0) 0x01]"
  proof -
    assume "r = Some EAGAIN"
    then obtain pre where "e2 = pre @ [TimedOut, Wr (k I2CM_CONTROL0) 0x01]" using e2(3) by blast
    then have "e1 @ e2 = (e1 @ pre) @ [TimedOut, Wr (k I2CM_CONTROL0) 0x01]" by simp
    then show ?thesis by blast
  qed
  from assms(2) have rest: "r = None \<or> r = Some EAGAIN \<or> r = Some EIO"
    "r = Some EAGAIN \<Longrightarrow> regm h2 (k I2CM_CONTROL0) = 0x01"
    "lock (i2c h2) = lock (i2c h1)"
    by (auto simp: run_shape_def split: if_splits)
  show ?thesis
  proof (cases "r = Some EAGAIN")
    case True
    from s [OF True] obtain pre where p: "e1 @ e2 = pre @ [TimedOut, Wr (k I2CM_CONTROL0) 0x01]"
      by blast
    have "\<exists>ev. trace h2 = trace h @ ev \<and> ((TimedOut \<in> set ev) = (r = Some EAGAIN)) \<and>
           (if r = Some EAGAIN then \<exists>pre. ev = pre @ [TimedOut, Wr (k I2CM_CONTROL0) 0x01]
            else True)"
      apply (rule exI [where x = "e1 @ e2"])
      using t m p True by auto
    then show ?thesis
      unfolding run_shape_def using rest e1(3) True by simp
  next
    case False
    have "\<exists>ev. trace h2 = trace h @ ev \<and> ((TimedOut \<in> set ev) = (r = Some EAGAIN)) \<and>
           (if r = Some EAGAIN then \<exists>pre. ev = pre @ [TimedOut, Wr (k I2CM_CONTROL0) 0x01]
            else True)"
      apply (rule exI [where x = "e1 @ e2"])
      using t m False by simp
    then show ?thesis
      unfolding run_shape_def using rest e1(3) False by simp
  qed
qed

lemma wait_timeout_shape:
  assumes "wait_for_completion_timeout k dev h = (False, h')"
  shows "run_shape k h (Some EAGAIN) (dw_hdmi_qp_write h' 0x01 (k I2CM_CONTROL0))"
proof -
  from wait_trace [OF assms] obtain pre where
    "trace h' = trace h @ pre @ [TimedOut]" by auto
  then have "trace (dw_hdmi_qp_write h' 0x01 (k I2CM_CONTROL0)) =
      trace h @ pre @ [TimedOut, Wr (k I2CM_CONTROL0) 0x01]" by simp
  then show ?thesis
    using wait_i2c_flags(3) [OF assms] by (auto simp: run_shape_def)
qed

lemma wait_done_shape:
  assumes "wait_for_completion_timeout k dev h = (True, h')"
  shows "run_shape k h (Some EIO) (dw_hdmi_qp_write h' 0x01 (k I2CM_CONTROL0))"
    and "run_shape k h None h'"
proof -
  from wait_trace [OF assms] obtain ev where
    "trace h' = trace h @ ev" "TimedOut \<notin> set ev" by auto
  then show "run_shape k h (Some EIO) (dw_hdmi_qp_write h' 0x01 (k I2CM_CONTROL0))"
    and "run_shape k h None h'"
    using wait_i2c_flags(3) [OF assms] by (auto simp: run_shape_def)
qed

lemma i2c_read_bytes_shape:
  "i2c_read_bytes k dev h bf p n = (r, h', bf') \<Longrightarrow> run_shape k h r h'"
proof (induction n arbitrary: h bf p)
  case 0
  then show ?case by (simp add: run_shape_def)
next
  case (Suc n)
  let ?h2 = "(reinit_completion h)\<lparr>i2c := (i2c (reinit_completion h))
      \<lparr>slave_reg := slave_reg (i2c (reinit_completion h)) + 1\<rparr>\<rparr>"
  let ?h4 = "dw_hdmi_qp_mod (dw_hdmi_qp_mod ?h2
      (push_bit 12 (ucast (slave_reg (i2c (reinit_completion h))))) (k I2CM_ADDR)
      (k I2CM_INTERFACE_CONTROL0)) (k I2CM_FM_READ) (k I2CM_WR_MASK) (k I2CM_INTERFACE_CONTROL0)"
  have pre: "run_shape k h None ?h4"
    by (rule run_shape_quiet [where ev = "[Mod (k I2CM_INTERFACE_CONTROL0) (k I2CM_ADDR)
        (push_bit 12 (ucast (slave_reg (i2c (reinit_completion h))))),
        Mod (k I2CM_INTERFACE_CONTROL0) (k I2CM_WR_MASK) (k I2CM_FM_READ)]"])
      (simp_all add: reinit_completion_def)
  obtain ok h5 where w: "wait_for_completion_timeout k dev ?h4 = (ok, h5)"
    by (cases "wait_for_completion_timeout k dev ?h4")
  show ?case
  proof (cases ok)
    case False
    with Suc.prems w have "r = Some EAGAIN" "h' = dw_hdmi_qp_write h5 0x01 (k I2CM_CONTROL0)"
      by (simp_all add: Let_def)
    moreover from w False have "wait_for_completion_timeout k dev ?h4 = (False, h5)" by simp
    ultimately show ?thesis
      using wait_timeout_shape pre by (blast intro: run_shape_trans)
  next
    case True
    with w have w': "wait_for_completion_timeout k dev ?h4 = (True, h5)" by simp
    show ?thesis
    proof (cases "ucast (stat (i2c h5)) AND k I2CM_NACK_RCVD_IRQ \<noteq> 0")
      case nack: True
      with Suc.prems w True have "r = Some EIO" "h' = dw_hdmi_qp_write h5 0x01 (k I2CM_CONTROL0)"
        by (simp_all add: Let_def)
      with wait_done_shape(1) [OF w'] pre show ?thesis
        by (blast intro: run_shape_trans)
    next
      case False
      let ?h7 = "dw_hdmi_qp_mod (snd (dw_hdmi_qp_read h5 (k I2CM_INTERFACE_RDDATA_0_3))) 0
          (k I2CM_WR_MASK) (k I2CM_INTERFACE_CONTROL0)"
      have post: "run_shape k h5 None ?h7"
        by (rule run_shape_quiet [where ev = "[Rd (k I2CM_INTERFACE_RDDATA_0_3),
          Mod (k I2CM_INTERFACE_CONTROL0) (k I2CM_WR_MASK) 0]"]) simp_all
      from Suc.prems w True False
      have "i2c_read_bytes k dev ?h7
          (bf[p := ucast (fst (dw_hdmi_qp_read h5 (k I2CM_INTERFACE_RDDATA_0_3)) AND 0xff)])
          (Suc p) n = (r, h', bf')"
        by (simp add: Let_def split_beta)
      then have "run_shape k ?h7 r h'" by (rule Suc.IH)
      with pre wait_done_shape(2) [OF w'] post show ?thesis
        by (blast intro: run_shape_trans)
    qed
  qed
qed

lemma i2c_write_bytes_shape:
  "i2c_write_bytes k dev h bs = (r, h') \<Longrightarrow> run_shape k h r h'"
proof (induction bs arbitrary: h)
  case Nil
  then show ?case by (simp add: run_shape_def)
next
  case (Cons b bs)
  let ?h2 = "dw_hdmi_qp_write (reinit_completion h) (ucast b) (k I2CM_INTERFACE_WRDATA_0_3)"
  let ?h3 = "?h2\<lparr>i2c := (i2c ?h2)\<lparr>slave_reg := slave_reg (i2c ?h2) + 1\<rparr>\<rparr>"
  let ?h5 = "dw_hdmi_qp_mod (dw_hdmi_qp_mod ?h3
      (push_bit 12 (ucast (slave_reg (i2c ?h2)))) (k I2CM_ADDR)
      (k I2CM_INTERFACE_CONTROL0)) (k I2CM_FM_WRITE) (k I2CM_WR_MASK) (k I2CM_INTERFACE_CONTROL0)"
  have pre: "run_shape k h None ?h5"
    by (rule run_shape_quiet [where ev = "[Wr (k I2CM_INTERFACE_WRDATA_0_3) (ucast b),
        Mod (k I2CM_INTERFACE_CONTROL0) (k I2CM_ADDR)
        (push_bit 12 (ucast (slave_reg (i2c ?h2)))),
        Mod (k I2CM_INTERFACE_CONTROL0) (k I2CM_WR_MASK) (k I2CM_FM_WRITE)]"])
      (simp_all add: reinit_completion_def)
  obtain ok h6 where w: "wait_for_completion_timeout k dev ?h5 = (ok, h6)"
    by (cases "wait_for_completion_timeout k dev ?h5")
  show ?case
  proof (cases ok)
    case False
    with Cons.prems w have "r = Some EAGAIN" "h' = dw_hdmi_qp_write h6 0x01 (k I2CM_CONTROL0)"
      by (simp_all add: Let_def)
    moreover from w False have "wait_for_completion_timeout k dev ?h5 = (False, h6)" by simp
    ultimately show ?thesis
      using wait_timeout_shape pre by (blast intro: run_shape_trans)
  next
    case True
    with w have w': "wait_for_completion_timeout k dev ?h5 = (True, h6)" by simp
    show ?thesis
    proof (cases "ucast (stat (i2c h6)) AND k I2CM_NACK_RCVD_IRQ \<noteq> 0")
      case nack: True
      with Cons.prems w True have "r = Some EIO" "h' = dw_hdmi_qp_write h6 0x01 (k I2CM_CONTROL0)"
        by (simp_all add: Let_def)
      with wait_done_shape(1) [OF w'] pre show ?thesis
        by (blast intro: run_shape_trans)
    next
      case False
      let ?h7 = "dw_hdmi_qp_mod h6 0 (k I2CM_WR_MASK) (k I2CM_INTERFACE_CONTROL0)"
      have post: "run_shape k h6 None ?h7"
        by (rule run_shape_quiet [where ev = "[Mod (k I2CM_INTERFACE_CONTROL0) (k I2CM_WR_MASK) 0]"])
          simp_all
      from Cons.prems w True False
      have "i2c_write_bytes k dev ?h7 bs = (r, h')"
        by (simp add: Let_def)
      then have "run_shape k ?h7 r h'" by (rule Cons.IH)
      with pre wait_done_shape(2) [OF w'] post show ?thesis
        by (blast intro: run_shape_trans)
    qed
  qed
qed

lemma run_shape_i2c_only:
  assumes "run_shape k h r h1" "trace h2 = trace h1" "regm h2 = regm h1"
    "lock (i2c h2) = lock (i2c h1)"
  shows "run_shape k h r h2"
  using assms by (simp add: run_shape_def)

lemma run_shape_from_i2c_only:
  assumes "run_shape k h1 r h2" "trace h1 = trace h" "lock (i2c h1) = lock (i2c h)"
  shows "run_shape k h r h2"
  using assms by (simp add: run_shape_def)

lemma i2c_read_shape:
  assumes "dw_hdmi_qp_i2c_read k dev h bf n = (r, h', bf')"
  shows "run_shape k h r h'"
proof -
  let ?h1 = "if \<not> is_regaddr (i2c h)
             then h\<lparr>i2c := (i2c h)\<lparr>slave_reg := 0x00, is_regaddr := True\<rparr>\<rparr> else h"
  obtain r2 h2 bf2 where l: "i2c_read_bytes k dev ?h1 bf 0 n = (r2, h2, bf2)"
    by (cases "i2c_read_bytes k dev ?h1 bf 0 n")
  have s: "run_shape k h r2 h2"
    by (rule run_shape_from_i2c_only [OF i2c_read_bytes_shape [OF l]]) simp_all
  show ?thesis
  proof (cases r2)
    case None
    with assms l have "r = None" "h' = h2\<lparr>i2c := (i2c h2)\<lparr>is_segment := False\<rparr>\<rparr>"
      by (simp_all add: dw_hdmi_qp_i2c_read_def Let_def)
    with s None show ?thesis
      by (auto intro: run_shape_i2c_only)
  next
    case (Some e)
    with assms l have "r = r2" "h' = h2"
      by (simp_all add: dw_hdmi_qp_i2c_read_def Let_def)
    with s show ?thesis by simp
  qed
qed

lemma i2c_write_shape:
  assumes "dw_hdmi_qp_i2c_write k dev h bf = (r, h')" "bf \<noteq> []"
  shows "run_shape k h r h'"
proof (cases "is_regaddr (i2c h)")
  case True
  with assms show ?thesis
    by (simp add: dw_hdmi_qp_i2c_write_def i2c_write_bytes_shape)
next
  case False
  from assms(2) obtain b bs where bf: "bf = b # bs" by (cases bf) auto
  let ?h1 = "h\<lparr>i2c := (i2c h)\<lparr>slave_reg := b, is_regaddr := True\<rparr>\<rparr>"
  from assms False bf have "i2c_write_bytes k dev ?h1 bs = (r, h')"
    by (simp add: dw_hdmi_qp_i2c_write_def)
  then have "run_shape k ?h1 r h'" by (rule i2c_write_bytes_shape)
  then show ?thesis
    by (rule run_shape_from_i2c_only) simp_all
qed


lemma xfer_msgs_seg:
  assumes "ucast (addr m) = DDC_SEGMENT_ADDR \<and> len m = 1"
  shows "xfer_msgs k dev h (m # ms) =
     (case xfer_msgs k dev (program_segment k h m) ms of (r, h', ms') \<Rightarrow> (r, h', m # ms'))"
  by (simp only: xfer_msgs.simps if_P [OF assms] Let_def program_segment_def)

lemma xfer_msgs_rd:
  assumes "\<not> (ucast (addr m) = DDC_SEGMENT_ADDR \<and> len m = 1)"
    and "ucast (flags m) AND k I2C_M_RD \<noteq> 0"
  shows "xfer_msgs k dev h (m # ms) =
     (case dw_hdmi_qp_i2c_read k dev h (buf m) (len m) of
        (Some e, h', bf') \<Rightarrow> (Some e, h', m\<lparr>buf := bf'\<rparr> # ms)
      | (None, h', bf') \<Rightarrow>
          (case xfer_msgs k dev h' ms of (r, h'', ms') \<Rightarrow> (r, h'', m\<lparr>buf := bf'\<rparr> # ms')))"
  by (simp only: xfer_msgs.simps if_not_P [OF assms(1)] if_P [OF assms(2)])

lemma xfer_msgs_wr:
  assumes "\<not> (ucast (addr m) = DDC_SEGMENT_ADDR \<and> len m = 1)"
    and "\<not> ucast (flags m) AND k I2C_M_RD \<noteq> 0"
  shows "xfer_msgs k dev h (m # ms) =
     (case dw_hdmi_qp_i2c_write k dev h (buf m) of
        (Some e, h') \<Rightarrow> (Some e, h', m # ms)
      | (None, h') \<Rightarrow>
          (case xfer_msgs k dev h' ms of (r, h'', ms') \<Rightarrow> (r, h'', m # ms')))"
  by (simp only: xfer_msgs.simps if_not_P [OF assms(1)] if_not_P [OF assms(2)])

lemma program_segment_quiet: "run_shape k h None (program_segment k h m)"
  by (rule run_shape_quiet [where ev = "[Mod (k I2CM_INTERFACE_CONTROL1) (k I2CM_SEG_ADDR)
        DDC_SEGMENT_ADDR, Mod (k I2CM_INTERFACE_CONTROL1) (k I2CM_SEG_PTR) (ucast (hd (buf m)))]"])
    (simp_all add: program_segment_def)

lemma xfer_msgs_shape:
  assumes "\<forall>m \<in> set msgs. len m \<noteq> 0" "xfer_msgs k dev h msgs = (r, h', msgs')"
  shows "run_shape k h r h'"
  using assms
proof (induction msgs arbitrary: h r h' msgs')
  case Nil
  then show ?case by (simp add: run_shape_def)
next
  case (Cons m ms)
  from Cons.prems(1) have ne: "buf m \<noteq> []" and rest: "\<forall>m \<in> set ms. len m \<noteq> 0"
    by (auto simp: len_def)
  show ?case
  proof (cases "ucast (addr m) = DDC_SEGMENT_ADDR \<and> len m = 1")
    case True
    obtain r2 h2 ms2 where l: "xfer_msgs k dev (program_segment k h m) ms = (r2, h2, ms2)"
      by (cases "xfer_msgs k dev (program_segment k h m) ms")
    with Cons.prems(2) have "r = r2" "h' = h2"
      by (simp_all del: xfer_msgs.simps add: xfer_msgs_seg [OF True])
    with Cons.IH [OF rest l] program_segment_quiet show ?thesis
      by (blast intro: run_shape_trans)
  next
    case False
    show ?thesis
    proof (cases "ucast (flags m) AND k I2C_M_RD \<noteq> 0")
      case rd: True
      obtain r1 h1 bf1 where l1: "dw_hdmi_qp_i2c_read k dev h (buf m) (len m) = (r1, h1, bf1)"
        by (cases "dw_hdmi_qp_i2c_read k dev h (buf m) (len m)")
      note s1 = i2c_read_shape [OF l1]
      show ?thesis
      proof (cases r1)
        case None
        obtain r2 h2 ms2 where l: "xfer_msgs k dev h1 ms = (r2, h2, ms2)"
          by (cases "xfer_msgs k dev h1 ms")
        with Cons.prems(2) l1 None have "r = r2" "h' = h2"
          by (simp_all del: xfer_msgs.simps add: xfer_msgs_rd [where k = k, OF False rd])
        with Cons.IH [OF rest l] s1 None show ?thesis
          by (blast intro: run_shape_trans)
      next
        case (Some e)
        with Cons.prems(2) l1 have "r = r1" "h' = h1"
          by (simp_all del: xfer_msgs.simps add: xfer_msgs_rd [where k = k, OF False rd])
        with s1 show ?thesis by simp
      qed
    next
      case wr: False
      obtain r1 h1 where l1: "dw_hdmi_qp_i2c_write k dev h (buf m) = (r1, h1)"
        by (cases "dw_hdmi_qp_i2c_write k dev h (buf m)")
      note s1 = i2c_write_shape [OF l1 ne]
      show ?thesis
      proof (cases r1)
        case None
        obtain r2 h2 ms2 where l: "xfer_msgs k dev h1 ms = (r2, h2, ms2)"
          by (cases "xfer_msgs k dev h1 ms")
        with Cons.prems(2) l1 None have "r = r2" "h' = h2"
          by (simp_all del: xfer_msgs.simps add: xfer_msgs_wr [where k = k, OF False wr])
        with Cons.IH [OF rest l] s1 None show ?thesis
          by (blast intro: run_shape_trans)
      next
        case (Some e)
        with Cons.prems(2) l1 have "r = r1" "h' = h1"
          by (simp_all del: xfer_msgs.simps add: xfer_msgs_wr [where k = k, OF False wr])
        with s1 show ?thesis by simp
      qed
    qed
  qed
qed

text \<open>The transfer, unfolded for messages that pass the two checks.\<close>

lemma xfer_unfold:
  assumes "(ucast (addr m0) :: u8) \<noteq> 0x37" and "\<forall>m \<in> set (m0 # ms). len m \<noteq> 0"
    and "xfer_msgs k dev
          ((dw_hdmi_qp_mod
             (dw_hdmi_qp_mod (hdmi\<lparr>i2c := (i2c hdmi)\<lparr>lock := True\<rparr>\<rparr>)
                (k I2CM_NACK_RCVD_MASK_N OR k I2CM_OP_DONE_MASK_N)
                (k I2CM_NACK_RCVD_MASK_N OR k I2CM_OP_DONE_MASK_N) (k MAINUNIT_1_INT_MASK_N))
             (push_bit 5 (ucast (if ucast (ucast (addr m0) :: u8) = DDC_SEGMENT_ADDR \<and> len m0 = 1
                                 then ucast (k DDC_ADDR) else (ucast (addr m0) :: u8))))
             (k I2CM_SLVADDR) (k I2CM_INTERFACE_CONTROL0))
           \<lparr>i2c := (i2c hdmi)\<lparr>lock := True, is_regaddr := False, is_segment := False\<rparr>\<rparr>)
          (m0 # ms) = (r, h5, msgs')"
  shows "dw_hdmi_qp_i2c_xfer k dev hdmi (m0 # ms) =
           (case r of None \<Rightarrow> Inr (length (m0 # ms)) | Some e \<Rightarrow> Inl e,
            (dw_hdmi_qp_mod h5 0 (k I2CM_OP_DONE_MASK_N OR k I2CM_NACK_RCVD_MASK_N)
               (k MAINUNIT_1_INT_MASK_N))
            \<lparr>i2c := (i2c h5)\<lparr>lock := False\<rparr>\<rparr>, msgs')"
proof -
  have a: "\<not> (ucast (ucast (addr m0) :: u8) = DDC_CI_ADDR)"
    using assms(1) by (simp add: ci_addr_iff)
  have b: "\<not> (\<exists>m \<in> set (m0 # ms). len m = 0)"
    using assms(2) by blast
  show ?thesis
    unfolding dw_hdmi_qp_i2c_xfer_def list.case Let_def if_not_P [OF a] if_not_P [OF b]
    using assms(3) by (simp add: Let_def)
qed


lemma and_not_and_zero: "((x :: u32) AND NOT m OR (0 AND m)) AND m = 0"
  by (simp add: bit_eq_iff bit_simps)

lemma mod_zero_clears: "regm ((dw_hdmi_qp_mod h 0 m r)\<lparr>i2c := x\<rparr>) r AND m = 0"
  by (simp add: dw_hdmi_qp_mod_def bit_eq_iff bit_simps)

lemma regm_mod_same:
  "regm (dw_hdmi_qp_mod h d m r) r = (regm h r AND NOT m) OR (d AND m)"
  by (simp add: dw_hdmi_qp_mod_def)


text \<open>
  Claim C9.  A transfer that passes the two checks (first address not DDC/CI, no empty
  message) ends, whatever the bus does, in one of three ways only (all messages
  completed, a timeout, a nack), and on each of them with the DONE and NACK bits of
  the interrupt mask register cleared and the lock released.  The first event of the
  transfer is the unmasking of the two bits and its last event their masking, so they
  are unmasked only while the transfer runs.
\<close>

theorem xfer_exit_masked_unlocked:
  assumes "(ucast (addr m0) :: u8) \<noteq> 0x37" and "\<forall>m \<in> set (m0 # ms). len m \<noteq> 0"
  shows "case dw_hdmi_qp_i2c_xfer k dev hdmi (m0 # ms) of
           (r, h', msgs') \<Rightarrow>
             (r = Inr (length (m0 # ms)) \<or> r = Inl EAGAIN \<or> r = Inl EIO) \<and>
             regm h' (k MAINUNIT_1_INT_MASK_N) AND
               (k I2CM_OP_DONE_MASK_N OR k I2CM_NACK_RCVD_MASK_N) = 0 \<and>
             lock (i2c h') = False \<and>
             (\<exists>mid. trace h' = trace hdmi @
                Mod (k MAINUNIT_1_INT_MASK_N) (k I2CM_NACK_RCVD_MASK_N OR k I2CM_OP_DONE_MASK_N)
                  (k I2CM_NACK_RCVD_MASK_N OR k I2CM_OP_DONE_MASK_N) #
                mid @
                [Mod (k MAINUNIT_1_INT_MASK_N) (k I2CM_OP_DONE_MASK_N OR k I2CM_NACK_RCVD_MASK_N) 0])"
proof -
  let ?a = "push_bit 5 (ucast (if ucast (ucast (addr m0) :: u8) = DDC_SEGMENT_ADDR \<and> len m0 = 1
                                 then ucast (k DDC_ADDR) else (ucast (addr m0) :: u8)))"
  let ?M = "k I2CM_NACK_RCVD_MASK_N OR k I2CM_OP_DONE_MASK_N"
  let ?M' = "k I2CM_OP_DONE_MASK_N OR k I2CM_NACK_RCVD_MASK_N"
  let ?h4 = "(dw_hdmi_qp_mod
             (dw_hdmi_qp_mod (hdmi\<lparr>i2c := (i2c hdmi)\<lparr>lock := True\<rparr>\<rparr>) ?M ?M
                (k MAINUNIT_1_INT_MASK_N))
             ?a (k I2CM_SLVADDR) (k I2CM_INTERFACE_CONTROL0))
           \<lparr>i2c := (i2c hdmi)\<lparr>lock := True, is_regaddr := False, is_segment := False\<rparr>\<rparr>"
  obtain r h5 msgs' where l: "xfer_msgs k dev ?h4 (m0 # ms) = (r, h5, msgs')"
    by (cases "xfer_msgs k dev ?h4 (m0 # ms)")
  note x = xfer_unfold [OF assms l]
  from xfer_msgs_shape [OF assms(2) l] obtain ev where
    r: "r = None \<or> r = Some EAGAIN \<or> r = Some EIO" and t: "trace h5 = trace ?h4 @ ev"
    by (auto simp: run_shape_def)
  have t4: "trace ?h4 = trace hdmi @
      [Mod (k MAINUNIT_1_INT_MASK_N) ?M ?M, Mod (k I2CM_INTERFACE_CONTROL0) (k I2CM_SLVADDR) ?a]"
    by simp
  have "trace h5 @ [Mod (k MAINUNIT_1_INT_MASK_N) ?M' 0] =
      trace hdmi @ Mod (k MAINUNIT_1_INT_MASK_N) ?M ?M #
        (Mod (k I2CM_INTERFACE_CONTROL0) (k I2CM_SLVADDR) ?a # ev) @
        [Mod (k MAINUNIT_1_INT_MASK_N) ?M' 0]"
    unfolding t t4 by simp
  then have tr: "\<exists>mid. trace h5 @ [Mod (k MAINUNIT_1_INT_MASK_N) ?M' 0] =
      trace hdmi @ Mod (k MAINUNIT_1_INT_MASK_N) ?M ?M # mid @ [Mod (k MAINUNIT_1_INT_MASK_N) ?M' 0]"
    by blast
  let ?h7 = "(dw_hdmi_qp_mod h5 0 ?M' (k MAINUNIT_1_INT_MASK_N))\<lparr>i2c := (i2c h5)\<lparr>lock := False\<rparr>\<rparr>"
  let ?r = "case r of None \<Rightarrow> Inr (length (m0 # ms)) | Some e \<Rightarrow> Inl e"
  from r have c1: "?r = Inr (length (m0 # ms)) \<or> ?r = Inl EAGAIN \<or> ?r = Inl EIO"
    by auto
  have c2: "regm ?h7 (k MAINUNIT_1_INT_MASK_N) AND ?M' = 0"
    by (rule mod_zero_clears)
  have c3: "lock (i2c ?h7) = False" by simp
  have c4: "\<exists>mid. trace ?h7 =
      trace hdmi @ Mod (k MAINUNIT_1_INT_MASK_N) ?M ?M # mid @ [Mod (k MAINUNIT_1_INT_MASK_N) ?M' 0]"
    using tr by simp
  show ?thesis
    unfolding x prod.case using c1 c2 c3 c4 by blast
qed

theorem xfer_exit_masked_unlocked_witness:
  "(ucast (addr \<lparr>addr = 0x50, flags = 0, buf = [0x00]\<rparr>) :: u8) \<noteq> 0x37 \<and>
   len \<lparr>addr = 0x50, flags = 0, buf = [0x00]\<rparr> \<noteq> 0 \<and>
   len \<lparr>addr = 0x50, flags = 1, buf = [0x00, 0x00]\<rparr> \<noteq> 0 \<and>
   (case dw_hdmi_qp_i2c_xfer k0 silent hdmi0
           (\<lparr>addr = 0x50, flags = 0, buf = [0x00]\<rparr> #
            [\<lparr>addr = 0x50, flags = 1, buf = [0x00, 0x00]\<rparr>]) of
      (r, h', msgs') \<Rightarrow>
        (r = Inr (length (\<lparr>addr = 0x50, flags = 0, buf = [0x00]\<rparr> #
                          [\<lparr>addr = 0x50, flags = 1, buf = [0x00, 0x00]\<rparr>])) \<or>
         r = Inl EAGAIN \<or> r = Inl EIO) \<and>
        regm h' (k0 MAINUNIT_1_INT_MASK_N) AND
          (k0 I2CM_OP_DONE_MASK_N OR k0 I2CM_NACK_RCVD_MASK_N) = 0 \<and>
        lock (i2c h') = False \<and>
        (\<exists>mid. trace h' = trace hdmi0 @
           Mod (k0 MAINUNIT_1_INT_MASK_N) (k0 I2CM_NACK_RCVD_MASK_N OR k0 I2CM_OP_DONE_MASK_N)
             (k0 I2CM_NACK_RCVD_MASK_N OR k0 I2CM_OP_DONE_MASK_N) #
           mid @
           [Mod (k0 MAINUNIT_1_INT_MASK_N)
              (k0 I2CM_OP_DONE_MASK_N OR k0 I2CM_NACK_RCVD_MASK_N) 0]))"
proof -
  have a: "(ucast (addr \<lparr>addr = 0x50, flags = 0, buf = [0x00]\<rparr>) :: u8) \<noteq> 0x37"
    by simp
  have b: "\<forall>m \<in> set (\<lparr>addr = 0x50, flags = 0, buf = [0x00]\<rparr> #
      [\<lparr>addr = 0x50, flags = 1, buf = [0x00, 0x00]\<rparr>]). len m \<noteq> 0"
    by (simp add: len_def)
  have c: "len \<lparr>addr = 0x50, flags = 0, buf = [0x00]\<rparr> \<noteq> 0"
    "len \<lparr>addr = 0x50, flags = 1, buf = [0x00, 0x00]\<rparr> \<noteq> 0"
    by (simp_all add: len_def)
  from xfer_exit_masked_unlocked [OF a b, where k = k0 and dev = silent and hdmi = hdmi0] a c show ?thesis
    by blast
qed



section \<open>Register address\<close>

lemma i2c_read_bytes_regaddr:
  "i2c_read_bytes k dev h bf p n = (r, h', bf') \<Longrightarrow> is_regaddr (i2c h') = is_regaddr (i2c h)"
proof (induction n arbitrary: h bf p)
  case 0
  then show ?case by simp
next
  case (Suc n)
  let ?h2 = "(reinit_completion h)\<lparr>i2c := (i2c (reinit_completion h))
      \<lparr>slave_reg := slave_reg (i2c (reinit_completion h)) + 1\<rparr>\<rparr>"
  let ?h4 = "dw_hdmi_qp_mod (dw_hdmi_qp_mod ?h2
      (push_bit 12 (ucast (slave_reg (i2c (reinit_completion h))))) (k I2CM_ADDR)
      (k I2CM_INTERFACE_CONTROL0)) (k I2CM_FM_READ) (k I2CM_WR_MASK) (k I2CM_INTERFACE_CONTROL0)"
  obtain ok h5 where w: "wait_for_completion_timeout k dev ?h4 = (ok, h5)"
    by (cases "wait_for_completion_timeout k dev ?h4")
  have f: "is_regaddr (i2c h5) = is_regaddr (i2c h)"
    using wait_i2c_flags(1) [OF w] by (simp add: reinit_completion_def)
  show ?case
  proof (cases "ok \<and> \<not> ucast (stat (i2c h5)) AND k I2CM_NACK_RCVD_IRQ \<noteq> 0")
    case False
    with Suc.prems w have "h' = dw_hdmi_qp_write h5 0x01 (k I2CM_CONTROL0)"
      by (auto simp: Let_def split: if_splits)
    with f show ?thesis by simp
  next
    case True
    let ?h7 = "dw_hdmi_qp_mod (snd (dw_hdmi_qp_read h5 (k I2CM_INTERFACE_RDDATA_0_3))) 0
          (k I2CM_WR_MASK) (k I2CM_INTERFACE_CONTROL0)"
    from Suc.prems w True
    have "i2c_read_bytes k dev ?h7
          (bf[p := ucast (fst (dw_hdmi_qp_read h5 (k I2CM_INTERFACE_RDDATA_0_3)) AND 0xff)])
          (Suc p) n = (r, h', bf')"
      by (simp add: Let_def split_beta)
    from Suc.IH [OF this] f show ?thesis by simp
  qed
qed

lemma i2c_write_bytes_regaddr:
  "i2c_write_bytes k dev h bs = (r, h') \<Longrightarrow> is_regaddr (i2c h') = is_regaddr (i2c h)"
proof (induction bs arbitrary: h)
  case Nil
  then show ?case by simp
next
  case (Cons b bs)
  let ?h2 = "dw_hdmi_qp_write (reinit_completion h) (ucast b) (k I2CM_INTERFACE_WRDATA_0_3)"
  let ?h3 = "?h2\<lparr>i2c := (i2c ?h2)\<lparr>slave_reg := slave_reg (i2c ?h2) + 1\<rparr>\<rparr>"
  let ?h5 = "dw_hdmi_qp_mod (dw_hdmi_qp_mod ?h3
      (push_bit 12 (ucast (slave_reg (i2c ?h2)))) (k I2CM_ADDR)
      (k I2CM_INTERFACE_CONTROL0)) (k I2CM_FM_WRITE) (k I2CM_WR_MASK) (k I2CM_INTERFACE_CONTROL0)"
  obtain ok h6 where w: "wait_for_completion_timeout k dev ?h5 = (ok, h6)"
    by (cases "wait_for_completion_timeout k dev ?h5")
  have f: "is_regaddr (i2c h6) = is_regaddr (i2c h)"
    using wait_i2c_flags(1) [OF w] by (simp add: reinit_completion_def)
  show ?case
  proof (cases "ok \<and> \<not> ucast (stat (i2c h6)) AND k I2CM_NACK_RCVD_IRQ \<noteq> 0")
    case False
    with Cons.prems w have "h' = dw_hdmi_qp_write h6 0x01 (k I2CM_CONTROL0)"
      by (auto simp: Let_def split: if_splits)
    with f show ?thesis by simp
  next
    case True
    let ?h7 = "dw_hdmi_qp_mod h6 0 (k I2CM_WR_MASK) (k I2CM_INTERFACE_CONTROL0)"
    from Cons.prems w True have "i2c_write_bytes k dev ?h7 bs = (r, h')"
      by (simp add: Let_def)
    from Cons.IH [OF this] f show ?thesis by simp
  qed
qed

lemma i2c_read_set:
  assumes "is_regaddr (i2c h)"
  shows "dw_hdmi_qp_i2c_read k dev h bf n =
     (case i2c_read_bytes k dev h bf 0 n of
        (None, h2, bf') \<Rightarrow> (None, h2\<lparr>i2c := (i2c h2)\<lparr>is_segment := False\<rparr>\<rparr>, bf')
      | (Some e, h2, bf') \<Rightarrow> (Some e, h2, bf'))"
  using assms by (simp add: dw_hdmi_qp_i2c_read_def)

lemma i2c_read_pending:
  assumes "\<not> is_regaddr (i2c h)"
  shows "dw_hdmi_qp_i2c_read k dev h bf n =
     (case i2c_read_bytes k dev (h\<lparr>i2c := (i2c h)\<lparr>slave_reg := 0, is_regaddr := True\<rparr>\<rparr>) bf 0 n of
        (None, h2, bf') \<Rightarrow> (None, h2\<lparr>i2c := (i2c h2)\<lparr>is_segment := False\<rparr>\<rparr>, bf')
      | (Some e, h2, bf') \<Rightarrow> (Some e, h2, bf'))"
  using assms by (simp add: dw_hdmi_qp_i2c_read_def)

lemma read_byte_at_i2c:
  assumes "read_byte_at k dev h a = (r, h', v)"
  shows "slave_reg (i2c h') = slave_reg (i2c h)" "is_regaddr (i2c h') = is_regaddr (i2c h)"
proof -
  let ?h3 = "dw_hdmi_qp_mod (dw_hdmi_qp_mod (reinit_completion h) (push_bit 12 (ucast a))
      (k I2CM_ADDR) (k I2CM_INTERFACE_CONTROL0)) (k I2CM_FM_READ) (k I2CM_WR_MASK)
      (k I2CM_INTERFACE_CONTROL0)"
  obtain ok h4 where w: "wait_for_completion_timeout k dev ?h3 = (ok, h4)"
    by (cases "wait_for_completion_timeout k dev ?h3")
  have f: "slave_reg (i2c h4) = slave_reg (i2c h)" "is_regaddr (i2c h4) = is_regaddr (i2c h)"
    using wait_i2c_flags(1,2) [OF w] by (simp_all add: reinit_completion_def)
  from assms w have "i2c h' = i2c h4"
    by (auto simp: read_byte_at_def Let_def split_beta split: if_splits)
  with f show "slave_reg (i2c h') = slave_reg (i2c h)" "is_regaddr (i2c h') = is_regaddr (i2c h)"
    by simp_all
qed

lemma write_byte_at_i2c:
  assumes "write_byte_at k dev h a b = (r, h')"
  shows "slave_reg (i2c h') = slave_reg (i2c h)" "is_regaddr (i2c h') = is_regaddr (i2c h)"
proof -
  let ?h4 = "dw_hdmi_qp_mod (dw_hdmi_qp_mod
      (dw_hdmi_qp_write (reinit_completion h) (ucast b) (k I2CM_INTERFACE_WRDATA_0_3))
      (push_bit 12 (ucast a)) (k I2CM_ADDR) (k I2CM_INTERFACE_CONTROL0))
      (k I2CM_FM_WRITE) (k I2CM_WR_MASK) (k I2CM_INTERFACE_CONTROL0)"
  obtain ok h5 where w: "wait_for_completion_timeout k dev ?h4 = (ok, h5)"
    by (cases "wait_for_completion_timeout k dev ?h4")
  have f: "slave_reg (i2c h5) = slave_reg (i2c h)" "is_regaddr (i2c h5) = is_regaddr (i2c h)"
    using wait_i2c_flags(1,2) [OF w] by (simp_all add: reinit_completion_def)
  from assms w have "i2c h' = i2c h5"
    by (auto simp: write_byte_at_def Let_def split: if_splits)
  with f show "slave_reg (i2c h') = slave_reg (i2c h)" "is_regaddr (i2c h') = is_regaddr (i2c h)"
    by simp_all
qed

lemma reinit_slave_reg:
  "(reinit_completion h)\<lparr>i2c := (i2c (reinit_completion h))\<lparr>slave_reg := x\<rparr>\<rparr> =
   reinit_completion (h\<lparr>i2c := (i2c h)\<lparr>slave_reg := x\<rparr>\<rparr>)"
  "slave_reg (i2c (reinit_completion h)) = slave_reg (i2c h)"
  by (simp_all add: reinit_completion_def)

lemma write_slave_reg:
  "(dw_hdmi_qp_write h v off)\<lparr>i2c := x\<rparr> = dw_hdmi_qp_write (h\<lparr>i2c := x\<rparr>) v off"
  by (simp add: dw_hdmi_qp_write_def)

lemma i2c_read_bytes_step:
  "i2c_read_bytes k dev h bf p (Suc n) =
     (case read_byte_at k dev (h\<lparr>i2c := (i2c h)\<lparr>slave_reg := slave_reg (i2c h) + 1\<rparr>\<rparr>)
             (slave_reg (i2c h)) of
        (Some e, h', v) \<Rightarrow> (Some e, h', bf)
      | (None, h', v) \<Rightarrow> i2c_read_bytes k dev h' (bf[p := v]) (Suc p) n)"
proof -
  let ?g = "h\<lparr>i2c := (i2c h)\<lparr>slave_reg := slave_reg (i2c h) + 1\<rparr>\<rparr>"
  let ?h3 = "dw_hdmi_qp_mod (dw_hdmi_qp_mod (reinit_completion ?g)
      (push_bit 12 (ucast (slave_reg (i2c h))))
      (k I2CM_ADDR) (k I2CM_INTERFACE_CONTROL0)) (k I2CM_FM_READ) (k I2CM_WR_MASK)
      (k I2CM_INTERFACE_CONTROL0)"
  obtain ok h4 where w: "wait_for_completion_timeout k dev ?h3 = (ok, h4)"
    by (cases "wait_for_completion_timeout k dev ?h3")
  show ?thesis
    unfolding i2c_read_bytes.simps read_byte_at_def Let_def reinit_slave_reg w
    by (simp add: split_beta)
qed

lemma i2c_write_bytes_step:
  "i2c_write_bytes k dev h (b # bs) =
     (case write_byte_at k dev (h\<lparr>i2c := (i2c h)\<lparr>slave_reg := slave_reg (i2c h) + 1\<rparr>\<rparr>)
             (slave_reg (i2c h)) b of
        (Some e, h') \<Rightarrow> (Some e, h')
      | (None, h') \<Rightarrow> i2c_write_bytes k dev h' bs)"
proof -
  let ?g = "h\<lparr>i2c := (i2c h)\<lparr>slave_reg := slave_reg (i2c h) + 1\<rparr>\<rparr>"
  let ?h4 = "dw_hdmi_qp_mod (dw_hdmi_qp_mod
      (dw_hdmi_qp_write (reinit_completion ?g) (ucast b) (k I2CM_INTERFACE_WRDATA_0_3))
      (push_bit 12 (ucast (slave_reg (i2c h)))) (k I2CM_ADDR) (k I2CM_INTERFACE_CONTROL0))
      (k I2CM_FM_WRITE) (k I2CM_WR_MASK) (k I2CM_INTERFACE_CONTROL0)"
  obtain ok h5 where w: "wait_for_completion_timeout k dev ?h4 = (ok, h5)"
    by (cases "wait_for_completion_timeout k dev ?h4")
  show ?thesis
    unfolding i2c_write_bytes.simps write_byte_at_def Let_def i2c_write write_slave_reg
      reinit_slave_reg w
    by simp
qed

lemma i2c_read_bytes_claimed:
  "i2c_read_bytes k dev h bf p n = claimed_read_from k dev h (slave_reg (i2c h)) bf p n"
proof (induction n arbitrary: h bf p)
  case 0
  show ?case by simp
next
  case (Suc n)
  let ?g = "h\<lparr>i2c := (i2c h)\<lparr>slave_reg := slave_reg (i2c h) + 1\<rparr>\<rparr>"
  obtain r h' v where b: "read_byte_at k dev ?g (slave_reg (i2c h)) = (r, h', v)"
    by (cases "read_byte_at k dev ?g (slave_reg (i2c h))")
  have s: "slave_reg (i2c h') = slave_reg (i2c h) + 1"
    using read_byte_at_i2c(1) [OF b] by simp
  show ?case
    unfolding i2c_read_bytes_step claimed_read_from.simps b
    using Suc.IH [of h' "bf[p := v]" "Suc p"] s
    by (simp split: option.splits)
qed

lemma i2c_write_bytes_claimed:
  "i2c_write_bytes k dev h bs = claimed_write_from k dev h (slave_reg (i2c h)) bs"
proof (induction bs arbitrary: h)
  case Nil
  show ?case by simp
next
  case (Cons b bs)
  let ?g = "h\<lparr>i2c := (i2c h)\<lparr>slave_reg := slave_reg (i2c h) + 1\<rparr>\<rparr>"
  obtain r h' where w: "write_byte_at k dev ?g (slave_reg (i2c h)) b = (r, h')"
    by (cases "write_byte_at k dev ?g (slave_reg (i2c h)) b")
  have s: "slave_reg (i2c h') = slave_reg (i2c h) + 1"
    using write_byte_at_i2c(1) [OF w] by simp
  show ?case
    unfolding i2c_write_bytes_step claimed_write_from.simps w
    using Cons.IH [of h'] s
    by (simp split: option.splits)
qed

lemma i2c_read_bytes_advance:
  "i2c_read_bytes k dev h bf p n = (None, h', bf') \<Longrightarrow>
   slave_reg (i2c h') = slave_reg (i2c h) + of_nat n"
proof (induction n arbitrary: h bf p)
  case 0
  then show ?case by simp
next
  case (Suc n)
  let ?g = "h\<lparr>i2c := (i2c h)\<lparr>slave_reg := slave_reg (i2c h) + 1\<rparr>\<rparr>"
  obtain r h1 v where b: "read_byte_at k dev ?g (slave_reg (i2c h)) = (r, h1, v)"
    by (cases "read_byte_at k dev ?g (slave_reg (i2c h))")
  have s: "slave_reg (i2c h1) = slave_reg (i2c h) + 1"
    using read_byte_at_i2c(1) [OF b] by simp
  from Suc.prems have r: "r = None"
    and l: "i2c_read_bytes k dev h1 (bf[p := v]) (Suc p) n = (None, h', bf')"
    unfolding i2c_read_bytes_step b by (simp_all split: option.splits)
  from Suc.IH [OF l] s show ?case by simp
qed

lemma i2c_write_bytes_advance:
  "i2c_write_bytes k dev h bs = (None, h') \<Longrightarrow>
   slave_reg (i2c h') = slave_reg (i2c h) + of_nat (length bs)"
proof (induction bs arbitrary: h)
  case Nil
  then show ?case by simp
next
  case (Cons b bs)
  let ?g = "h\<lparr>i2c := (i2c h)\<lparr>slave_reg := slave_reg (i2c h) + 1\<rparr>\<rparr>"
  obtain r h1 where w: "write_byte_at k dev ?g (slave_reg (i2c h)) b = (r, h1)"
    by (cases "write_byte_at k dev ?g (slave_reg (i2c h)) b")
  have s: "slave_reg (i2c h1) = slave_reg (i2c h) + 1"
    using write_byte_at_i2c(1) [OF w] by simp
  from Cons.prems have r: "r = None" and l: "i2c_write_bytes k dev h1 bs = (None, h')"
    unfolding i2c_write_bytes_step w by (simp_all split: option.splits)
  from Cons.IH [OF l] s show ?case by simp
qed

lemma claimed_later_seg:
  assumes "ucast (addr m) = DDC_SEGMENT_ADDR \<and> len m = 1"
  shows "claimed_later_msgs k dev h ptr (m # ms) =
     (case claimed_later_msgs k dev (program_segment k h m) ptr ms of
        (r, h', ms') \<Rightarrow> (r, h', m # ms'))"
  by (simp only: claimed_later_msgs.simps if_P [OF assms])

lemma claimed_later_rd:
  assumes "\<not> (ucast (addr m) = DDC_SEGMENT_ADDR \<and> len m = 1)"
    and "ucast (flags m) AND k I2C_M_RD \<noteq> 0"
  shows "claimed_later_msgs k dev h ptr (m # ms) =
     (case claimed_read_from k dev h ptr (buf m) 0 (len m) of
        (Some e, h', bf') \<Rightarrow> (Some e, h', m\<lparr>buf := bf'\<rparr> # ms)
      | (None, h', bf') \<Rightarrow>
          (case claimed_later_msgs k dev (h'\<lparr>i2c := (i2c h')\<lparr>is_segment := False\<rparr>\<rparr>)
                  (ptr + of_nat (len m)) ms of
             (r, h'', ms') \<Rightarrow> (r, h'', m\<lparr>buf := bf'\<rparr> # ms')))"
  by (simp only: claimed_later_msgs.simps if_not_P [OF assms(1)] if_P [OF assms(2)])

lemma claimed_later_wr:
  assumes "\<not> (ucast (addr m) = DDC_SEGMENT_ADDR \<and> len m = 1)"
    and "\<not> ucast (flags m) AND k I2C_M_RD \<noteq> 0"
  shows "claimed_later_msgs k dev h ptr (m # ms) =
     (case claimed_write_from k dev h ptr (buf m) of
        (Some e, h') \<Rightarrow> (Some e, h', m # ms)
      | (None, h') \<Rightarrow>
          (case claimed_later_msgs k dev h' (ptr + of_nat (len m)) ms of
             (r, h'', ms') \<Rightarrow> (r, h'', m # ms')))"
  by (simp only: claimed_later_msgs.simps if_not_P [OF assms(1)] if_not_P [OF assms(2)])

lemma claimed_first_seg:
  assumes "ucast (addr m) = DDC_SEGMENT_ADDR \<and> len m = 1"
  shows "claimed_first_msgs k dev h (m # ms) =
     (case claimed_first_msgs k dev (program_segment k h m) ms of
        (r, h', ms') \<Rightarrow> (r, h', m # ms'))"
  by (simp only: claimed_first_msgs.simps if_P [OF assms])

lemma claimed_first_rd:
  assumes "\<not> (ucast (addr m) = DDC_SEGMENT_ADDR \<and> len m = 1)"
    and "ucast (flags m) AND k I2C_M_RD \<noteq> 0"
  shows "claimed_first_msgs k dev h (m # ms) =
     (case claimed_read_from k dev (h\<lparr>i2c := (i2c h)\<lparr>slave_reg := 0, is_regaddr := True\<rparr>\<rparr>)
             0 (buf m) 0 (len m) of
        (Some e, h', bf') \<Rightarrow> (Some e, h', m\<lparr>buf := bf'\<rparr> # ms)
      | (None, h', bf') \<Rightarrow>
          (case claimed_later_msgs k dev (h'\<lparr>i2c := (i2c h')\<lparr>is_segment := False\<rparr>\<rparr>)
                  (of_nat (len m)) ms of
             (r, h'', ms') \<Rightarrow> (r, h'', m\<lparr>buf := bf'\<rparr> # ms')))"
  by (simp only: claimed_first_msgs.simps if_not_P [OF assms(1)] if_P [OF assms(2)])

lemma claimed_first_wr:
  assumes "\<not> (ucast (addr m) = DDC_SEGMENT_ADDR \<and> len m = 1)"
    and "\<not> ucast (flags m) AND k I2C_M_RD \<noteq> 0"
  shows "claimed_first_msgs k dev h (m # ms) =
     (case claimed_write_from k dev
             (h\<lparr>i2c := (i2c h)\<lparr>slave_reg := hd (buf m), is_regaddr := True\<rparr>\<rparr>)
             (hd (buf m)) (tl (buf m)) of
        (Some e, h') \<Rightarrow> (Some e, h', m # ms)
      | (None, h') \<Rightarrow>
          (case claimed_later_msgs k dev h' (hd (buf m) + of_nat (len m - 1)) ms of
             (r, h'', ms') \<Rightarrow> (r, h'', m # ms')))"
  by (simp only: claimed_first_msgs.simps if_not_P [OF assms(1)] if_not_P [OF assms(2)])

lemma xfer_msgs_later:
  "is_regaddr (i2c h) \<Longrightarrow>
   xfer_msgs k dev h msgs = claimed_later_msgs k dev h (slave_reg (i2c h)) msgs"
proof (induction msgs arbitrary: h)
  case Nil
  then show ?case by simp
next
  case (Cons m ms)
  show ?case
  proof (cases "ucast (addr m) = DDC_SEGMENT_ADDR \<and> len m = 1")
    case True
    have "is_regaddr (i2c (program_segment k h m))"
      and s: "slave_reg (i2c (program_segment k h m)) = slave_reg (i2c h)"
      using Cons.prems by (simp_all add: program_segment_def)
    from Cons.IH [OF this(1)] show ?thesis
      unfolding s by (simp only: xfer_msgs_seg [OF True] claimed_later_seg [OF True])
  next
    case False
    show ?thesis
    proof (cases "ucast (flags m) AND k I2C_M_RD \<noteq> 0")
      case rd: True
      obtain r1 h1 bf1 where l: "i2c_read_bytes k dev h (buf m) 0 (len m) = (r1, h1, bf1)"
        by (cases "i2c_read_bytes k dev h (buf m) 0 (len m)")
      let ?h2 = "h1\<lparr>i2c := (i2c h1)\<lparr>is_segment := False\<rparr>\<rparr>"
      have f: "is_regaddr (i2c ?h2)"
        using i2c_read_bytes_regaddr [OF l] Cons.prems by simp
      have s: "r1 = None \<Longrightarrow> slave_reg (i2c ?h2) = slave_reg (i2c h) + of_nat (len m)"
        using i2c_read_bytes_advance [of k dev h "buf m" 0 "len m" h1 bf1] l by simp
      from Cons.IH [OF f] l s show ?thesis
        unfolding xfer_msgs_rd [where k = k, OF False rd] claimed_later_rd [where k = k, OF False rd]
          i2c_read_set [OF Cons.prems] i2c_read_bytes_claimed [symmetric]
        by (simp split: option.splits)
    next
      case wr: False
      obtain r1 h1 where l: "i2c_write_bytes k dev h (buf m) = (r1, h1)"
        by (cases "i2c_write_bytes k dev h (buf m)")
      have f: "is_regaddr (i2c h1)"
        using i2c_write_bytes_regaddr [OF l] Cons.prems by simp
      have s: "r1 = None \<Longrightarrow> slave_reg (i2c h1) = slave_reg (i2c h) + of_nat (len m)"
        using i2c_write_bytes_advance [of k dev h "buf m" h1] l by (simp add: len_def)
      from Cons.IH [OF f] l s Cons.prems show ?thesis
        unfolding xfer_msgs_wr [where k = k, OF False wr] claimed_later_wr [where k = k, OF False wr]
          i2c_write_bytes_claimed [symmetric]
        by (simp add: dw_hdmi_qp_i2c_write_def split: option.splits)
    qed
  qed
qed

section \<open>The acknowledging sink\<close>


lemma field_get_set: "((x AND NOT M) OR (p AND M)) AND M = p AND (M :: u32)"
  by (rule bit_word_eqI) (auto simp add: bit_simps)

lemma field_other:
  assumes "W AND A = (0 :: u32)"
  shows "((y AND NOT W) OR (c AND W)) AND A = y AND A"
proof (rule bit_word_eqI)
  fix n assume "n < LENGTH(32)"
  from assms have "\<not> (bit W n \<and> bit A n)"
    by (metis bit_and_iff bit_0_eq bot_apply bot_bool_def)
  then show "bit (((y AND NOT W) OR (c AND W)) AND A) n = bit (y AND A) n"
    using \<open>n < LENGTH(32)\<close> by (auto simp add: bit_simps)
qed

lemma m_addr: "(0xff000 :: u32) = push_bit 12 (mask 8)"
  by (simp add: mask_eq_exp_minus_1)

lemma addr_back: "(ucast (drop_bit 12 (push_bit 12 (ucast (a :: u8)) AND (0xff000 :: u32))) :: u8) = a"
  unfolding m_addr
  by (rule bit_word_eqI) (auto simp add: bit_simps)

lemma addr_field:
  "(ucast (drop_bit 12 ((((((x :: u32) AND NOT 0xff000) OR
        (push_bit 12 (ucast (a :: u8)) AND 0xff000)) AND NOT 0x1e) OR (4 AND 0x1e)) AND 0xff000))
     :: u8) = a"
proof -
  have d: "(0x1e :: u32) AND 0xff000 = 0" by simp
  show ?thesis
    by (simp only: field_other [OF d] field_get_set addr_back)
qed

lemma cmd_field: "((((y :: u32) AND NOT 0x1e) OR (4 AND 0x1e)) AND 0x1e) = 4"
  by (simp only: field_get_set) simp

lemma byte_back: "(ucast ((ucast (b :: u8) :: u32) AND 0xff) :: u8) = b"
proof -
  have "(ucast ((ucast b :: u32) AND mask 8) :: u8) = b"
    by (rule bit_word_eqI) (auto simp add: bit_simps)
  then show ?thesis by (simp add: mask_eq_exp_minus_1)
qed


lemma header_ok_D:
  assumes "header_ok k"
  shows "k I2CM_ADDR = 0xff000" "k I2CM_WR_MASK = 0x1e" "k I2CM_FM_READ = 0x4"
    "k I2CM_OP_DONE_IRQ = 0x1" "k I2CM_READ_REQUEST_IRQ = 0x2" "k I2CM_NACK_RCVD_IRQ = 0x4"
    "k I2C_M_RD = 0x1"
    "k I2CM_INTERFACE_CONTROL0 \<noteq> k I2CM_INTERFACE_RDDATA_0_3"
    "k I2CM_INTERFACE_CONTROL0 \<noteq> k MAINUNIT_1_INT_STATUS"
    "k I2CM_INTERFACE_RDDATA_0_3 \<noteq> k MAINUNIT_1_INT_STATUS"
    "k I2CM_INTERFACE_RDDATA_0_3 \<noteq> k MAINUNIT_1_INT_CLEAR"
    "k MAINUNIT_1_INT_STATUS \<noteq> k I2CM_INTERFACE_RDDATA_0_3"
    "k MAINUNIT_1_INT_CLEAR \<noteq> k I2CM_INTERFACE_RDDATA_0_3"
  using assms by (auto simp: header_ok_def)

lemma regm_mod_mod:
  "regm (dw_hdmi_qp_mod (dw_hdmi_qp_mod h d1 A C) d2 W C) C =
     (((regm h C AND NOT A) OR (d1 AND A)) AND NOT W) OR (d2 AND W)"
  by (simp add: dw_hdmi_qp_mod_def)

lemma ack_wait_general:
  assumes ok: "header_ok k"
    and cmd: "regm h4 (k I2CM_INTERFACE_CONTROL0) AND k I2CM_WR_MASK = k I2CM_FM_READ"
    and adr: "(ucast (drop_bit 12 (regm h4 (k I2CM_INTERFACE_CONTROL0) AND k I2CM_ADDR)) :: u8) = sr"
  shows "\<exists>h5. wait_for_completion_timeout k (ack_sink k mem) h4 = (True, h5) \<and>
         ucast (stat (i2c h5)) AND k I2CM_NACK_RCVD_IRQ = 0 \<and>
         regm h5 (k I2CM_INTERFACE_RDDATA_0_3) = ucast (mem sr) \<and>
         slave_reg (i2c h5) = slave_reg (i2c h4) \<and>
         is_regaddr (i2c h5) = is_regaddr (i2c h4)"
  using cmd adr
  by (simp add: wait_for_completion_timeout_def ack_sink_def dw_hdmi_qp_main_hardirq_def
      dw_hdmi_qp_read_def dw_hdmi_qp_write_def Let_def
      header_ok_D(4-6,8-13) [OF ok])

lemma ack_wait_read:
  assumes ok: "header_ok k"
  shows "\<exists>h5. wait_for_completion_timeout k (ack_sink k mem)
           (dw_hdmi_qp_mod (dw_hdmi_qp_mod h2 (push_bit 12 (ucast sr)) (k I2CM_ADDR)
              (k I2CM_INTERFACE_CONTROL0)) (k I2CM_FM_READ) (k I2CM_WR_MASK)
              (k I2CM_INTERFACE_CONTROL0)) = (True, h5) \<and>
         ucast (stat (i2c h5)) AND k I2CM_NACK_RCVD_IRQ = 0 \<and>
         regm h5 (k I2CM_INTERFACE_RDDATA_0_3) = ucast (mem sr) \<and>
         slave_reg (i2c h5) = slave_reg (i2c h2) \<and>
         is_regaddr (i2c h5) = is_regaddr (i2c h2)"
proof -
  let ?h4 = "dw_hdmi_qp_mod (dw_hdmi_qp_mod h2 (push_bit 12 (ucast sr)) (k I2CM_ADDR)
              (k I2CM_INTERFACE_CONTROL0)) (k I2CM_FM_READ) (k I2CM_WR_MASK)
              (k I2CM_INTERFACE_CONTROL0)"
  have cmd: "regm ?h4 (k I2CM_INTERFACE_CONTROL0) AND k I2CM_WR_MASK = k I2CM_FM_READ"
    by (simp only: regm_mod_mod header_ok_D(1-3) [OF ok] cmd_field)
  have adr: "(ucast (drop_bit 12 (regm ?h4 (k I2CM_INTERFACE_CONTROL0) AND k I2CM_ADDR)) :: u8) = sr"
    by (simp only: regm_mod_mod header_ok_D(1-3) [OF ok] addr_field)
  from ack_wait_general [OF ok cmd adr, of mem] show ?thesis
    by simp
qed

lemma ack_read_bytes:
  assumes ok: "header_ok k"
  shows "p + n = length bf \<Longrightarrow>
     fst (i2c_read_bytes k (ack_sink k mem) h bf p n) = None \<and>
     snd (snd (i2c_read_bytes k (ack_sink k mem) h bf p n)) =
       take p bf @ map (\<lambda>i. mem (slave_reg (i2c h) + of_nat i)) [0..<n]"
proof (induction n arbitrary: h bf p)
  case 0
  then show ?case by simp
next
  case (Suc n)
  let ?sr = "slave_reg (i2c h)"
  let ?h2 = "(reinit_completion h)\<lparr>i2c := (i2c (reinit_completion h))
      \<lparr>slave_reg := slave_reg (i2c (reinit_completion h)) + 1\<rparr>\<rparr>"
  let ?h4 = "dw_hdmi_qp_mod (dw_hdmi_qp_mod ?h2
      (push_bit 12 (ucast (slave_reg (i2c (reinit_completion h))))) (k I2CM_ADDR)
      (k I2CM_INTERFACE_CONTROL0)) (k I2CM_FM_READ) (k I2CM_WR_MASK) (k I2CM_INTERFACE_CONTROL0)"
  have sr: "slave_reg (i2c (reinit_completion h)) = ?sr"
    by (simp add: reinit_completion_def)
  from ack_wait_read [OF ok, of mem ?h2 "slave_reg (i2c (reinit_completion h))"]
  obtain h5 where w: "wait_for_completion_timeout k (ack_sink k mem) ?h4 = (True, h5)"
    and nk: "ucast (stat (i2c h5)) AND k I2CM_NACK_RCVD_IRQ = 0"
    and rd: "regm h5 (k I2CM_INTERFACE_RDDATA_0_3) = ucast (mem ?sr)"
    and s5: "slave_reg (i2c h5) = ?sr + 1"
    unfolding sr by auto
  let ?h7 = "dw_hdmi_qp_mod (snd (dw_hdmi_qp_read h5 (k I2CM_INTERFACE_RDDATA_0_3))) 0
          (k I2CM_WR_MASK) (k I2CM_INTERFACE_CONTROL0)"
  let ?bf1 = "bf[p := mem ?sr]"
  have step: "i2c_read_bytes k (ack_sink k mem) h bf p (Suc n) =
      i2c_read_bytes k (ack_sink k mem) ?h7 ?bf1 (Suc p) n"
    using w nk rd by (simp add: Let_def split_beta dw_hdmi_qp_read_def byte_back)
  have s7: "slave_reg (i2c ?h7) = ?sr + 1"
    using s5 by simp
  from Suc.prems have len: "Suc p + n = length ?bf1" "p < length bf" by simp_all
  have t: "take (Suc p) ?bf1 = take p bf @ [mem ?sr]"
    using len(2) by (simp add: take_Suc_conv_app_nth)
  have m: "map (\<lambda>i. mem (?sr + of_nat i)) [0..<Suc n] =
      mem ?sr # map (\<lambda>i. mem (?sr + 1 + of_nat i)) [0..<n]"
    by (simp add: upt_rec [of 0 "Suc n"] map_Suc_upt [symmetric] add.assoc del: upt_Suc)
  from Suc.IH [OF len(1), of ?h7] show ?case
    unfolding step s7 t m by simp
qed


lemma ack_read_msg:
  assumes ok: "header_ok k"
  shows "fst (dw_hdmi_qp_i2c_read k (ack_sink k mem) h bf (length bf)) = None \<and>
     snd (snd (dw_hdmi_qp_i2c_read k (ack_sink k mem) h bf (length bf))) =
       map (\<lambda>i. mem ((if is_regaddr (i2c h) then slave_reg (i2c h) else 0) + of_nat i))
         [0..<length bf]"
proof -
  let ?h1 = "if \<not> is_regaddr (i2c h)
             then h\<lparr>i2c := (i2c h)\<lparr>slave_reg := 0x00, is_regaddr := True\<rparr>\<rparr> else h"
  have s: "slave_reg (i2c ?h1) = (if is_regaddr (i2c h) then slave_reg (i2c h) else 0)"
    by simp
  from ack_read_bytes [OF ok, of 0 "length bf" bf mem ?h1]
  have "fst (i2c_read_bytes k (ack_sink k mem) ?h1 bf 0 (length bf)) = None"
    and "snd (snd (i2c_read_bytes k (ack_sink k mem) ?h1 bf 0 (length bf))) =
       map (\<lambda>i. mem ((if is_regaddr (i2c h) then slave_reg (i2c h) else 0) + of_nat i))
         [0..<length bf]"
    unfolding s by simp_all
  then show ?thesis
    unfolding dw_hdmi_qp_i2c_read_def Let_def
    by (cases "i2c_read_bytes k (ack_sink k mem) ?h1 bf 0 (length bf)") auto
qed

lemma upt_8: "[0..<8] = [0, 1, 2, 3, 4, 5, 6, 7]"
  by code_simp

lemma ack_scenario_msgs:
  assumes ok: "header_ok k" and len8: "length bf = 8" and pend: "\<not> is_regaddr (i2c h)"
  shows "fst (xfer_msgs k (ack_sink k (\<lambda>r. c + r)) h
           (\<lparr>addr = a, flags = 0, buf = [0x00]\<rparr> # [\<lparr>addr = a, flags = 1, buf = bf\<rparr>])) = None \<and>
         map buf (snd (snd (xfer_msgs k (ack_sink k (\<lambda>r. c + r)) h
           (\<lparr>addr = a, flags = 0, buf = [0x00]\<rparr> # [\<lparr>addr = a, flags = 1, buf = bf\<rparr>])))) =
           [[0x00], [c, c + 1, c + 2, c + 3, c + 4, c + 5, c + 6, c + 7]]"
proof -
  let ?dev = "ack_sink k (\<lambda>r. c + r)"
  let ?m1 = "\<lparr>addr = a, flags = 0, buf = [0x00 :: u8]\<rparr>"
  let ?m2 = "\<lparr>addr = a, flags = 1, buf = bf\<rparr>"
  have n2: "\<not> (ucast (addr ?m2) = DDC_SEGMENT_ADDR \<and> len ?m2 = 1)"
    using len8 by (simp add: len_def)
  have rd2: "ucast (flags ?m2) AND k I2C_M_RD \<noteq> 0"
    by (simp add: header_ok_D(7) [OF ok])
  have wr1: "\<not> ucast (flags ?m1) AND k I2C_M_RD \<noteq> 0"
    by simp
  have rd: "\<And>h0. slave_reg (i2c h0) = 0 \<or> \<not> is_regaddr (i2c h0) \<Longrightarrow>
      fst (xfer_msgs k ?dev h0 [?m2]) = None \<and>
      map buf (snd (snd (xfer_msgs k ?dev h0 [?m2]))) =
        [[c, c + 1, c + 2, c + 3, c + 4, c + 5, c + 6, c + 7]]"
  proof -
    fix h0 :: "unit dw_hdmi"
    assume z: "slave_reg (i2c h0) = 0 \<or> \<not> is_regaddr (i2c h0)"
    then have st: "(if is_regaddr (i2c h0) then slave_reg (i2c h0) else 0) = 0"
      by auto
    from ack_read_msg [OF ok, of "\<lambda>r. c + r" h0 bf]
    have r: "fst (dw_hdmi_qp_i2c_read k ?dev h0 bf (length bf)) = None"
      "snd (snd (dw_hdmi_qp_i2c_read k ?dev h0 bf (length bf))) =
        [c, c + 1, c + 2, c + 3, c + 4, c + 5, c + 6, c + 7]"
      unfolding st len8 by (simp_all add: upt_8)
    show "fst (xfer_msgs k ?dev h0 [?m2]) = None \<and>
      map buf (snd (snd (xfer_msgs k ?dev h0 [?m2]))) =
        [[c, c + 1, c + 2, c + 3, c + 4, c + 5, c + 6, c + 7]]"
      unfolding xfer_msgs_rd [where k = k, OF n2 rd2]
      using r by (cases "dw_hdmi_qp_i2c_read k ?dev h0 bf (length bf)") (auto simp: len_def)
  qed
  show ?thesis
  proof (cases "ucast (addr ?m1) = DDC_SEGMENT_ADDR \<and> len ?m1 = 1")
    case True
    have "\<not> is_regaddr (i2c (program_segment k h ?m1))"
      using pend by (simp add: program_segment_def)
    from rd [of "program_segment k h ?m1"] this show ?thesis
      unfolding xfer_msgs_seg [OF True]
      by (cases "xfer_msgs k ?dev (program_segment k h ?m1) [?m2]") auto
  next
    case False
    let ?h1 = "h\<lparr>i2c := (i2c h)\<lparr>slave_reg := 0, is_regaddr := True\<rparr>\<rparr>"
    have w: "dw_hdmi_qp_i2c_write k ?dev h (buf ?m1) = (None, ?h1)"
      using pend by (simp add: dw_hdmi_qp_i2c_write_def)
    from rd [of ?h1] show ?thesis
      unfolding xfer_msgs_wr [where k = k, OF False wr1] w
      by (cases "xfer_msgs k ?dev ?h1 [?m2]") auto
  qed
qed

text \<open>
  Claim C1, as amended.  With a header table as the simulated sink needs it, the
  two-message transfer of the scenario (write of the byte 0x00, then read of 8 bytes),
  addressed to any address whose low eight bits are not 0x37 (0x50, say), against the
  sink that always acknowledges and holds \<open>c + r\<close> in its register \<open>r\<close>, returns 2 and
  leaves in the read buffer the 8 bytes \<open>c, c + 1, \<dots>, c + 7\<close>, from whatever state the
  controller starts.
\<close>

theorem xfer_write_then_read:
  assumes ok: "header_ok k" and a: "(ucast a :: u8) \<noteq> 0x37" and len8: "length bf = 8"
  shows "case dw_hdmi_qp_i2c_xfer k (ack_sink k (\<lambda>r. c + r)) hdmi
                (\<lparr>addr = a, flags = 0, buf = [0x00]\<rparr> # [\<lparr>addr = a, flags = 1, buf = bf\<rparr>]) of
           (r, h', msgs') \<Rightarrow>
             r = Inr 2 \<and>
             map buf msgs' = [[0x00], [c, c + 1, c + 2, c + 3, c + 4, c + 5, c + 6, c + 7]]"
proof -
  let ?dev = "ack_sink k (\<lambda>r. c + r)"
  let ?m1 = "\<lparr>addr = a, flags = 0, buf = [0x00 :: u8]\<rparr>"
  let ?m2 = "\<lparr>addr = a, flags = 1, buf = bf\<rparr>"
  let ?h4 = "(dw_hdmi_qp_mod
             (dw_hdmi_qp_mod (hdmi\<lparr>i2c := (i2c hdmi)\<lparr>lock := True\<rparr>\<rparr>)
                (k I2CM_NACK_RCVD_MASK_N OR k I2CM_OP_DONE_MASK_N)
                (k I2CM_NACK_RCVD_MASK_N OR k I2CM_OP_DONE_MASK_N) (k MAINUNIT_1_INT_MASK_N))
             (push_bit 5 (ucast (if ucast (ucast (addr ?m1) :: u8) = DDC_SEGMENT_ADDR \<and> len ?m1 = 1
                                 then ucast (k DDC_ADDR) else (ucast (addr ?m1) :: u8))))
             (k I2CM_SLVADDR) (k I2CM_INTERFACE_CONTROL0))
           \<lparr>i2c := (i2c hdmi)\<lparr>lock := True, is_regaddr := False, is_segment := False\<rparr>\<rparr>"
  have a1: "(ucast (addr ?m1) :: u8) \<noteq> 0x37" using a by simp
  have ne: "\<forall>m \<in> set (?m1 # [?m2]). len m \<noteq> 0"
    using len8 by (auto simp add: len_def)
  have pend: "\<not> is_regaddr (i2c ?h4)" by simp
  obtain r h5 msgs' where l: "xfer_msgs k ?dev ?h4 (?m1 # [?m2]) = (r, h5, msgs')"
    by (cases "xfer_msgs k ?dev ?h4 (?m1 # [?m2])")
  from ack_scenario_msgs [OF ok len8 pend, of c a] l
  have r: "r = None"
    and b: "map buf msgs' = [[0x00], [c, c + 1, c + 2, c + 3, c + 4, c + 5, c + 6, c + 7]]"
    by simp_all
  show ?thesis
    unfolding xfer_unfold [OF a1 ne l] using r b by simp
qed

lemma header_ok_k0: "header_ok k0"
  by (simp add: header_ok_def)

theorem xfer_write_then_read_witness:
  "header_ok k0 \<and> (ucast (0x50 :: u16) :: u8) \<noteq> 0x37 \<and>
   length [0, 0, 0, 0, 0, 0, 0, 0 :: u8] = 8 \<and>
   (case dw_hdmi_qp_i2c_xfer k0 (ack_sink k0 (\<lambda>r. 0x10 + r)) hdmi0
           (\<lparr>addr = 0x50, flags = 0, buf = [0x00]\<rparr> #
            [\<lparr>addr = 0x50, flags = 1, buf = [0, 0, 0, 0, 0, 0, 0, 0]\<rparr>]) of
      (r, h', msgs') \<Rightarrow>
        r = Inr 2 \<and>
        map buf msgs' =
          [[0x00], [0x10, 0x10 + 1, 0x10 + 2, 0x10 + 3, 0x10 + 4, 0x10 + 5, 0x10 + 6, 0x10 + 7]])"
proof -
  have a: "(ucast (0x50 :: u16) :: u8) \<noteq> 0x37" by simp
  have l: "length [0, 0, 0, 0, 0, 0, 0, 0 :: u8] = 8" by simp
  note t = xfer_write_then_read [OF header_ok_k0 a l, of "0x10" hdmi0]
  show ?thesis
    by (intro conjI) (rule header_ok_k0, rule a, rule l, rule t)
qed

section \<open>The register address within a transfer\<close>

lemma ack_wait_any:
  assumes ok: "header_ok k"
  shows "\<exists>h5. wait_for_completion_timeout k (ack_sink k mem) h4 = (True, h5) \<and>
         ucast (stat (i2c h5)) AND k I2CM_NACK_RCVD_IRQ = 0"
  by (simp add: wait_for_completion_timeout_def ack_sink_def dw_hdmi_qp_main_hardirq_def
      dw_hdmi_qp_read_def dw_hdmi_qp_write_def Let_def header_ok_D(4-6) [OF ok])

lemma ack_write_byte_at:
  assumes ok: "header_ok k"
  shows "fst (write_byte_at k (ack_sink k mem) h a b) = None"
proof -
  let ?h4 = "dw_hdmi_qp_mod (dw_hdmi_qp_mod
      (dw_hdmi_qp_write (reinit_completion h) (ucast b) (k I2CM_INTERFACE_WRDATA_0_3))
      (push_bit 12 (ucast a)) (k I2CM_ADDR) (k I2CM_INTERFACE_CONTROL0))
      (k I2CM_FM_WRITE) (k I2CM_WR_MASK) (k I2CM_INTERFACE_CONTROL0)"
  from ack_wait_any [OF ok, of mem ?h4] obtain h5 where
    w: "wait_for_completion_timeout k (ack_sink k mem) ?h4 = (True, h5)"
    and nk: "ucast (stat (i2c h5)) AND k I2CM_NACK_RCVD_IRQ = 0"
    by blast
  show ?thesis
    unfolding write_byte_at_def Let_def w using nk by simp
qed

lemma ack_write_bytes:
  assumes ok: "header_ok k"
  shows "fst (i2c_write_bytes k (ack_sink k mem) h bs) = None"
proof (induction bs arbitrary: h)
  case Nil
  show ?case by simp
next
  case (Cons b bs)
  let ?g = "h\<lparr>i2c := (i2c h)\<lparr>slave_reg := slave_reg (i2c h) + 1\<rparr>\<rparr>"
  obtain r h' where w: "write_byte_at k (ack_sink k mem) ?g (slave_reg (i2c h)) b = (r, h')"
    by (cases "write_byte_at k (ack_sink k mem) ?g (slave_reg (i2c h)) b")
  have "r = None"
    using ack_write_byte_at [OF ok, of mem ?g "slave_reg (i2c h)" b] w by simp
  then show ?case
    unfolding i2c_write_bytes_step w using Cons.IH [of h'] by simp
qed

lemma i2c_read_state:
  assumes "dw_hdmi_qp_i2c_read k dev h bf n = (None, h1, bf1)"
  shows "is_regaddr (i2c h1)"
    "slave_reg (i2c h1) = (if is_regaddr (i2c h) then slave_reg (i2c h) else 0) + of_nat n"
proof -
  let ?h0 = "if \<not> is_regaddr (i2c h)
             then h\<lparr>i2c := (i2c h)\<lparr>slave_reg := 0x00, is_regaddr := True\<rparr>\<rparr> else h"
  obtain r2 h2 bf2 where l: "i2c_read_bytes k dev ?h0 bf 0 n = (r2, h2, bf2)"
    by (cases "i2c_read_bytes k dev ?h0 bf 0 n")
  from assms l have r2: "r2 = None" and h1: "h1 = h2\<lparr>i2c := (i2c h2)\<lparr>is_segment := False\<rparr>\<rparr>"
    by (auto simp: dw_hdmi_qp_i2c_read_def Let_def split: option.splits)
  have "is_regaddr (i2c h2) = is_regaddr (i2c ?h0)"
    by (rule i2c_read_bytes_regaddr [OF l])
  then show "is_regaddr (i2c h1)" unfolding h1 by simp
  have "slave_reg (i2c h2) = slave_reg (i2c ?h0) + of_nat n"
    using i2c_read_bytes_advance [of k dev ?h0 bf 0 n h2 bf2] l r2 by simp
  then show "slave_reg (i2c h1) =
      (if is_regaddr (i2c h) then slave_reg (i2c h) else 0) + of_nat n"
    unfolding h1 by simp
qed

lemma i2c_write_state:
  assumes "dw_hdmi_qp_i2c_write k dev h bf = (None, h1)" and "bf \<noteq> []"
  shows "is_regaddr (i2c h1)"
    "slave_reg (i2c h1) = (if is_regaddr (i2c h) then slave_reg (i2c h) + of_nat (length bf)
                           else hd bf + of_nat (length bf - 1))"
proof -
  from assms(2) obtain b bs where bf: "bf = b # bs" by (cases bf) auto
  show "is_regaddr (i2c h1)"
  proof (cases "is_regaddr (i2c h)")
    case True
    with assms(1) have "i2c_write_bytes k dev h bf = (None, h1)"
      by (simp add: dw_hdmi_qp_i2c_write_def)
    from i2c_write_bytes_regaddr [OF this] True show ?thesis by simp
  next
    case False
    with assms(1) bf have "i2c_write_bytes k dev
        (h\<lparr>i2c := (i2c h)\<lparr>slave_reg := b, is_regaddr := True\<rparr>\<rparr>) bs = (None, h1)"
      by (simp add: dw_hdmi_qp_i2c_write_def)
    from i2c_write_bytes_regaddr [OF this] show ?thesis by simp
  qed
  show "slave_reg (i2c h1) = (if is_regaddr (i2c h) then slave_reg (i2c h) + of_nat (length bf)
                           else hd bf + of_nat (length bf - 1))"
  proof (cases "is_regaddr (i2c h)")
    case True
    with assms(1) have "i2c_write_bytes k dev h bf = (None, h1)"
      by (simp add: dw_hdmi_qp_i2c_write_def)
    from i2c_write_bytes_advance [OF this] True show ?thesis by simp
  next
    case False
    with assms(1) bf have "i2c_write_bytes k dev
        (h\<lparr>i2c := (i2c h)\<lparr>slave_reg := b, is_regaddr := True\<rparr>\<rparr>) bs = (None, h1)"
      by (simp add: dw_hdmi_qp_i2c_write_def)
    from i2c_write_bytes_advance [OF this] False bf show ?thesis by simp
  qed
qed

lemma ack_write_msg:
  assumes ok: "header_ok k" and ne: "bf \<noteq> []"
  shows "fst (dw_hdmi_qp_i2c_write k (ack_sink k mem) h bf) = None"
proof -
  from ne obtain b bs where bf: "bf = b # bs" by (cases bf) auto
  show ?thesis
    unfolding dw_hdmi_qp_i2c_write_def bf
    by (simp add: ack_write_bytes [OF ok] del: i2c_write_bytes.simps)
qed

lemma ack_bufs_seg:
  assumes "ucast (addr m) = DDC_SEGMENT_ADDR \<and> len m = 1"
  shows "ack_bufs k mem p (m # ms) = m # ack_bufs k mem p ms"
  by (simp only: ack_bufs.simps if_P [OF assms])

lemma ack_bufs_rd:
  assumes "\<not> (ucast (addr m) = DDC_SEGMENT_ADDR \<and> len m = 1)"
    and "ucast (flags m) AND k I2C_M_RD \<noteq> 0"
  shows "ack_bufs k mem p (m # ms) =
     m\<lparr>buf := map (\<lambda>i. mem ((case p of None \<Rightarrow> 0 | Some a \<Rightarrow> a) + of_nat i)) [0..<len m]\<rparr> #
     ack_bufs k mem (Some ((case p of None \<Rightarrow> 0 | Some a \<Rightarrow> a) + of_nat (len m))) ms"
  by (simp only: ack_bufs.simps if_not_P [OF assms(1)] if_P [OF assms(2)] Let_def)

lemma ack_bufs_wr:
  assumes "\<not> (ucast (addr m) = DDC_SEGMENT_ADDR \<and> len m = 1)"
    and "\<not> ucast (flags m) AND k I2C_M_RD \<noteq> 0"
  shows "ack_bufs k mem p (m # ms) =
     m # ack_bufs k mem
           (Some (case p of None \<Rightarrow> hd (buf m) + of_nat (len m - 1)
                          | Some a \<Rightarrow> a + of_nat (len m))) ms"
  by (simp only: ack_bufs.simps if_not_P [OF assms(1)] if_not_P [OF assms(2)])

lemma ack_xfer_msgs:
  assumes ok: "header_ok k"
  shows "\<forall>m \<in> set msgs. len m \<noteq> 0 \<Longrightarrow>
     (case p of None \<Rightarrow> \<not> is_regaddr (i2c h)
              | Some a \<Rightarrow> is_regaddr (i2c h) \<and> slave_reg (i2c h) = a) \<Longrightarrow>
     fst (xfer_msgs k (ack_sink k mem) h msgs) = None \<and>
     snd (snd (xfer_msgs k (ack_sink k mem) h msgs)) = ack_bufs k mem p msgs"
proof (induction msgs arbitrary: h p)
  case Nil
  show ?case by simp
next
  case (Cons m ms)
  let ?dev = "ack_sink k mem"
  from Cons.prems(1) have rest: "\<forall>m \<in> set ms. len m \<noteq> 0" and ne: "buf m \<noteq> []"
    by (auto simp: len_def)
  show ?case
  proof (cases "ucast (addr m) = DDC_SEGMENT_ADDR \<and> len m = 1")
    case True
    have inv: "case p of None \<Rightarrow> \<not> is_regaddr (i2c (program_segment k h m))
        | Some a \<Rightarrow> is_regaddr (i2c (program_segment k h m)) \<and>
                    slave_reg (i2c (program_segment k h m)) = a"
      using Cons.prems(2) by (simp add: program_segment_def split: option.splits)
    from Cons.IH [OF rest inv] show ?thesis
      unfolding xfer_msgs_seg [OF True] ack_bufs_seg [OF True]
      by (cases "xfer_msgs k ?dev (program_segment k h m) ms") simp
  next
    case False
    show ?thesis
    proof (cases "ucast (flags m) AND k I2C_M_RD \<noteq> 0")
      case rd: True
      let ?a = "case p of None \<Rightarrow> 0 | Some a \<Rightarrow> a"
      have st: "(if is_regaddr (i2c h) then slave_reg (i2c h) else 0) = ?a"
        using Cons.prems(2) by (simp split: option.splits)
      obtain r1 h1 bf1 where l: "dw_hdmi_qp_i2c_read k ?dev h (buf m) (len m) = (r1, h1, bf1)"
        by (cases "dw_hdmi_qp_i2c_read k ?dev h (buf m) (len m)")
      from ack_read_msg [OF ok, of mem h "buf m"] l
      have r1: "r1 = None" and b1: "bf1 = map (\<lambda>i. mem (?a + of_nat i)) [0..<len m]"
        unfolding st by (simp_all add: len_def)
      have inv: "case Some (?a + of_nat (len m)) of None \<Rightarrow> \<not> is_regaddr (i2c h1)
          | Some a \<Rightarrow> is_regaddr (i2c h1) \<and> slave_reg (i2c h1) = a"
        using i2c_read_state [OF l [unfolded r1]] st by simp
      from Cons.IH [OF rest inv] show ?thesis
        unfolding xfer_msgs_rd [where k = k, OF False rd] l r1
          ack_bufs_rd [where k = k, OF False rd]
        using b1
        by (cases "xfer_msgs k ?dev h1 ms") simp
    next
      case wr: False
      let ?q = "case p of None \<Rightarrow> hd (buf m) + of_nat (len m - 1)
                        | Some a \<Rightarrow> a + of_nat (len m)"
      obtain r1 h1 where l: "dw_hdmi_qp_i2c_write k ?dev h (buf m) = (r1, h1)"
        by (cases "dw_hdmi_qp_i2c_write k ?dev h (buf m)")
      from ack_write_msg [OF ok ne, of mem h] l have r1: "r1 = None" by simp
      have inv: "case Some ?q of None \<Rightarrow> \<not> is_regaddr (i2c h1)
          | Some a \<Rightarrow> is_regaddr (i2c h1) \<and> slave_reg (i2c h1) = a"
        using i2c_write_state [OF l [unfolded r1] ne] Cons.prems(2)
        by (simp add: len_def split: option.splits)
      from Cons.IH [OF rest inv] show ?thesis
        unfolding xfer_msgs_wr [where k = k, OF False wr] l r1
          ack_bufs_wr [where k = k, OF False wr]
        by (cases "xfer_msgs k ?dev h1 ms") simp
    qed
  qed
qed

text \<open>
  Claim C10, as amended.  Started with the register address pending, as the transfer
  function starts it (it clears \<open>is_regaddr\<close> before the loop), the message loop of the
  source is the two-phase loop of the claim, with the one-byte messages to the segment
  address 0x30 set apart: such a message programs the segment pointer and leaves the
  register address pending.  The first other message consumes the pending address, once:
  a write takes its first payload byte \<open>a\<close> as the address and sends the bytes after it to
  the registers \<open>a\<close>, \<open>a + 1\<close>, \<dots>; a read starts at register 0; either sets \<open>is_regaddr\<close>.
  Every later message is data only: all its bytes go to, or come from, the registers from
  the pointer on, one register per byte, and the next message continues after its last
  byte.
\<close>

theorem xfer_msgs_regaddr_once:
  assumes "\<not> is_regaddr (i2c h)" and "\<forall>m \<in> set msgs. len m \<noteq> 0"
  shows "xfer_msgs k dev h msgs = claimed_first_msgs k dev h msgs"
  using assms
proof (induction msgs arbitrary: h)
  case Nil
  then show ?case by simp
next
  case (Cons m ms)
  from Cons.prems(2) have rest: "\<forall>m \<in> set ms. len m \<noteq> 0" by simp
  from Cons.prems(2) obtain b bs where bf: "buf m = b # bs"
    by (cases "buf m") (auto simp: len_def)
  show ?case
  proof (cases "ucast (addr m) = DDC_SEGMENT_ADDR \<and> len m = 1")
    case True
    have "\<not> is_regaddr (i2c (program_segment k h m))"
      using Cons.prems(1) by (simp add: program_segment_def)
    from Cons.IH [OF this rest] show ?thesis
      by (simp only: xfer_msgs_seg [OF True] claimed_first_seg [OF True])
  next
    case False
    show ?thesis
    proof (cases "ucast (flags m) AND k I2C_M_RD \<noteq> 0")
      case rd: True
      let ?h1 = "h\<lparr>i2c := (i2c h)\<lparr>slave_reg := 0, is_regaddr := True\<rparr>\<rparr>"
      obtain r1 h1 bf1 where l: "i2c_read_bytes k dev ?h1 (buf m) 0 (len m) = (r1, h1, bf1)"
        by (cases "i2c_read_bytes k dev ?h1 (buf m) 0 (len m)")
      let ?h2 = "h1\<lparr>i2c := (i2c h1)\<lparr>is_segment := False\<rparr>\<rparr>"
      have f: "is_regaddr (i2c ?h2)"
        using i2c_read_bytes_regaddr [OF l] by simp
      have s: "r1 = None \<Longrightarrow> slave_reg (i2c ?h2) = of_nat (len m)"
        using i2c_read_bytes_advance [of k dev ?h1 "buf m" 0 "len m" h1 bf1] l by simp
      have c: "claimed_read_from k dev ?h1 0 (buf m) 0 (len m) = (r1, h1, bf1)"
        using i2c_read_bytes_claimed [of k dev ?h1 "buf m" 0 "len m"] l by simp
      from xfer_msgs_later [OF f, of k dev ms] s show ?thesis
        unfolding xfer_msgs_rd [where k = k, OF False rd] claimed_first_rd [where k = k, OF False rd]
          i2c_read_pending [OF Cons.prems(1)] l c
        by (simp split: option.splits)
    next
      case wr: False
      let ?h1 = "h\<lparr>i2c := (i2c h)\<lparr>slave_reg := b, is_regaddr := True\<rparr>\<rparr>"
      obtain r1 h1 where l: "i2c_write_bytes k dev ?h1 bs = (r1, h1)"
        by (cases "i2c_write_bytes k dev ?h1 bs")
      have f: "is_regaddr (i2c h1)"
        using i2c_write_bytes_regaddr [OF l] by simp
      have s: "r1 = None \<Longrightarrow> slave_reg (i2c h1) = b + of_nat (len m - 1)"
        using i2c_write_bytes_advance [of k dev ?h1 bs h1] l bf by (simp add: len_def)
      have c: "claimed_write_from k dev ?h1 b bs = (r1, h1)"
        using i2c_write_bytes_claimed [of k dev ?h1 bs] l by simp
      have w: "dw_hdmi_qp_i2c_write k dev h (b # bs) = (r1, h1)"
        using Cons.prems(1) l by (simp add: dw_hdmi_qp_i2c_write_def)
      from xfer_msgs_later [OF f, of k dev ms] s show ?thesis
        unfolding xfer_msgs_wr [where k = k, OF False wr] claimed_first_wr [where k = k, OF False wr]
          bf w list.sel c
        by (simp split: option.splits)
    qed
  qed
qed

theorem xfer_msgs_regaddr_once_witness:
  "\<not> is_regaddr (i2c hdmi0) \<and>
   len \<lparr>addr = 0x50, flags = 0, buf = [0x10, 0xAA]\<rparr> \<noteq> 0 \<and>
   len \<lparr>addr = 0x50, flags = 1, buf = [0x00, 0x00]\<rparr> \<noteq> 0 \<and>
   len \<lparr>addr = 0x50, flags = 0, buf = [0xBB]\<rparr> \<noteq> 0 \<and>
   len \<lparr>addr = 0x50, flags = 1, buf = [0x00]\<rparr> \<noteq> 0 \<and>
   xfer_msgs k0 (ack_sink k0 (\<lambda>r. r)) hdmi0
     [\<lparr>addr = 0x50, flags = 0, buf = [0x10, 0xAA]\<rparr>, \<lparr>addr = 0x50, flags = 1, buf = [0x00, 0x00]\<rparr>,
      \<lparr>addr = 0x50, flags = 0, buf = [0xBB]\<rparr>, \<lparr>addr = 0x50, flags = 1, buf = [0x00]\<rparr>] =
   claimed_first_msgs k0 (ack_sink k0 (\<lambda>r. r)) hdmi0
     [\<lparr>addr = 0x50, flags = 0, buf = [0x10, 0xAA]\<rparr>, \<lparr>addr = 0x50, flags = 1, buf = [0x00, 0x00]\<rparr>,
      \<lparr>addr = 0x50, flags = 0, buf = [0xBB]\<rparr>, \<lparr>addr = 0x50, flags = 1, buf = [0x00]\<rparr>] \<and>
   fst (claimed_first_msgs k0 (ack_sink k0 (\<lambda>r. r)) hdmi0
     [\<lparr>addr = 0x50, flags = 0, buf = [0x10, 0xAA]\<rparr>, \<lparr>addr = 0x50, flags = 1, buf = [0x00, 0x00]\<rparr>,
      \<lparr>addr = 0x50, flags = 0, buf = [0xBB]\<rparr>, \<lparr>addr = 0x50, flags = 1, buf = [0x00]\<rparr>]) = None \<and>
   map buf (snd (snd (claimed_first_msgs k0 (ack_sink k0 (\<lambda>r. r)) hdmi0
     [\<lparr>addr = 0x50, flags = 0, buf = [0x10, 0xAA]\<rparr>, \<lparr>addr = 0x50, flags = 1, buf = [0x00, 0x00]\<rparr>,
      \<lparr>addr = 0x50, flags = 0, buf = [0xBB]\<rparr>, \<lparr>addr = 0x50, flags = 1, buf = [0x00]\<rparr>]))) =
     [[0x10, 0xAA], [0x11, 0x12], [0xBB], [0x14]]"
proof -
  let ?msgs = "[\<lparr>addr = 0x50, flags = 0, buf = [0x10, 0xAA]\<rparr>,
      \<lparr>addr = 0x50, flags = 1, buf = [0x00, 0x00]\<rparr>,
      \<lparr>addr = 0x50, flags = 0, buf = [0xBB]\<rparr>, \<lparr>addr = 0x50, flags = 1, buf = [0x00 :: u8]\<rparr>]"
  have a: "\<not> is_regaddr (i2c hdmi0)" by (simp add: hdmi0_def)
  have b: "\<forall>m \<in> set ?msgs. len m \<noteq> 0"
    by (simp add: len_def)
  have c: "len \<lparr>addr = 0x50, flags = 0, buf = [0x10, 0xAA]\<rparr> \<noteq> 0"
    "len \<lparr>addr = 0x50, flags = 1, buf = [0x00, 0x00]\<rparr> \<noteq> 0"
    "len \<lparr>addr = 0x50, flags = 0, buf = [0xBB]\<rparr> \<noteq> 0"
    "len \<lparr>addr = 0x50, flags = 1, buf = [0x00]\<rparr> \<noteq> 0"
    by (simp_all add: len_def)
  note e = xfer_msgs_regaddr_once [OF a b, where k = k0 and dev = "ack_sink k0 (\<lambda>r. r)"]
  have p: "case None of None \<Rightarrow> \<not> is_regaddr (i2c hdmi0)
      | Some a \<Rightarrow> is_regaddr (i2c hdmi0) \<and> slave_reg (i2c hdmi0) = a"
    using a by simp
  have v: "map buf (ack_bufs k0 (\<lambda>r. r) None ?msgs) = [[0x10, 0xAA], [0x11, 0x12], [0xBB], [0x14]]"
    by code_simp
  from ack_xfer_msgs [OF header_ok_k0 b p, of "\<lambda>r. r"] v
  have d: "fst (xfer_msgs k0 (ack_sink k0 (\<lambda>r. r)) hdmi0 ?msgs) = None"
    "map buf (snd (snd (xfer_msgs k0 (ack_sink k0 (\<lambda>r. r)) hdmi0 ?msgs))) =
       [[0x10, 0xAA], [0x11, 0x12], [0xBB], [0x14]]"
    by simp_all
  show ?thesis
    by (intro conjI) (rule a, rule c(1), rule c(2), rule c(3), rule c(4), rule e,
        rule d(1) [unfolded e], rule d(2) [unfolded e])
qed

text \<open>
  Claim C10 as stated fails on a transfer that starts with a segment selector.  The first
  write message, one byte to the segment address 0x30, neither takes its payload byte as
  the register address nor sets \<open>is_regaddr\<close>; the write message after it is the one
  whose first payload byte, 5, becomes the register address: on a silent bus the driver
  puts only 0xAA into the write data register and programs the address 5, and against the
  acknowledging sink whose register \<open>r\<close> holds \<open>r\<close> the read that follows returns the
  registers 6 and 7.
\<close>

theorem xfer_msgs_segment_counterexample:
  "ucast (flags \<lparr>addr = 0x30, flags = 0, buf = [0x01]\<rparr>) AND k0 I2C_M_RD = 0 \<and>
   is_regaddr (i2c (fst (snd (xfer_msgs k0 silent hdmi0
     [\<lparr>addr = 0x30, flags = 0, buf = [0x01]\<rparr>])))) = False \<and>
   trace (fst (snd (xfer_msgs k0 silent hdmi0
     [\<lparr>addr = 0x30, flags = 0, buf = [0x01]\<rparr>,
      \<lparr>addr = 0x50, flags = 0, buf = [0x05, 0xAA]\<rparr>]))) =
     [Mod 0xf8 0x7f 0x30, Mod 0xf8 0x7f80 0x01, Wr 0xfc 0xAA, Mod 0xf4 0xff000 0x5000,
      Mod 0xf4 0x1e 0x2, TimedOut, Wr 0xec 0x01] \<and>
   map buf (snd (snd (xfer_msgs k0 (ack_sink k0 (\<lambda>r. r)) hdmi0
     [\<lparr>addr = 0x30, flags = 0, buf = [0x01]\<rparr>,
      \<lparr>addr = 0x50, flags = 0, buf = [0x05, 0xAA]\<rparr>,
      \<lparr>addr = 0x50, flags = 1, buf = [0x00, 0x00]\<rparr>]))) =
     [[0x01], [0x05, 0xAA], [0x06, 0x07]]"
proof -
  let ?msgs = "[\<lparr>addr = 0x30, flags = 0, buf = [0x01]\<rparr>,
      \<lparr>addr = 0x50, flags = 0, buf = [0x05, 0xAA]\<rparr>,
      \<lparr>addr = 0x50, flags = 1, buf = [0x00, 0x00 :: u8]\<rparr>]"
  have a: "ucast (flags \<lparr>addr = 0x30, flags = 0, buf = [0x01]\<rparr>) AND k0 I2C_M_RD = 0"
    by simp
  have b: "is_regaddr (i2c (fst (snd (xfer_msgs k0 silent hdmi0
     [\<lparr>addr = 0x30, flags = 0, buf = [0x01]\<rparr>])))) = False"
    by code_simp
  have c: "trace (fst (snd (xfer_msgs k0 silent hdmi0
     [\<lparr>addr = 0x30, flags = 0, buf = [0x01]\<rparr>,
      \<lparr>addr = 0x50, flags = 0, buf = [0x05, 0xAA]\<rparr>]))) =
     [Mod 0xf8 0x7f 0x30, Mod 0xf8 0x7f80 0x01, Wr 0xfc 0xAA, Mod 0xf4 0xff000 0x5000,
      Mod 0xf4 0x1e 0x2, TimedOut, Wr 0xec 0x01]"
    by code_simp
  have ne: "\<forall>m \<in> set ?msgs. len m \<noteq> 0"
    by (simp add: len_def)
  have p: "case None of None \<Rightarrow> \<not> is_regaddr (i2c hdmi0)
      | Some a \<Rightarrow> is_regaddr (i2c hdmi0) \<and> slave_reg (i2c hdmi0) = a"
    by (simp add: hdmi0_def)
  have v: "map buf (ack_bufs k0 (\<lambda>r. r) None ?msgs) = [[0x01], [0x05, 0xAA], [0x06, 0x07]]"
    by code_simp
  from ack_xfer_msgs [OF header_ok_k0 ne p, of "\<lambda>r. r"] v
  have d: "map buf (snd (snd (xfer_msgs k0 (ack_sink k0 (\<lambda>r. r)) hdmi0 ?msgs))) =
       [[0x01], [0x05, 0xAA], [0x06, 0x07]]"
    by simp
  show ?thesis
    by (intro conjI) (rule a, rule b, rule c, rule d)
qed

section \<open>The AVI infoframe\<close>

lemma avi_outer_trace: "\<exists>ev. trace (avi_outer k h bf i v) = trace h @ ev"
proof (induction k h bf i v rule: avi_outer.induct)
  case (1 k hdmi bf i val)
  show ?case
  proof (cases "i < 4")
    case True
    let ?v = "avi_inner bf i 0 val"
    let ?h = "dw_hdmi_qp_write hdmi ?v (k PKT_AVI_CONTENTS1 + of_nat i * 4)"
    from "1.IH" [OF True refl] obtain ev where "trace (avi_outer k ?h bf (i + 1) ?v) = trace ?h @ ev"
      by blast
    then have "trace (avi_outer k hdmi bf i val) =
        trace hdmi @ (Wr (k PKT_AVI_CONTENTS1 + of_nat i * 4) ?v # ev)"
      using True by (subst avi_outer.simps) (simp add: Let_def)
    then show ?thesis by blast
  next
    case False
    then show ?thesis by (subst avi_outer.simps) simp
  qed
qed

lemma hdmi_config_AVI_trace:
  "\<exists>ev. trace (hdmi_config_AVI k ext hdmi connector mode) =
     trace hdmi @
     Wr (k PKT_AVI_CONTENTS0)
       (push_bit 8 (ucast (version (fst (hdmi_config_AVI_buf ext hdmi connector mode)))) OR
        push_bit 16 (ucast (length_f (fst (hdmi_config_AVI_buf ext hdmi connector mode))))) # ev"
proof -
  obtain frame bf where b: "hdmi_config_AVI_buf ext hdmi connector mode = (frame, bf)"
    by (cases "hdmi_config_AVI_buf ext hdmi connector mode")
  let ?val = "push_bit 8 (ucast (version frame)) OR push_bit 16 (ucast (length_f frame)) :: u32"
  let ?h1 = "dw_hdmi_qp_write hdmi ?val (k PKT_AVI_CONTENTS0)"
  obtain ev where e: "trace (avi_outer k ?h1 bf 0 ?val) = trace ?h1 @ ev"
    using avi_outer_trace by blast
  have "trace (hdmi_config_AVI k ext hdmi connector mode) =
      trace hdmi @ Wr (k PKT_AVI_CONTENTS0) ?val #
        (ev @ [Mod (k PKTSCHED_PKT_CONFIG1) (k PKTSCHED_AVI_FIELDRATE) 0,
               Mod (k PKTSCHED_PKT_EN) (k PKTSCHED_AVI_TX_EN OR k PKTSCHED_GCP_TX_EN)
                 (k PKTSCHED_AVI_TX_EN OR k PKTSCHED_GCP_TX_EN)])"
    by (simp add: hdmi_config_AVI_def b Let_def e)
  then show ?thesis unfolding b by auto
qed

lemma avi_frame_fields:
  "version (fst (hdmi_config_AVI_buf ext hdmi connector mode)) =
     (if vic hdmi \<ge> 128 then 3 else version (prep_avi_infoframe ext hdmi connector mode))"
  "length_f (fst (hdmi_config_AVI_buf ext hdmi connector mode)) =
     length_f (prep_avi_infoframe ext hdmi connector mode)"
  by (simp_all add: hdmi_config_AVI_buf_def Let_def)

text \<open>
  Claim C2, as amended.  The first register write of \<^verbatim>\<open>hdmi_config_AVI\<close> goes to
  \<open>PKT_AVI_CONTENTS0\<close> and carries the frame version shifted left by 8, not in the low
  bits, together with the frame length shifted left by 16; the version is 3 for a VIC of
  128 or more, else the one of the prepared frame.
\<close>

theorem avi_first_word:
  "trace (hdmi_config_AVI k ext hdmi connector mode) ! length (trace hdmi) =
     Wr (k PKT_AVI_CONTENTS0)
       (push_bit 8 (if vic hdmi \<ge> 128 then 3
                    else ucast (version (prep_avi_infoframe ext hdmi connector mode))) OR
        push_bit 16 (ucast (length_f (prep_avi_infoframe ext hdmi connector mode))))"
proof -
  from hdmi_config_AVI_trace [of k ext hdmi connector mode] obtain ev where
    "trace (hdmi_config_AVI k ext hdmi connector mode) =
     trace hdmi @
     Wr (k PKT_AVI_CONTENTS0)
       (push_bit 8 (ucast (version (fst (hdmi_config_AVI_buf ext hdmi connector mode)))) OR
        push_bit 16 (ucast (length_f (fst (hdmi_config_AVI_buf ext hdmi connector mode))))) # ev"
    by blast
  then show ?thesis
    by (simp add: avi_frame_fields nth_append)
qed

text \<open>
  Claim C2 as stated fails: for a frame of version 2 and length 13 the word written
  to \<open>PKT_AVI_CONTENTS0\<close> is 0xD0200, while version | (length << 16) is 0xD0002.
\<close>

theorem avi_first_word_counterexample:
  "version frame0 = 2 \<and> length_f frame0 = 13 \<and>
   trace (hdmi_config_AVI k0 (ext0 0 16 148500000 False) hdmi0 conn0 \<lparr>mode_flags = 0\<rparr>) ! 0 =
     Wr (k0 PKT_AVI_CONTENTS0) 0xD0200 \<and>
   (ucast (2 :: u8) OR push_bit 16 (ucast (13 :: u8)) :: u32) = 0xD0002"
  by code_simp

lemma word_of_int_sum_uint: "(word_of_int (sum_list (map uint xs)) :: u8) = sum_list xs"
  by (induction xs) simp_all

lemma csum_as_int:
  "(- sum_list xs :: u8) = word_of_int (256 - sum_list (map uint xs))"
proof -
  have "(word_of_int (256 - sum_list (map uint xs)) :: u8) =
      word_of_int 256 - word_of_int (sum_list (map uint xs))"
    by (simp only: of_int_diff)
  then show ?thesis by (simp add: word_of_int_sum_uint)
qed

text \<open>
  Claim C7.  For a VIC of 128 or more, the 17-byte buffer that \<^verbatim>\<open>hdmi_config_AVI\<close>
  goes on to write has version byte 3, byte 7 equal to the VIC (the field is one byte,
  so it is the VIC itself for every VIC up to 255 and its low eight bits beyond), and
  byte 3 equal to 256 minus the sum of all other bytes, as a byte; the bytes of the
  whole buffer then sum to 0 modulo 256.
\<close>

theorem avi_buf_extended_vic:
  assumes "128 \<le> vic hdmi"
  shows "case hdmi_config_AVI_buf ext hdmi connector mode of
           (frame, bf) \<Rightarrow>
             length bf = 17 \<and> version frame = 3 \<and> bf ! 1 = 3 \<and>
             bf ! 7 = word_of_int (vic hdmi) \<and>
             (vic hdmi \<le> 255 \<longrightarrow> uint (bf ! 7) = vic hdmi) \<and>
             bf ! 3 = word_of_int (256 - sum_list (map uint (bf[3 := 0]))) \<and>
             sum_list (map unat bf) mod 256 = 0"
proof -
  let ?f1 = "(prep_avi_infoframe ext hdmi connector mode)
      \<lparr>scan_mode := HDMI_SCAN_MODE_NONE, video_code := word_of_int (vic hdmi)\<rparr>"
  let ?b0 = "map (avi_infoframe_pack_only ext ?f1) [0..<17]"
  let ?b1 = "?b0[1 := 3]"
  let ?b2 = "?b1[4 := ?b1 ! 4 AND 0x1f]"
  let ?b3 = "?b2[4 := ?b2 ! 4 OR ucast (push_bit 5 (colorspace ?f1 AND 0x7))]"
  let ?b4 = "?b3[7 := word_of_int (vic hdmi)]"
  have l4: "length ?b4 = 17" by simp
  then obtain b where cs: "hdmi_infoframe_set_checksum ?b4 17 = Some b"
    by (simp add: hdmi_infoframe_set_checksum_def Let_def)
  have four: "(4 :: int) \<le> 17" by simp
  note w = checksum_word [OF cs four]
  have lb: "length b = 17" using w(2) l4 by simp
  have bform: "b = ?b4[3 := - sum_list (?b4[3 := 0])]"
    using w(3) l4 by simp
  have b1: "b ! 1 = 3" unfolding bform by simp
  have b7: "b ! 7 = word_of_int (vic hdmi)" unfolding bform by simp
  have b30: "b[3 := 0] = ?b4[3 := 0]" unfolding bform by simp
  have b3: "b ! 3 = word_of_int (256 - sum_list (map uint (b[3 := 0])))"
    unfolding b30 unfolding bform by (simp add: csum_as_int)
  have u: "vic hdmi \<le> 255 \<longrightarrow> uint (b ! 7) = vic hdmi"
    using assms unfolding b7 by (simp add: uint_word_of_int_eq take_bit_int_eq_self)
  have "sum_list b = 0" using w(1) lb by simp
  then have "unat (sum_list b) = 0" by simp
  then have s: "sum_list (map unat b) mod 256 = 0" by (simp add: unat_sum_list)
  have r: "hdmi_config_AVI_buf ext hdmi connector mode = (?f1\<lparr>version := 3\<rparr>, b)"
    using assms cs by (simp add: hdmi_config_AVI_buf_def Let_def)
  show ?thesis
    unfolding r using lb b1 b7 u b3 s by simp
qed

theorem avi_buf_extended_vic_witness:
  "128 \<le> vic (hdmi0\<lparr>vic := 200\<rparr>) \<and> vic (hdmi0\<lparr>vic := 200\<rparr>) \<le> 255 \<and>
   (case hdmi_config_AVI_buf (ext0 0 200 148500000 False) (hdmi0\<lparr>vic := 200\<rparr>) conn0
           \<lparr>mode_flags = 0\<rparr> of
      (frame, bf) \<Rightarrow>
        length bf = 17 \<and> version frame = 3 \<and> bf ! 1 = 3 \<and>
        bf ! 7 = word_of_int (vic (hdmi0\<lparr>vic := 200\<rparr>)) \<and>
        (vic (hdmi0\<lparr>vic := 200\<rparr>) \<le> 255 \<longrightarrow> uint (bf ! 7) = vic (hdmi0\<lparr>vic := 200\<rparr>)) \<and>
        bf ! 3 = word_of_int (256 - sum_list (map uint (bf[3 := 0]))) \<and>
        sum_list (map unat bf) mod 256 = 0) \<and>
   snd (hdmi_config_AVI_buf (ext0 0 200 148500000 False) (hdmi0\<lparr>vic := 200\<rparr>) conn0
          \<lparr>mode_flags = 0\<rparr>) =
     [0x82, 3, 13, 0xA6, 0, 0, 0, 200, 0, 0, 0, 0, 0, 0, 0, 0, 0]"
proof -
  have a: "128 \<le> vic (hdmi0\<lparr>vic := 200\<rparr>)" by simp
  have b: "vic (hdmi0\<lparr>vic := 200\<rparr>) \<le> 255" by simp
  have c: "snd (hdmi_config_AVI_buf (ext0 0 200 148500000 False) (hdmi0\<lparr>vic := 200\<rparr>) conn0
          \<lparr>mode_flags = 0\<rparr>) =
     [0x82, 3, 13, 0xA6, 0, 0, 0, 200, 0, 0, 0, 0, 0, 0, 0, 0, 0]"
    by code_simp
  note t = avi_buf_extended_vic [OF a, of "ext0 0 200 148500000 False" conn0 "\<lparr>mode_flags = 0\<rparr>"]
  show ?thesis
    by (intro conjI) (rule a, rule b, rule t, rule c)
qed

section \<open>Setup and power\<close>

lemma setup_prep_fields:
  "regm (setup_prep k ext hdmi mode) = regm hdmi"
  "trace (setup_prep k ext hdmi mode) = trace hdmi"
  "phy_enabled (setup_prep k ext hdmi mode) = phy_enabled hdmi"
  "bridge_is_on (setup_prep k ext hdmi mode) = bridge_is_on hdmi"
  "disabled (setup_prep k ext hdmi mode) = disabled hdmi"
  "sink_is_hdmi (setup_prep k ext hdmi mode) = sink_is_hdmi hdmi"
  "i2c (setup_prep k ext hdmi mode) = i2c hdmi"
  by (simp_all add: setup_prep_def Let_def split_beta)

lemma setup_phy_failed:
  assumes "phy_init ext (setup_prep k ext hdmi mode) (display_info connector)
             (previous_mode (setup_prep k ext hdmi mode)) \<noteq> 0"
  shows "dw_hdmi_qp_setup k ext hdmi connector mode =
           (phy_init ext (setup_prep k ext hdmi mode) (display_info connector)
              (previous_mode (setup_prep k ext hdmi mode)),
            (setup_prep k ext hdmi mode)\<lparr>trace := trace hdmi @ [PhyInit]\<rparr>)"
  using assms by (simp add: dw_hdmi_qp_setup_def Let_def setup_prep_fields)

text \<open>
  Claim C3, as amended.  When the power update finds the bridge off and is to switch it
  on, and the PHY's \<open>init\<close> fails inside the setup: the setup returns the PHY's status
  at once, having accessed no register and not having marked the PHY enabled; the power
  update, which marks the bridge on before it calls the setup and drops the status,
  leaves the bridge marked on.
\<close>

theorem update_power_phy_failure:
  assumes on: "\<not> disabled hdmi"
    "force hdmi = DRM_FORCE_ON \<or> force hdmi = DRM_FORCE_ON_DIGITAL \<or>
     (force hdmi = DRM_FORCE_UNSPECIFIED \<and> rxsense hdmi)"
    and off: "\<not> bridge_is_on hdmi" and conn: "curr_conn hdmi = Some c"
    and fail: "phy_init ext (setup_prep k ext (hdmi\<lparr>bridge_is_on := True\<rparr>) (previous_mode hdmi))
                 (display_info c)
                 (previous_mode (setup_prep k ext (hdmi\<lparr>bridge_is_on := True\<rparr>) (previous_mode hdmi)))
               = ret"
      "ret \<noteq> 0"
  shows "fst (dw_hdmi_qp_setup k ext (hdmi\<lparr>bridge_is_on := True\<rparr>) c (previous_mode hdmi)) = ret \<and>
         dw_hdmi_qp_update_power k ext hdmi =
           Some (snd (dw_hdmi_qp_setup k ext (hdmi\<lparr>bridge_is_on := True\<rparr>) c (previous_mode hdmi))) \<and>
         bridge_is_on
           (snd (dw_hdmi_qp_setup k ext (hdmi\<lparr>bridge_is_on := True\<rparr>) c (previous_mode hdmi))) \<and>
         phy_enabled
           (snd (dw_hdmi_qp_setup k ext (hdmi\<lparr>bridge_is_on := True\<rparr>) c (previous_mode hdmi))) =
           phy_enabled hdmi \<and>
         regm (snd (dw_hdmi_qp_setup k ext (hdmi\<lparr>bridge_is_on := True\<rparr>) c (previous_mode hdmi))) =
           regm hdmi \<and>
         trace (snd (dw_hdmi_qp_setup k ext (hdmi\<lparr>bridge_is_on := True\<rparr>) c (previous_mode hdmi))) =
           trace hdmi @ [PhyInit]"
proof -
  let ?h1 = "hdmi\<lparr>bridge_is_on := True\<rparr>"
  let ?P = "setup_prep k ext ?h1 (previous_mode hdmi)"
  have f: "phy_init ext ?P (display_info c) (previous_mode ?P) \<noteq> 0"
    using fail by simp
  have s: "dw_hdmi_qp_setup k ext ?h1 c (previous_mode hdmi) =
      (ret, ?P\<lparr>trace := trace hdmi @ [PhyInit]\<rparr>)"
    using setup_phy_failed [OF f] fail(1) by simp
  have u: "dw_hdmi_qp_update_power k ext hdmi = Some (?P\<lparr>trace := trace hdmi @ [PhyInit]\<rparr>)"
    using on off conn s by (auto simp: dw_hdmi_qp_update_power_def Let_def)
  show ?thesis
    unfolding u s by (simp add: setup_prep_fields)
qed

theorem update_power_phy_failure_witness:
  "\<not> disabled hdmi0 \<and> force hdmi0 = DRM_FORCE_ON \<and> \<not> bridge_is_on hdmi0 \<and>
   curr_conn hdmi0 = Some conn0 \<and>
   phy_init (ext0 (- 5) 16 148500000 False)
     (setup_prep k0 (ext0 (- 5) 16 148500000 False) (hdmi0\<lparr>bridge_is_on := True\<rparr>)
        (previous_mode hdmi0))
     (display_info conn0)
     (previous_mode (setup_prep k0 (ext0 (- 5) 16 148500000 False)
        (hdmi0\<lparr>bridge_is_on := True\<rparr>) (previous_mode hdmi0))) = - 5 \<and>
   (- 5 :: int) \<noteq> 0 \<and>
   fst (dw_hdmi_qp_setup k0 (ext0 (- 5) 16 148500000 False) (hdmi0\<lparr>bridge_is_on := True\<rparr>) conn0
          (previous_mode hdmi0)) = - 5 \<and>
   dw_hdmi_qp_update_power k0 (ext0 (- 5) 16 148500000 False) hdmi0 =
     Some (snd (dw_hdmi_qp_setup k0 (ext0 (- 5) 16 148500000 False)
                  (hdmi0\<lparr>bridge_is_on := True\<rparr>) conn0 (previous_mode hdmi0))) \<and>
   bridge_is_on (snd (dw_hdmi_qp_setup k0 (ext0 (- 5) 16 148500000 False)
                  (hdmi0\<lparr>bridge_is_on := True\<rparr>) conn0 (previous_mode hdmi0))) \<and>
   phy_enabled (snd (dw_hdmi_qp_setup k0 (ext0 (- 5) 16 148500000 False)
                  (hdmi0\<lparr>bridge_is_on := True\<rparr>) conn0 (previous_mode hdmi0))) =
     phy_enabled hdmi0 \<and>
   regm (snd (dw_hdmi_qp_setup k0 (ext0 (- 5) 16 148500000 False)
                  (hdmi0\<lparr>bridge_is_on := True\<rparr>) conn0 (previous_mode hdmi0))) = regm hdmi0 \<and>
   trace (snd (dw_hdmi_qp_setup k0 (ext0 (- 5) 16 148500000 False)
                  (hdmi0\<lparr>bridge_is_on := True\<rparr>) conn0 (previous_mode hdmi0))) =
     trace hdmi0 @ [PhyInit]"
proof -
  have a: "\<not> disabled hdmi0" by (simp add: hdmi0_def)
  have b: "force hdmi0 = DRM_FORCE_ON" by (simp add: hdmi0_def)
  have b': "force hdmi0 = DRM_FORCE_ON \<or> force hdmi0 = DRM_FORCE_ON_DIGITAL \<or>
     (force hdmi0 = DRM_FORCE_UNSPECIFIED \<and> rxsense hdmi0)" using b by simp
  have c: "\<not> bridge_is_on hdmi0" by (simp add: hdmi0_def)
  have d: "curr_conn hdmi0 = Some conn0" by (simp add: hdmi0_def)
  have e: "phy_init (ext0 (- 5) 16 148500000 False)
     (setup_prep k0 (ext0 (- 5) 16 148500000 False) (hdmi0\<lparr>bridge_is_on := True\<rparr>)
        (previous_mode hdmi0))
     (display_info conn0)
     (previous_mode (setup_prep k0 (ext0 (- 5) 16 148500000 False)
        (hdmi0\<lparr>bridge_is_on := True\<rparr>) (previous_mode hdmi0))) = - 5"
    by (simp add: ext0_def)
  have f: "(- 5 :: int) \<noteq> 0" by simp
  note t = update_power_phy_failure [OF a b' c d e f]
  show ?thesis
    using a b c d e f t by blast
qed

text \<open>
  Claim C3 as stated fails: the bridge is off, the setup reports the PHY's failure
  (\<open>- 5\<close>), and after the power update the bridge is marked on.
\<close>

theorem update_power_phy_failure_counterexample:
  "\<not> bridge_is_on hdmi0 \<and>
   fst (dw_hdmi_qp_setup k0 (ext0 (- 5) 16 148500000 False) (hdmi0\<lparr>bridge_is_on := True\<rparr>) conn0
          (previous_mode hdmi0)) = - 5 \<and>
   map_option bridge_is_on (dw_hdmi_qp_update_power k0 (ext0 (- 5) 16 148500000 False) hdmi0) =
     Some True"
  by code_simp

lemma avi_outer_no_scdc:
  "\<exists>ev. trace (avi_outer k h bf i v) = trace h @ ev \<and> filter scdc_event ev = []"
proof (induction k h bf i v rule: avi_outer.induct)
  case (1 k hdmi bf i val)
  show ?case
  proof (cases "i < 4")
    case True
    let ?v = "avi_inner bf i 0 val"
    let ?h = "dw_hdmi_qp_write hdmi ?v (k PKT_AVI_CONTENTS1 + of_nat i * 4)"
    from "1.IH" [OF True refl] obtain ev where
      "trace (avi_outer k ?h bf (i + 1) ?v) = trace ?h @ ev" and n: "filter scdc_event ev = []"
      by blast
    then have "trace (avi_outer k hdmi bf i val) =
        trace hdmi @ (Wr (k PKT_AVI_CONTENTS1 + of_nat i * 4) ?v # ev)"
      using True by (subst avi_outer.simps) (simp add: Let_def)
    moreover have "filter scdc_event (Wr (k PKT_AVI_CONTENTS1 + of_nat i * 4) ?v # ev) = []"
      using n by simp
    ultimately show ?thesis by blast
  next
    case False
    then show ?thesis by (subst avi_outer.simps) simp
  qed
qed

lemma hdmi_config_AVI_no_scdc:
  "\<exists>ev. trace (hdmi_config_AVI k ext hdmi connector mode) = trace hdmi @ ev \<and>
        filter scdc_event ev = []"
proof -
  obtain frame bf where b: "hdmi_config_AVI_buf ext hdmi connector mode = (frame, bf)"
    by (cases "hdmi_config_AVI_buf ext hdmi connector mode")
  let ?val = "push_bit 8 (ucast (version frame)) OR push_bit 16 (ucast (length_f frame)) :: u32"
  let ?h1 = "dw_hdmi_qp_write hdmi ?val (k PKT_AVI_CONTENTS0)"
  obtain ev where e: "trace (avi_outer k ?h1 bf 0 ?val) = trace ?h1 @ ev"
    and n: "filter scdc_event ev = []"
    using avi_outer_no_scdc by blast
  let ?ev = "Wr (k PKT_AVI_CONTENTS0) ?val # ev @
              [Mod (k PKTSCHED_PKT_CONFIG1) (k PKTSCHED_AVI_FIELDRATE) 0,
               Mod (k PKTSCHED_PKT_EN) (k PKTSCHED_AVI_TX_EN OR k PKTSCHED_GCP_TX_EN)
                 (k PKTSCHED_AVI_TX_EN OR k PKTSCHED_GCP_TX_EN)]"
  have "trace (hdmi_config_AVI k ext hdmi connector mode) = trace hdmi @ ?ev"
    by (simp add: hdmi_config_AVI_def b Let_def e)
  moreover have "filter scdc_event ?ev = []"
    using n by simp
  ultimately show ?thesis by blast
qed

lemma drmi_fold_trace:
  "\<exists>ev. trace (snd (fold (drmi_step k f b) xs (v, h))) = trace h @ ev \<and>
        filter scdc_event ev = []"
proof (induction xs arbitrary: v h)
  case Nil
  then show ?case by simp
next
  case (Cons x xs)
  obtain v1 h1 where s: "drmi_step k f b x (v, h) = (v1, h1)"
    by (cases "drmi_step k f b x (v, h)")
  then have "\<exists>e1. trace h1 = trace h @ e1 \<and> filter scdc_event e1 = []"
    by (auto simp: drmi_step_def Let_def split: if_splits)
  then obtain e1 where e1: "trace h1 = trace h @ e1" "filter scdc_event e1 = []" by blast
  from Cons.IH [of v1 h1] obtain e2 where
    e2: "trace (snd (fold (drmi_step k f b) xs (v1, h1))) = trace h1 @ e2"
      "filter scdc_event e2 = []" by blast
  with s e1 have "trace (snd (fold (drmi_step k f b) (x # xs) (v, h))) = trace h @ (e1 @ e2)"
    by simp
  moreover have "filter scdc_event (e1 @ e2) = []" using e1 e2 by simp
  ultimately show ?case by blast
qed

lemma hdmi_config_drm_infoframe_trace:
  "\<exists>ev. trace (hdmi_config_drm_infoframe k ext h c) = trace h @ ev \<and>
        filter scdc_event ev = []"
proof -
  show ?thesis
  proof (cases "use_drm_infoframe h")
    case False
    then show ?thesis by (simp add: hdmi_config_drm_infoframe_def)
  next
    case True
    let ?h1 = "dw_hdmi_qp_mod h 0 (k PKTSCHED_DRMI_TX_EN) (k PKTSCHED_PKT_EN)"
    let ?e0 = "[Mod (k PKTSCHED_PKT_EN) (k PKTSCHED_DRMI_TX_EN) 0]"
    have h1: "trace ?h1 = trace h @ ?e0 \<and> filter scdc_event ?e0 = []"
      by simp
    have full: "\<And>frame buffer. \<exists>ev. trace
        (dw_hdmi_qp_mod
          (dw_hdmi_qp_mod
            (snd (fold (drmi_step k frame buffer) [0..<Suc (unat (length_f frame))]
               (push_bit 8 (ucast (version frame)) OR push_bit 16 (ucast (length_f frame)),
                dw_hdmi_qp_write ?h1
                  (push_bit 8 (ucast (version frame)) OR push_bit 16 (ucast (length_f frame)))
                  (k PKT_DRMI_CONTENTS0))))
            0 (k PKTSCHED_DRMI_FIELDRATE) (k PKTSCHED_PKT_CONFIG1))
          (k PKTSCHED_DRMI_TX_EN) (k PKTSCHED_DRMI_TX_EN) (k PKTSCHED_PKT_EN)) = trace h @ ev \<and>
        filter scdc_event ev = []"
    proof -
      fix frame :: hdmi_infoframe_hdr and buffer :: "nat \<Rightarrow> u8"
      let ?val = "push_bit 8 (ucast (version frame)) OR push_bit 16 (ucast (length_f frame)) :: u32"
      let ?h2 = "dw_hdmi_qp_write ?h1 ?val (k PKT_DRMI_CONTENTS0)"
      from drmi_fold_trace [of k frame buffer "[0..<Suc (unat (length_f frame))]" ?val ?h2]
      obtain ev where ev: "trace (snd (fold (drmi_step k frame buffer)
          [0..<Suc (unat (length_f frame))] (?val, ?h2))) = trace ?h2 @ ev"
          "filter scdc_event ev = []"
        by blast
      let ?all = "?e0 @ Wr (k PKT_DRMI_CONTENTS0) ?val # ev @
          [Mod (k PKTSCHED_PKT_CONFIG1) (k PKTSCHED_DRMI_FIELDRATE) 0,
           Mod (k PKTSCHED_PKT_EN) (k PKTSCHED_DRMI_TX_EN) (k PKTSCHED_DRMI_TX_EN)]"
      have "trace
        (dw_hdmi_qp_mod
          (dw_hdmi_qp_mod
            (snd (fold (drmi_step k frame buffer) [0..<Suc (unat (length_f frame))] (?val, ?h2)))
            0 (k PKTSCHED_DRMI_FIELDRATE) (k PKTSCHED_PKT_CONFIG1))
          (k PKTSCHED_DRMI_TX_EN) (k PKTSCHED_DRMI_TX_EN) (k PKTSCHED_PKT_EN)) = trace h @ ?all"
        using ev(1) by (simp del: upt_Suc)
      moreover have "filter scdc_event ?all = []" using ev(2) by simp
      ultimately show "\<exists>ev. trace
        (dw_hdmi_qp_mod
          (dw_hdmi_qp_mod
            (snd (fold (drmi_step k frame buffer) [0..<Suc (unat (length_f frame))] (?val, ?h2)))
            0 (k PKTSCHED_DRMI_FIELDRATE) (k PKTSCHED_PKT_CONFIG1))
          (k PKTSCHED_DRMI_TX_EN) (k PKTSCHED_DRMI_TX_EN) (k PKTSCHED_PKT_EN)) = trace h @ ev \<and>
        filter scdc_event ev = []"
        by blast
    qed
    show ?thesis
      unfolding hdmi_config_drm_infoframe_def Let_def
      using True h1 full
      by (auto simp del: upt_Suc trace_mod fold_simps split: option.splits)
  qed
qed

lemma setup_at_scdc_eq:
  assumes "phy_init ext (setup_prep k ext hdmi mode) (display_info connector)
             (previous_mode (setup_prep k ext hdmi mode)) = 0"
    and "sink_is_hdmi hdmi"
  shows "snd (dw_hdmi_qp_setup k ext hdmi connector mode) =
     hdmi_config_drm_infoframe k ext
       (hdmi_config_AVI k ext
          (let S = setup_at_scdc k ext hdmi mode;
               scdc = support_scdc ext S (display_info connector)
           in if mtmdsclock (video_mode (hdmi_data S)) > HDMI14_MAX_TMDSCLK
              then dw_hdmi_qp_write (if scdc then scdc_negotiate ext S else S) 1 (k SCRAMB_CONFIG0)
              else dw_hdmi_qp_write (if scdc then scdc_reverse S else S) 0 (k SCRAMB_CONFIG0))
          connector mode) connector"
  using assms
  by (simp add: dw_hdmi_qp_setup_def setup_at_scdc_def Let_def setup_prep_fields)


lemma setup_at_scdc_trace:
  "trace (setup_at_scdc k ext hdmi mode) =
     trace hdmi @ [PhyInit, Mod (k LINK_CONFIG0) (k OPMODE_DVI) 0,
                   Mod (k HDCP2LOGIC_CONFIG0) (k HDCP2_BYPASS) (k HDCP2_BYPASS)]"
  by (simp add: setup_at_scdc_def setup_prep_fields)

text \<open>
  Claim C5, as amended.  When the PHY's \<open>init\<close> succeeds and the sink is HDMI, the setup
  goes on, after the link configuration, as follows.  Above 340,000,000 Hz of TMDS clock
  it writes 1 to \<open>SCRAMB_CONFIG0\<close>, after having negotiated SCDC with the sink (version,
  high TMDS clock ratio and scrambling on) if the sink supports SCDC.  At or below that
  clock it writes 0, after having asked the sink to switch both off, again only if the
  sink supports SCDC.  Nothing else is asked of the sink over SCDC in the rest of the
  setup: without SCDC support the setup asks nothing of the sink.
\<close>

theorem setup_scrambling:
  assumes phy: "phy_init ext (setup_prep k ext hdmi mode) (display_info connector)
             (previous_mode (setup_prep k ext hdmi mode)) = 0"
    and sink: "sink_is_hdmi hdmi"
  shows "\<exists>rest. trace (snd (dw_hdmi_qp_setup k ext hdmi connector mode)) =
     trace hdmi @
     [PhyInit, Mod (k LINK_CONFIG0) (k OPMODE_DVI) 0,
      Mod (k HDCP2LOGIC_CONFIG0) (k HDCP2_BYPASS) (k HDCP2_BYPASS)] @
     (if mtmdsclock (video_mode (hdmi_data (setup_at_scdc k ext hdmi mode))) > HDMI14_MAX_TMDSCLK
      then (if support_scdc ext (setup_at_scdc k ext hdmi mode) (display_info connector)
            then [ScdcReadSinkVersion,
                  ScdcWriteSourceVersion
                    (min (case scdc_sink_version ext of None \<Rightarrow> 0 | Some v \<Rightarrow> v)
                       SCDC_MIN_SOURCE_VERSION),
                  ScdcSetHighTmdsClockRatio True, ScdcSetScrambling True]
            else []) @ [Wr (k SCRAMB_CONFIG0) 1]
      else (if support_scdc ext (setup_at_scdc k ext hdmi mode) (display_info connector)
            then [ScdcSetHighTmdsClockRatio False, ScdcSetScrambling False]
            else []) @ [Wr (k SCRAMB_CONFIG0) 0]) @
     rest \<and> filter scdc_event rest = []"
proof -
  let ?S = "setup_at_scdc k ext hdmi mode"
  let ?scdc = "support_scdc ext ?S (display_info connector)"
  let ?ev = "(if mtmdsclock (video_mode (hdmi_data ?S)) > HDMI14_MAX_TMDSCLK
      then (if ?scdc
            then [ScdcReadSinkVersion,
                  ScdcWriteSourceVersion
                    (min (case scdc_sink_version ext of None \<Rightarrow> 0 | Some v \<Rightarrow> v)
                       SCDC_MIN_SOURCE_VERSION),
                  ScdcSetHighTmdsClockRatio True, ScdcSetScrambling True]
            else []) @ [Wr (k SCRAMB_CONFIG0) 1]
      else (if ?scdc
            then [ScdcSetHighTmdsClockRatio False, ScdcSetScrambling False]
            else []) @ [Wr (k SCRAMB_CONFIG0) 0])"
  let ?h8 = "if mtmdsclock (video_mode (hdmi_data ?S)) > HDMI14_MAX_TMDSCLK
              then dw_hdmi_qp_write (if ?scdc then scdc_negotiate ext ?S else ?S) 1 (k SCRAMB_CONFIG0)
              else dw_hdmi_qp_write (if ?scdc then scdc_reverse ?S else ?S) 0 (k SCRAMB_CONFIG0)"
  have t8: "trace ?h8 = trace ?S @ ?ev"
    by (simp add: scdc_negotiate_def scdc_reverse_def Let_def)
  obtain e1 where e1: "trace (hdmi_config_AVI k ext ?h8 connector mode) = trace ?h8 @ e1"
    and n1: "filter scdc_event e1 = []"
    using hdmi_config_AVI_no_scdc [of k ext ?h8 connector mode] by blast
  obtain e2 where e2: "trace (hdmi_config_drm_infoframe k ext
      (hdmi_config_AVI k ext ?h8 connector mode) connector) =
      trace (hdmi_config_AVI k ext ?h8 connector mode) @ e2"
    and n2: "filter scdc_event e2 = []"
    using hdmi_config_drm_infoframe_trace by blast
  have eq: "snd (dw_hdmi_qp_setup k ext hdmi connector mode) =
      hdmi_config_drm_infoframe k ext (hdmi_config_AVI k ext ?h8 connector mode) connector"
    using setup_at_scdc_eq [OF phy sink] by (simp add: Let_def)
  have "trace (hdmi_config_drm_infoframe k ext (hdmi_config_AVI k ext ?h8 connector mode)
        connector) =
      trace hdmi @ [PhyInit, Mod (k LINK_CONFIG0) (k OPMODE_DVI) 0,
                   Mod (k HDCP2LOGIC_CONFIG0) (k HDCP2_BYPASS) (k HDCP2_BYPASS)] @ ?ev @ (e1 @ e2)"
    unfolding e2 e1 t8 setup_at_scdc_trace by (simp only: append_assoc)
  then have "trace (snd (dw_hdmi_qp_setup k ext hdmi connector mode)) =
      trace hdmi @ [PhyInit, Mod (k LINK_CONFIG0) (k OPMODE_DVI) 0,
                   Mod (k HDCP2LOGIC_CONFIG0) (k HDCP2_BYPASS) (k HDCP2_BYPASS)] @ ?ev @ (e1 @ e2)"
    unfolding eq .
  moreover have "filter scdc_event (e1 @ e2) = []"
    using n1 n2 by simp
  ultimately show ?thesis by blast
qed

theorem setup_scrambling_witness:
  "phy_init (ext0 0 16 594000000 True)
     (setup_prep k0 (ext0 0 16 594000000 True) hdmi0 \<lparr>mode_flags = 0\<rparr>) (display_info conn0)
     (previous_mode (setup_prep k0 (ext0 0 16 594000000 True) hdmi0 \<lparr>mode_flags = 0\<rparr>)) = 0 \<and>
   sink_is_hdmi hdmi0 \<and>
   (\<exists>rest. trace (snd (dw_hdmi_qp_setup k0 (ext0 0 16 594000000 True) hdmi0 conn0
                       \<lparr>mode_flags = 0\<rparr>)) =
     trace hdmi0 @
     [PhyInit, Mod (k0 LINK_CONFIG0) (k0 OPMODE_DVI) 0,
      Mod (k0 HDCP2LOGIC_CONFIG0) (k0 HDCP2_BYPASS) (k0 HDCP2_BYPASS)] @
     (if mtmdsclock (video_mode (hdmi_data (setup_at_scdc k0 (ext0 0 16 594000000 True) hdmi0
            \<lparr>mode_flags = 0\<rparr>))) > HDMI14_MAX_TMDSCLK
      then (if support_scdc (ext0 0 16 594000000 True)
                 (setup_at_scdc k0 (ext0 0 16 594000000 True) hdmi0 \<lparr>mode_flags = 0\<rparr>)
                 (display_info conn0)
            then [ScdcReadSinkVersion,
                  ScdcWriteSourceVersion
                    (min (case scdc_sink_version (ext0 0 16 594000000 True) of
                            None \<Rightarrow> 0 | Some v \<Rightarrow> v)
                       SCDC_MIN_SOURCE_VERSION),
                  ScdcSetHighTmdsClockRatio True, ScdcSetScrambling True]
            else []) @ [Wr (k0 SCRAMB_CONFIG0) 1]
      else (if support_scdc (ext0 0 16 594000000 True)
                 (setup_at_scdc k0 (ext0 0 16 594000000 True) hdmi0 \<lparr>mode_flags = 0\<rparr>)
                 (display_info conn0)
            then [ScdcSetHighTmdsClockRatio False, ScdcSetScrambling False]
            else []) @ [Wr (k0 SCRAMB_CONFIG0) 0]) @
     rest \<and> filter scdc_event rest = []) \<and>
   take 8 (trace (snd (dw_hdmi_qp_setup k0 (ext0 0 16 594000000 True) hdmi0 conn0
                        \<lparr>mode_flags = 0\<rparr>))) =
     [PhyInit, Mod 0x968 0x10000 0, Mod 0x804 1 1, ScdcReadSinkVersion,
      ScdcWriteSourceVersion 1, ScdcSetHighTmdsClockRatio True, ScdcSetScrambling True,
      Wr 0x960 1]"
proof -
  have a: "phy_init (ext0 0 16 594000000 True)
     (setup_prep k0 (ext0 0 16 594000000 True) hdmi0 \<lparr>mode_flags = 0\<rparr>) (display_info conn0)
     (previous_mode (setup_prep k0 (ext0 0 16 594000000 True) hdmi0 \<lparr>mode_flags = 0\<rparr>)) = 0"
    by (simp add: ext0_def)
  have b: "sink_is_hdmi hdmi0" by (simp add: hdmi0_def)
  have c: "take 8 (trace (snd (dw_hdmi_qp_setup k0 (ext0 0 16 594000000 True) hdmi0 conn0
                        \<lparr>mode_flags = 0\<rparr>))) =
     [PhyInit, Mod 0x968 0x10000 0, Mod 0x804 1 1, ScdcReadSinkVersion,
      ScdcWriteSourceVersion 1, ScdcSetHighTmdsClockRatio True, ScdcSetScrambling True,
      Wr 0x960 1]"
    by code_simp
  note t = setup_scrambling [OF a b]
  show ?thesis
    by (intro conjI) (rule a, rule b, rule t, rule c)
qed

text \<open>
  Claim C5 as stated fails: at 148,500,000 Hz with a sink that does not support SCDC
  the setup writes 0 to \<open>SCRAMB_CONFIG0\<close> and asks nothing of the sink.
\<close>

theorem setup_scrambling_counterexample:
  "sink_is_hdmi hdmi0 \<and>
   mtmdsclock (video_mode (hdmi_data (setup_at_scdc k0 (ext0 0 16 148500000 False) hdmi0
       \<lparr>mode_flags = 0\<rparr>))) = 148500000 \<and>
   trace (snd (dw_hdmi_qp_setup k0 (ext0 0 16 148500000 False) hdmi0 conn0 \<lparr>mode_flags = 0\<rparr>)) =
     [PhyInit, Mod 0x968 0x10000 0, Mod 0x804 1 1, Wr 0x960 0,
      Wr 0xa50 0xD0200, Wr 0xa54 0, Wr 0xa58 0x10, Wr 0xa5c 0, Wr 0xa60 0,
      Mod 0xa84 0x2000 0, Mod 0xaa8 0x2008 0x2008] \<and>
   ScdcSetScrambling False \<notin> set (trace (snd (dw_hdmi_qp_setup k0 (ext0 0 16 148500000 False)
       hdmi0 conn0 \<lparr>mode_flags = 0\<rparr>))) \<and>
   ScdcSetHighTmdsClockRatio False \<notin> set (trace (snd (dw_hdmi_qp_setup k0
       (ext0 0 16 148500000 False) hdmi0 conn0 \<lparr>mode_flags = 0\<rparr>)))"
  by code_simp

end
